theory Spec2Isabelle
  imports Main "HOL-Library.Word"
begin

unbundle bit_operations_syntax

section \<open>GeForce command-submission engine: data model\<close>

text \<open>
  The C code works on \<open>uint8_t\<close>, \<open>uint16_t\<close>, \<open>uint32_t\<close> and \<open>uint64_t\<close>; they are
  machine words here, so every \<open>+\<close>, \<open>-\<close>, \<open>*\<close> wraps as in C.
\<close>

type_synonym u8 = "8 word"
type_synonym u16 = "16 word"
type_synonym u32 = "32 word"
type_synonym u64 = "64 word"

text \<open>
  What C leaves undefined becomes a value: an access outside an array, a shift that the
  type cannot hold, a null pointer, a division by zero.
\<close>

datatype fault = Out_Of_Bounds | Shift_Overflow | Null_Pointer | Division_By_Zero

definition bind_r :: "fault + 'a \<Rightarrow> ('a \<Rightarrow> fault + 'b) \<Rightarrow> fault + 'b" where
  "bind_r m f = (case m of Inl e \<Rightarrow> Inl e | Inr v \<Rightarrow> f v)"

text \<open>Constants of \<open>geforce.h\<close>.\<close>

definition GEFORCE_CHANNEL_COUNT :: nat where "GEFORCE_CHANNEL_COUNT = 32"
definition GEFORCE_SUBCHANNEL_COUNT :: nat where "GEFORCE_SUBCHANNEL_COUNT = 8"
definition GEFORCE_CACHE1_SIZE :: nat where "GEFORCE_CACHE1_SIZE = 64"

record GeForceSubchannel =
  object :: u32
  engine :: u8
  notifier :: u32

record GeForceDataState =
  mthd :: u32
  subc :: u32
  mcnt :: u32
  ni :: bool

text \<open>
  \<open>GeForceChannel\<close>, with the fields that the command path reads or writes. The three
  arrays are functions on the index; the code that indexes them checks the bound.
  \<open>ifc_words\<close> is a heap buffer: \<open>None\<close> is the null pointer, \<open>Some ws\<close> a buffer of
  \<open>length ws\<close> words. \<open>d3d_vertex_data\<close> holds the bit patterns of the floats.
\<close>

record GeForceChannel =
  subr_return :: u32
  subr_active :: bool
  dma_state :: GeForceDataState
  schs :: "nat \<Rightarrow> GeForceSubchannel"
  notify_pending :: bool
  notify_type :: u32
  s2d_img_src :: u32
  s2d_img_dst :: u32
  s2d_color_fmt :: u32
  s2d_color_bytes :: u32
  s2d_pitch :: u32
  s2d_ofs_src :: u32
  s2d_ofs_dst :: u32
  ifc_color_key_enable :: bool
  ifc_operation :: u32
  ifc_color_fmt :: u32
  ifc_color_bytes :: u32
  ifc_yx :: u32
  ifc_dhw :: u32
  ifc_shw :: u32
  ifc_words_ptr :: u32
  ifc_words_left :: u32
  ifc_words :: "u32 list option"
  ifc_upload :: bool
  ifc_upload_offset :: u32
  blit_color_key_enable :: bool
  blit_operation :: u32
  blit_syx :: u32
  blit_dyx :: u32
  blit_hw :: u32
  m2mf_src :: u32
  m2mf_dst :: u32
  m2mf_src_offset :: u32
  m2mf_dst_offset :: u32
  m2mf_src_pitch :: u32
  m2mf_dst_pitch :: u32
  m2mf_line_length :: u32
  m2mf_line_count :: u32
  m2mf_format :: u32
  m2mf_buffer_notify :: u32
  d3d_a_obj :: u32
  d3d_b_obj :: u32
  d3d_color_obj :: u32
  d3d_zeta_obj :: u32
  d3d_clip_horizontal :: u32
  d3d_clip_vertical :: u32
  d3d_surface_format :: u32
  d3d_color_bytes :: u32
  d3d_depth_bytes :: u32
  d3d_surface_pitch_a :: u32
  d3d_surface_color_offset :: u32
  d3d_surface_zeta_offset :: u32
  d3d_vertex_index :: u32
  d3d_attrib_index :: u32
  d3d_comp_index :: u32
  d3d_vertex_data :: "nat \<times> nat \<times> nat \<Rightarrow> u32"
  d3d_zstencil_clear_value :: u32
  d3d_color_clear_value :: u32
  d3d_clear_surface :: u32
  rop :: u8
  clip_yx :: u32
  clip_hw :: u32
  patt_shape :: u32
  patt_type :: u32
  patt_bg_color :: u32
  patt_fg_color :: u32
  patt_data_mono :: "nat \<Rightarrow> bool"
  patt_data_color :: "nat \<Rightarrow> u32"
  gdi_operation :: u32
  gdi_color_fmt :: u32
  gdi_mono_fmt :: u32
  gdi_clip_yx0 :: u32
  gdi_clip_yx1 :: u32
  gdi_rect_color :: u32
  gdi_rect_xy :: u32
  gdi_rect_yx0 :: u32
  gdi_rect_yx1 :: u32
  gdi_rect_wh :: u32

text \<open>
  \<open>GeForceState\<close>, with the fields of the command path. \<open>vram\<close> is the byte array of
  \<open>memsize\<close> bytes allocated by \<open>geforce_realize\<close>. Three fields stand for what lies
  outside the device: \<open>phys\<close> is the guest-physical address space reached through
  \<open>address_space_memory\<close>, taken to be plain byte storage; \<open>clock_ns\<close> is the value of
  \<open>qemu_clock_get_ns(QEMU_CLOCK_VIRTUAL)\<close>; \<open>irq_level\<close> is the level last given to
  \<open>pci_set_irq\<close>. Logging and the display notifier \<open>dpy_gfx_update\<close> change nothing
  that the command path reads, and are left out.
\<close>

record GeForceState =
  card_type :: u32
  memsize :: u32
  ramin_flip :: u32
  class_mask :: u32
  vram :: "u32 \<Rightarrow> u8"
  phys :: "u32 \<Rightarrow> u8"
  clock_ns :: u64
  irq_level :: bool
  bpp :: u32
  mc_intr_en :: u32
  bus_intr :: u32
  bus_intr_en :: u32
  fifo_intr :: u32
  fifo_intr_en :: u32
  graph_intr :: u32
  graph_nsource :: u32
  graph_intr_en :: u32
  graph_notify :: u32
  crtc_intr :: u32
  crtc_intr_en :: u32
  fifo_ramht :: u32
  fifo_ramfc :: u32
  fifo_cache1_push1 :: u32
  fifo_cache1_put :: u32
  fifo_cache1_get :: u32
  fifo_cache1_dma_instance :: u32
  fifo_cache1_dma_put :: u32
  fifo_cache1_dma_get :: u32
  fifo_cache1_ref_cnt :: u32
  fifo_cache1_pull0 :: u32
  fifo_cache1_semaphore :: u32
  fifo_cache1_method :: "nat \<Rightarrow> u32"
  fifo_cache1_data :: "nat \<Rightarrow> u32"
  timer_inittime1 :: u64
  timer_inittime2 :: u64
  channels :: "nat \<Rightarrow> GeForceChannel"

section \<open>Memory access\<close>

text \<open>Little-endian loads and stores on a byte array (\<open>ldl_le_p\<close>, \<open>stl_le_p\<close>, ...).\<close>

definition le16 :: "u8 \<Rightarrow> u8 \<Rightarrow> u16" where
  "le16 b0 b1 = ucast b0 OR push_bit 8 (ucast b1)"

definition le32 :: "u8 \<Rightarrow> u8 \<Rightarrow> u8 \<Rightarrow> u8 \<Rightarrow> u32" where
  "le32 b0 b1 b2 b3 =
     ucast b0 OR push_bit 8 (ucast b1) OR push_bit 16 (ucast b2) OR push_bit 24 (ucast b3)"

definition ld16 :: "(u32 \<Rightarrow> u8) \<Rightarrow> u32 \<Rightarrow> u16" where
  "ld16 m a = le16 (m a) (m (a + 1))"

definition ld32 :: "(u32 \<Rightarrow> u8) \<Rightarrow> u32 \<Rightarrow> u32" where
  "ld32 m a = le32 (m a) (m (a + 1)) (m (a + 2)) (m (a + 3))"

definition st16 :: "(u32 \<Rightarrow> u8) \<Rightarrow> u32 \<Rightarrow> u16 \<Rightarrow> (u32 \<Rightarrow> u8)" where
  "st16 m a v = m(a := ucast v, a + 1 := ucast (drop_bit 8 v))"

definition st32 :: "(u32 \<Rightarrow> u8) \<Rightarrow> u32 \<Rightarrow> u32 \<Rightarrow> (u32 \<Rightarrow> u8)" where
  "st32 m a v = m(a := ucast v, a + 1 := ucast (drop_bit 8 v),
                  a + 2 := ucast (drop_bit 16 v), a + 3 := ucast (drop_bit 24 v))"

definition st64 :: "(u32 \<Rightarrow> u8) \<Rightarrow> u32 \<Rightarrow> u64 \<Rightarrow> (u32 \<Rightarrow> u8)" where
  "st64 m a v = m(a := ucast v, a + 1 := ucast (drop_bit 8 v),
                  a + 2 := ucast (drop_bit 16 v), a + 3 := ucast (drop_bit 24 v),
                  a + 4 := ucast (drop_bit 32 v), a + 5 := ucast (drop_bit 40 v),
                  a + 6 := ucast (drop_bit 48 v), a + 7 := ucast (drop_bit 56 v))"

text \<open>
  \<open>in_vram s addr n\<close>: the \<open>n\<close> bytes from \<open>addr\<close> lie inside the array. The C code
  computes \<open>s->vram + addr\<close> with no wrap-around, so this is a sum of naturals.
\<close>

definition in_vram :: "GeForceState \<Rightarrow> u32 \<Rightarrow> nat \<Rightarrow> bool" where
  "in_vram s addr n = (unat addr + n \<le> unat (memsize s))"

text \<open>
  The guards of the source are 32-bit sums: \<open>addr + 3 < s->memsize\<close> wraps for the last
  three addresses, and then the access leaves the array.
\<close>

definition geforce_vram_read8 :: "GeForceState \<Rightarrow> u32 \<Rightarrow> fault + u8" where
  "geforce_vram_read8 s addr =
     (if addr < memsize s then Inr (vram s addr) else Inr 0)"

definition geforce_vram_read16 :: "GeForceState \<Rightarrow> u32 \<Rightarrow> fault + u16" where
  "geforce_vram_read16 s addr =
     (if addr + 1 < memsize s
      then (if in_vram s addr 2 then Inr (ld16 (vram s) addr) else Inl Out_Of_Bounds)
      else Inr 0)"

definition geforce_vram_read32 :: "GeForceState \<Rightarrow> u32 \<Rightarrow> fault + u32" where
  "geforce_vram_read32 s addr =
     (if addr + 3 < memsize s
      then (if in_vram s addr 4 then Inr (ld32 (vram s) addr) else Inl Out_Of_Bounds)
      else Inr 0)"

definition geforce_vram_write8 :: "GeForceState \<Rightarrow> u32 \<Rightarrow> u8 \<Rightarrow> fault + GeForceState" where
  "geforce_vram_write8 s addr val =
     (if addr < memsize s then Inr (s\<lparr>vram := (vram s)(addr := val)\<rparr>) else Inr s)"

definition geforce_vram_write16 :: "GeForceState \<Rightarrow> u32 \<Rightarrow> u16 \<Rightarrow> fault + GeForceState" where
  "geforce_vram_write16 s addr val =
     (if addr + 1 < memsize s
      then (if in_vram s addr 2 then Inr (s\<lparr>vram := st16 (vram s) addr val\<rparr>)
            else Inl Out_Of_Bounds)
      else Inr s)"

definition geforce_vram_write32 :: "GeForceState \<Rightarrow> u32 \<Rightarrow> u32 \<Rightarrow> fault + GeForceState" where
  "geforce_vram_write32 s addr val =
     (if addr + 3 < memsize s
      then (if in_vram s addr 4 then Inr (s\<lparr>vram := st32 (vram s) addr val\<rparr>)
            else Inl Out_Of_Bounds)
      else Inr s)"

definition geforce_vram_write64 :: "GeForceState \<Rightarrow> u32 \<Rightarrow> u64 \<Rightarrow> fault + GeForceState" where
  "geforce_vram_write64 s addr val =
     (if addr + 7 < memsize s
      then (if in_vram s addr 8 then Inr (s\<lparr>vram := st64 (vram s) addr val\<rparr>)
            else Inl Out_Of_Bounds)
      else Inr s)"

definition geforce_ramin_read8 :: "GeForceState \<Rightarrow> u32 \<Rightarrow> fault + u8" where
  "geforce_ramin_read8 s addr = geforce_vram_read8 s (addr XOR ramin_flip s)"

definition geforce_ramin_read32 :: "GeForceState \<Rightarrow> u32 \<Rightarrow> fault + u32" where
  "geforce_ramin_read32 s addr = geforce_vram_read32 s (addr XOR ramin_flip s)"

definition geforce_ramin_write8 :: "GeForceState \<Rightarrow> u32 \<Rightarrow> u8 \<Rightarrow> fault + GeForceState" where
  "geforce_ramin_write8 s addr val = geforce_vram_write8 s (addr XOR ramin_flip s) val"

definition geforce_ramin_write32 :: "GeForceState \<Rightarrow> u32 \<Rightarrow> u32 \<Rightarrow> fault + GeForceState" where
  "geforce_ramin_write32 s addr val = geforce_vram_write32 s (addr XOR ramin_flip s) val"

text \<open>The guest-physical address space: plain byte storage, every address present.\<close>

definition geforce_physical_read8 :: "GeForceState \<Rightarrow> u32 \<Rightarrow> u8" where
  "geforce_physical_read8 s addr = phys s addr"

definition geforce_physical_read16 :: "GeForceState \<Rightarrow> u32 \<Rightarrow> u16" where
  "geforce_physical_read16 s addr = ld16 (phys s) addr"

definition geforce_physical_read32 :: "GeForceState \<Rightarrow> u32 \<Rightarrow> u32" where
  "geforce_physical_read32 s addr = ld32 (phys s) addr"

definition geforce_physical_write8 :: "GeForceState \<Rightarrow> u32 \<Rightarrow> u8 \<Rightarrow> GeForceState" where
  "geforce_physical_write8 s addr val = s\<lparr>phys := (phys s)(addr := val)\<rparr>"

definition geforce_physical_write16 :: "GeForceState \<Rightarrow> u32 \<Rightarrow> u16 \<Rightarrow> GeForceState" where
  "geforce_physical_write16 s addr val = s\<lparr>phys := st16 (phys s) addr val\<rparr>"

definition geforce_physical_write32 :: "GeForceState \<Rightarrow> u32 \<Rightarrow> u32 \<Rightarrow> GeForceState" where
  "geforce_physical_write32 s addr val = s\<lparr>phys := st32 (phys s) addr val\<rparr>"

definition geforce_physical_write64 :: "GeForceState \<Rightarrow> u32 \<Rightarrow> u64 \<Rightarrow> GeForceState" where
  "geforce_physical_write64 s addr val = s\<lparr>phys := st64 (phys s) addr val\<rparr>"

section \<open>Address translation\<close>

definition geforce_dma_pt_lookup :: "GeForceState \<Rightarrow> u32 \<Rightarrow> u32 \<Rightarrow> fault + u32" where
  "geforce_dma_pt_lookup s obj addr =
     bind_r (geforce_ramin_read32 s obj) (\<lambda>w0.
       let address_adj = addr + drop_bit 20 w0;
           page_offset = address_adj AND 0xFFF;
           page_index = drop_bit 12 address_adj
       in bind_r (geforce_ramin_read32 s (obj + 8 + page_index * 4)) (\<lambda>e.
            Inr ((e AND 0xFFFFF000) OR page_offset)))"

definition geforce_dma_lin_lookup :: "GeForceState \<Rightarrow> u32 \<Rightarrow> u32 \<Rightarrow> fault + u32" where
  "geforce_dma_lin_lookup s obj addr =
     bind_r (geforce_ramin_read32 s obj) (\<lambda>w0.
       let adjust = drop_bit 20 w0
       in bind_r (geforce_ramin_read32 s (obj + 8)) (\<lambda>w2.
            let base = w2 AND 0xFFFFF000
            in Inr (base + adjust + addr)))"

text \<open>
  Every \<open>geforce_dma_read*\<close> and \<open>geforce_dma_write*\<close> starts with the same lines: read the
  flag word, then take the linear or the paged translation. \<open>dma_addr_abs\<close> is that
  common prefix; it returns the flag word and the absolute address.
\<close>

definition dma_addr_abs :: "GeForceState \<Rightarrow> u32 \<Rightarrow> u32 \<Rightarrow> fault + (u32 \<times> u32)" where
  "dma_addr_abs s obj addr =
     bind_r (geforce_ramin_read32 s obj) (\<lambda>flags.
       bind_r (if flags AND 0x00002000 \<noteq> 0 then geforce_dma_lin_lookup s obj addr
               else geforce_dma_pt_lookup s obj addr) (\<lambda>addr_abs.
         Inr (flags, addr_abs)))"

definition geforce_dma_read8 :: "GeForceState \<Rightarrow> u32 \<Rightarrow> u32 \<Rightarrow> fault + u8" where
  "geforce_dma_read8 s obj addr =
     bind_r (dma_addr_abs s obj addr) (\<lambda>(flags, addr_abs).
       if flags AND 0x00020000 \<noteq> 0 then Inr (geforce_physical_read8 s addr_abs)
       else geforce_vram_read8 s addr_abs)"

definition geforce_dma_read16 :: "GeForceState \<Rightarrow> u32 \<Rightarrow> u32 \<Rightarrow> fault + u16" where
  "geforce_dma_read16 s obj addr =
     bind_r (dma_addr_abs s obj addr) (\<lambda>(flags, addr_abs).
       if flags AND 0x00020000 \<noteq> 0 then Inr (geforce_physical_read16 s addr_abs)
       else geforce_vram_read16 s addr_abs)"

definition geforce_dma_read32 :: "GeForceState \<Rightarrow> u32 \<Rightarrow> u32 \<Rightarrow> fault + u32" where
  "geforce_dma_read32 s obj addr =
     bind_r (dma_addr_abs s obj addr) (\<lambda>(flags, addr_abs).
       if flags AND 0x00020000 \<noteq> 0 then Inr (geforce_physical_read32 s addr_abs)
       else geforce_vram_read32 s addr_abs)"

definition geforce_dma_write8 :: "GeForceState \<Rightarrow> u32 \<Rightarrow> u32 \<Rightarrow> u8 \<Rightarrow> fault + GeForceState" where
  "geforce_dma_write8 s obj addr val =
     bind_r (dma_addr_abs s obj addr) (\<lambda>(flags, addr_abs).
       if flags AND 0x00020000 \<noteq> 0 then Inr (geforce_physical_write8 s addr_abs val)
       else geforce_vram_write8 s addr_abs val)"

definition geforce_dma_write16 :: "GeForceState \<Rightarrow> u32 \<Rightarrow> u32 \<Rightarrow> u16 \<Rightarrow> fault + GeForceState" where
  "geforce_dma_write16 s obj addr val =
     bind_r (dma_addr_abs s obj addr) (\<lambda>(flags, addr_abs).
       if flags AND 0x00020000 \<noteq> 0 then Inr (geforce_physical_write16 s addr_abs val)
       else geforce_vram_write16 s addr_abs val)"

definition geforce_dma_write32 :: "GeForceState \<Rightarrow> u32 \<Rightarrow> u32 \<Rightarrow> u32 \<Rightarrow> fault + GeForceState" where
  "geforce_dma_write32 s obj addr val =
     bind_r (dma_addr_abs s obj addr) (\<lambda>(flags, addr_abs).
       if flags AND 0x00020000 \<noteq> 0 then Inr (geforce_physical_write32 s addr_abs val)
       else geforce_vram_write32 s addr_abs val)"

definition geforce_dma_write64 :: "GeForceState \<Rightarrow> u32 \<Rightarrow> u32 \<Rightarrow> u64 \<Rightarrow> fault + GeForceState" where
  "geforce_dma_write64 s obj addr val =
     bind_r (dma_addr_abs s obj addr) (\<lambda>(flags, addr_abs).
       if flags AND 0x00020000 \<noteq> 0 then Inr (geforce_physical_write64 s addr_abs val)
       else geforce_vram_write64 s addr_abs val)"

section \<open>Channel context records (RAMFC)\<close>

definition geforce_ramfc_address :: "GeForceState \<Rightarrow> u32 \<Rightarrow> u32 \<Rightarrow> u32" where
  "geforce_ramfc_address s chid offset =
     (let ramfc = (if card_type s < 0x40 then push_bit 8 (fifo_ramfc s AND 0xFFF)
                   else push_bit 16 (fifo_ramfc s AND 0xFFF));
          ramfc_ch_size = (if card_type s < 0x40 then 0x40 else 0x80)
      in ramfc + chid * ramfc_ch_size + offset)"

definition geforce_ramfc_write32 :: "GeForceState \<Rightarrow> u32 \<Rightarrow> u32 \<Rightarrow> u32 \<Rightarrow> fault + GeForceState" where
  "geforce_ramfc_write32 s chid offset val =
     geforce_ramin_write32 s (geforce_ramfc_address s chid offset) val"

definition geforce_ramfc_read32 :: "GeForceState \<Rightarrow> u32 \<Rightarrow> u32 \<Rightarrow> fault + u32" where
  "geforce_ramfc_read32 s chid offset =
     geforce_ramin_read32 s (geforce_ramfc_address s chid offset)"

section \<open>Handle table (RAMHT)\<close>

text \<open>
  The context word of a slot, decoded by device generation (\<open>card_type < 0x40\<close> or not).
\<close>

definition ramht_ctx_chid :: "GeForceState \<Rightarrow> u32 \<Rightarrow> u32" where
  "ramht_ctx_chid s ctx =
     (if card_type s < 0x40 then drop_bit 24 ctx AND 0x1F else drop_bit 23 ctx AND 0x1F)"

definition ramht_ctx_object :: "GeForceState \<Rightarrow> u32 \<Rightarrow> u32" where
  "ramht_ctx_object s ctx =
     (if card_type s < 0x40 then push_bit 4 (ctx AND 0xFFFF) else push_bit 4 (ctx AND 0xFFFFF))"

definition ramht_ctx_engine :: "GeForceState \<Rightarrow> u32 \<Rightarrow> u8" where
  "ramht_ctx_engine s ctx =
     (if card_type s < 0x40 then ucast (drop_bit 16 ctx AND 0xFF)
      else ucast (drop_bit 20 ctx AND 0x7))"

text \<open>
  The two output pointers \<open>object\<close> and \<open>engine\<close> of \<open>geforce_ramht_lookup\<close> are a pair
  of optional values: \<open>None\<close> is a null pointer, \<open>Some v\<close> a location that holds \<open>v\<close>.
  The function returns the contents of the two locations when it is done.
\<close>

type_synonym ramht_outs = "u32 option \<times> u8 option"

definition ramht_store :: "GeForceState \<Rightarrow> u32 \<Rightarrow> ramht_outs \<Rightarrow> ramht_outs" where
  "ramht_store s ctx outs =
     (case outs of (obj_out, eng_out) \<Rightarrow>
        ((case obj_out of None \<Rightarrow> None | Some _ \<Rightarrow> Some (ramht_ctx_object s ctx)),
         (case eng_out of None \<Rightarrow> None | Some _ \<Rightarrow> Some (ramht_ctx_engine s ctx))))"

text \<open>
  The test inside the probe loop, at table offset \<open>it\<close>: \<open>Some outs'\<close> when the slot holds
  the handle and its context word names the channel (the function then returns),
  \<open>None\<close> when the probe goes on.
\<close>

definition ramht_slot :: "GeForceState \<Rightarrow> u32 \<Rightarrow> u32 \<Rightarrow> u32 \<Rightarrow> u32 \<Rightarrow> ramht_outs
    \<Rightarrow> fault + ramht_outs option" where
  "ramht_slot s handle chid ramht_addr it outs =
     bind_r (geforce_ramin_read32 s (ramht_addr + it)) (\<lambda>h.
       if h = handle
       then bind_r (geforce_ramin_read32 s (ramht_addr + it + 4)) (\<lambda>ctx.
              if chid = ramht_ctx_chid s ctx then Inr (Some (ramht_store s ctx outs))
              else Inr None)
       else Inr None)"

text \<open>
  The \<open>do ... while (it != hash)\<close> loop. It is a partial function: \<open>None\<close> is a loop
  that does not end, \<open>Some (Inl f)\<close> a fault, \<open>Some (Inr outs)\<close> the normal return.
\<close>

partial_function (option) ramht_probe :: "GeForceState \<Rightarrow> u32 \<Rightarrow> u32 \<Rightarrow> u32 \<Rightarrow> u32 \<Rightarrow> u32
    \<Rightarrow> ramht_outs \<Rightarrow> u32 \<Rightarrow> (fault + ramht_outs) option" where
  "ramht_probe s handle chid ramht_addr ramht_size hash outs it =
     (case ramht_slot s handle chid ramht_addr it outs of
        Inl e \<Rightarrow> Some (Inl e)
      | Inr (Some res) \<Rightarrow> Some (Inr res)
      | Inr None \<Rightarrow>
          (let it1 = it + 8;
               it2 = (if it1 \<ge> ramht_size then 0 else it1)
           in if it2 \<noteq> hash
              then ramht_probe s handle chid ramht_addr ramht_size hash outs it2
              else Some (Inr outs)))"

text \<open>
  The hash loop \<open>while (x) { hash ^= x & ((1 << ramht_bits) - 1); x >>= ramht_bits; }\<close>.
  Its first argument is the size field \<open>n = (fifo_ramht >> 16) & 0xFF\<close>, and
  \<open>ramht_bits = n + 9\<close>.
\<close>

function ramht_hash_loop :: "nat \<Rightarrow> u32 \<Rightarrow> u32 \<Rightarrow> u32" where
  "ramht_hash_loop n x hash =
     (if x \<noteq> 0
      then ramht_hash_loop n (drop_bit (n + 9) x) (hash XOR (x AND mask (n + 9)))
      else hash)"
  by pat_completeness auto
termination
proof (relation "measure (\<lambda>(n, x, hash). unat x)")
  show "wf (measure (\<lambda>(n, x, hash). unat x))"
    by simp
next
  fix n :: nat and x hash :: u32
  assume nz: "x \<noteq> 0"
  then have pos: "0 < unat x"
    by (simp add: unat_gt_0)
  have "unat (drop_bit (n + 9) x) = drop_bit (n + 9) (unat x)"
    by (rule unat_drop_bit_eq)
  also have "\<dots> = unat x div 2 ^ (n + 9)"
    by (rule drop_bit_eq_div)
  also have "\<dots> < unat x"
  proof (rule div_less_dividend)
    have "(2::nat) ^ 1 \<le> 2 ^ (n + 9)"
      by (rule power_increasing) simp_all
    then show "1 < (2::nat) ^ (n + 9)"
      by simp
  qed (rule pos)
  finally show "((n, drop_bit (n + 9) x, hash XOR (x AND mask (n + 9))), (n, x, hash))
      \<in> measure (\<lambda>(n, x, hash). unat x)"
    by simp
qed

text \<open>
  The locals of \<open>geforce_ramht_lookup\<close>: table address, \<open>ramht_bits\<close>, table size in
  bytes, and the byte offset \<open>hash\<close> of the first slot probed.
\<close>

definition ramht_addr :: "GeForceState \<Rightarrow> u32" where
  "ramht_addr s = push_bit 8 (fifo_ramht s AND 0xFFF)"

definition ramht_bits :: "GeForceState \<Rightarrow> nat" where
  "ramht_bits s = unat (drop_bit 16 (fifo_ramht s) AND 0xFF) + 9"

definition ramht_size :: "GeForceState \<Rightarrow> u32" where
  "ramht_size s = push_bit 3 (push_bit (ramht_bits s) 1)"

definition ramht_hash :: "GeForceState \<Rightarrow> u32 \<Rightarrow> u32 \<Rightarrow> u32" where
  "ramht_hash s handle chid =
     (let hash0 = ramht_hash_loop (ramht_bits s - 9) handle 0;
          hash1 = hash0 XOR push_bit (ramht_bits s - 4) (chid AND 0xF)
      in push_bit 3 hash1)"

text \<open>
  \<open>1 << ramht_bits << 3\<close> is a shift of an \<open>int\<close>: C defines it only while the result
  fits, that is for \<open>ramht_bits \<le> 27\<close>. Beyond that the model reports a fault.
\<close>

definition geforce_ramht_lookup :: "GeForceState \<Rightarrow> u32 \<Rightarrow> u32 \<Rightarrow> ramht_outs
    \<Rightarrow> (fault + ramht_outs) option" where
  "geforce_ramht_lookup s handle chid outs =
     (if ramht_bits s > 27 then Some (Inl Shift_Overflow)
      else ramht_probe s handle chid (ramht_addr s) (ramht_size s) (ramht_hash s handle chid)
             outs (ramht_hash s handle chid))"

section \<open>Interrupts and time\<close>

definition geforce_update_irq :: "GeForceState \<Rightarrow> GeForceState" where
  "geforce_update_irq s =
     (let level0 = (0 :: u32);
          level1 = (if bus_intr s AND bus_intr_en s \<noteq> 0 then level0 OR 0x10000000 else level0);
          level2 = (if fifo_intr s AND fifo_intr_en s \<noteq> 0 then level1 OR 0x00000100 else level1);
          level3 = (if graph_intr s AND graph_intr_en s \<noteq> 0 then level2 OR 0x00001000 else level2);
          level4 = (if crtc_intr s AND crtc_intr_en s \<noteq> 0 then level3 OR 0x01000000 else level3)
      in s\<lparr>irq_level := (level4 \<noteq> 0 \<and> mc_intr_en s AND 1 \<noteq> 0)\<rparr>)"

definition geforce_get_current_time :: "GeForceState \<Rightarrow> u64" where
  "geforce_get_current_time s =
     (timer_inittime1 s + clock_ns s - timer_inittime2 s) AND NOT 0x1F"

section \<open>Graphics operations\<close>

text \<open>
  A counted loop \<open>for (i = 0; i < n; i++)\<close> whose body may fault: the body is run for
  \<open>i = 0, ..., n - 1\<close> on the value carried round the loop, and a fault ends it.
\<close>

definition for_r :: "nat \<Rightarrow> (nat \<Rightarrow> 'a \<Rightarrow> fault + 'a) \<Rightarrow> 'a \<Rightarrow> fault + 'a" where
  "for_r n body a = fold (\<lambda>i r. bind_r r (body i)) [0..<n] (Inr a)"

definition geforce_get_pixel :: "GeForceState \<Rightarrow> u32 \<Rightarrow> u32 \<Rightarrow> u32 \<Rightarrow> u32 \<Rightarrow> fault + u32" where
  "geforce_get_pixel s obj ofs x cb =
     (if cb = 1 then bind_r (geforce_dma_read8 s obj (ofs + x)) (\<lambda>v. Inr (ucast v))
      else if cb = 2 then bind_r (geforce_dma_read16 s obj (ofs + x * 2)) (\<lambda>v. Inr (ucast v))
      else geforce_dma_read32 s obj (ofs + x * 4))"

definition geforce_put_pixel :: "GeForceState \<Rightarrow> GeForceChannel \<Rightarrow> u32 \<Rightarrow> u32 \<Rightarrow> u32
    \<Rightarrow> fault + GeForceState" where
  "geforce_put_pixel s ch ofs x val =
     (if s2d_color_bytes ch = 1 then geforce_dma_write8 s (s2d_img_dst ch) (ofs + x) (ucast val)
      else if s2d_color_bytes ch = 2
        then geforce_dma_write16 s (s2d_img_dst ch) (ofs + x * 2) (ucast val)
      else if s2d_color_fmt ch = 6
        then geforce_dma_write32 s (s2d_img_dst ch) (ofs + x * 4) (val AND 0x00FFFFFF)
      else geforce_dma_write32 s (s2d_img_dst ch) (ofs + x * 4) val)"

text \<open>
  \<open>geforce_gdi_fillrect\<close>. The \<open>int16_t\<close> locals are 16-bit words read as signed
  (\<open>sint\<close>, and \<open>scast\<close> where C converts them to \<open>uint32_t\<close>).
\<close>

definition geforce_gdi_fillrect :: "GeForceState \<Rightarrow> GeForceChannel \<Rightarrow> bool \<Rightarrow> fault + GeForceState" where
  "geforce_gdi_fillrect s ch clipped =
     (let cdx = (ucast (gdi_rect_yx0 ch AND 0xFFFF) :: u16);
          cdy = (ucast (drop_bit 16 (gdi_rect_yx0 ch)) :: u16);
          clipx0 = (ucast (gdi_clip_yx0 ch AND 0xFFFF) :: u16) - cdx;
          clipy0 = (ucast (drop_bit 16 (gdi_clip_yx0 ch)) :: u16) - cdy;
          clipx1 = (ucast (gdi_clip_yx1 ch AND 0xFFFF) :: u16) - cdx;
          clipy1 = (ucast (drop_bit 16 (gdi_clip_yx1 ch)) :: u16) - cdy;
          dx = (if clipped then cdx else ucast (drop_bit 16 (gdi_rect_xy ch)));
          dy = (if clipped then cdy else ucast (gdi_rect_xy ch AND 0xFFFF));
          width = (if clipped then ucast ((gdi_rect_yx1 ch AND 0xFFFF) - scast dx)
                   else ucast (drop_bit 16 (gdi_rect_wh ch)) :: u16);
          height = (if clipped then ucast (drop_bit 16 (gdi_rect_yx1 ch) - scast dy)
                    else ucast (gdi_rect_wh ch AND 0xFFFF) :: u16);
          pitch = drop_bit 16 (s2d_pitch ch);
          srccolor = gdi_rect_color ch;
          draw_offset = s2d_ofs_dst ch + scast dy * pitch + scast dx * s2d_color_bytes ch
      in bind_r
           (for_r (unat height) (\<lambda>y (s1, ofs).
              bind_r
                (for_r (unat width) (\<lambda>x s2.
                   if \<not> clipped \<or> (sint clipx0 \<le> int x \<and> int x < sint clipx1 \<and>
                                     sint clipy0 \<le> int y \<and> int y < sint clipy1)
                   then geforce_put_pixel s2 ch ofs (of_nat x) srccolor
                   else Inr s2) s1)
                (\<lambda>s3. Inr (s3, ofs + pitch)))
              (s, draw_offset))
           (\<lambda>(s4, ofs). Inr s4))"

text \<open>
  \<open>geforce_ifc\<close> reads the upload buffer as 32-bit, 16-bit or 8-bit elements, by the
  host's byte order; the host is taken to be little-endian. A read outside the buffer,
  or through the null pointer, is a fault.
\<close>

definition ifc_word_at :: "u32 list option \<Rightarrow> u32 \<Rightarrow> u32 \<Rightarrow> fault + u32" where
  "ifc_word_at buf cb i =
     (case buf of
        None \<Rightarrow> Inl Null_Pointer
      | Some ws \<Rightarrow>
          (let k = unat i in
           if cb = 4 then (if k < length ws then Inr (ws ! k) else Inl Out_Of_Bounds)
           else if cb = 2
             then (if k div 2 < length ws
                   then Inr (drop_bit (16 * (k mod 2)) (ws ! (k div 2)) AND 0xFFFF)
                   else Inl Out_Of_Bounds)
           else (if k div 4 < length ws
                 then Inr (drop_bit (8 * (k mod 4)) (ws ! (k div 4)) AND 0xFF)
                 else Inl Out_Of_Bounds)))"

definition geforce_ifc :: "GeForceState \<Rightarrow> GeForceChannel \<Rightarrow> fault + GeForceState" where
  "geforce_ifc s ch =
     (let dx = (ucast (ifc_yx ch AND 0xFFFF) :: u16);
          dy = (ucast (drop_bit 16 (ifc_yx ch)) :: u16);
          dwidth = ifc_dhw ch AND 0xFFFF;
          height = drop_bit 16 (ifc_dhw ch);
          swidth = ifc_shw ch AND 0xFFFF;
          pitch = drop_bit 16 (s2d_pitch ch);
          draw_offset = s2d_ofs_dst ch + ucast dy * pitch + ucast dx * s2d_color_bytes ch
      in bind_r
           (for_r (unat height) (\<lambda>y (s1, ofs, wofs).
              bind_r
                (for_r (unat dwidth) (\<lambda>x (s2, w).
                   bind_r (ifc_word_at (ifc_words ch) (ifc_color_bytes ch) w) (\<lambda>srccolor.
                     bind_r (geforce_put_pixel s2 ch ofs (of_nat x) srccolor) (\<lambda>s3.
                       Inr (s3, w + 1)))) (s1, wofs))
                (\<lambda>(s4, w). Inr (s4, ofs + pitch, w + (swidth - dwidth))))
              (s, draw_offset, 0))
           (\<lambda>(s5, ofs, w). Inr s5))"

definition geforce_copyarea :: "GeForceState \<Rightarrow> GeForceChannel \<Rightarrow> fault + GeForceState" where
  "geforce_copyarea s ch =
     (let sx = (ucast (blit_syx ch AND 0xFFFF) :: u16);
          sy = (ucast (drop_bit 16 (blit_syx ch)) :: u16);
          dx = (ucast (blit_dyx ch AND 0xFFFF) :: u16);
          dy = (ucast (drop_bit 16 (blit_dyx ch)) :: u16);
          width = (ucast (blit_hw ch AND 0xFFFF) :: u16);
          height = (ucast (drop_bit 16 (blit_hw ch)) :: u16);
          spitch = s2d_pitch ch AND 0xFFFF;
          dpitch = drop_bit 16 (s2d_pitch ch);
          xdir = (dx > sx);
          ydir = (dy > sy);
          yadj = (if ydir then ucast height - 1 else 0 :: u32);
          src_offset = s2d_ofs_src ch + ((ucast sy + yadj) * spitch + ucast sx * s2d_color_bytes ch);
          draw_offset = s2d_ofs_dst ch + ((ucast dy + yadj) * dpitch + ucast dx * s2d_color_bytes ch);
          ystep = (if ydir then - 1 else 1 :: u32)
      in bind_r
           (for_r (unat height) (\<lambda>y (s1, sofs, dofs).
              bind_r
                (for_r (unat width) (\<lambda>x s2.
                   let xa = (if xdir then width - of_nat x - 1 else of_nat x :: u16)
                   in bind_r (geforce_get_pixel s2 (s2d_img_src ch) sofs (ucast xa)
                                (s2d_color_bytes ch)) (\<lambda>srccolor.
                        geforce_put_pixel s2 ch dofs (ucast xa) srccolor)) s1)
                (\<lambda>s3. Inr (s3, sofs + spitch * ystep, dofs + dpitch * ystep)))
              (s, src_offset, draw_offset))
           (\<lambda>(s4, sofs, dofs). Inr s4))"

text \<open>
  \<open>geforce_m2mf\<close>. Its row counter is a \<open>uint16_t\<close> compared with a 32-bit count, and its
  column counter steps by 4 up to a 32-bit length: both loops can wrap round and go on
  for ever, so they are partial functions (\<open>None\<close>: the loop does not end).
\<close>

partial_function (option) m2mf_line :: "GeForceState \<Rightarrow> GeForceChannel \<Rightarrow> u32 \<Rightarrow> u32 \<Rightarrow> u32
    \<Rightarrow> (fault + GeForceState) option" where
  "m2mf_line s ch src_offset dst_offset i =
     (if i < m2mf_line_length ch
      then (case geforce_dma_read32 s (m2mf_src ch) (src_offset + i) of
              Inl e \<Rightarrow> Some (Inl e)
            | Inr d \<Rightarrow>
                (case geforce_dma_write32 s (m2mf_dst ch) (dst_offset + i) d of
                   Inl e \<Rightarrow> Some (Inl e)
                 | Inr s1 \<Rightarrow> m2mf_line s1 ch src_offset dst_offset (i + 4)))
      else Some (Inr s))"

partial_function (option) m2mf_rows :: "GeForceState \<Rightarrow> GeForceChannel \<Rightarrow> u32 \<Rightarrow> u32 \<Rightarrow> u16
    \<Rightarrow> (fault + GeForceState) option" where
  "m2mf_rows s ch src_offset dst_offset y =
     (if ucast y < m2mf_line_count ch
      then (case m2mf_line s ch src_offset dst_offset 0 of
              None \<Rightarrow> None
            | Some (Inl e) \<Rightarrow> Some (Inl e)
            | Some (Inr s1) \<Rightarrow>
                m2mf_rows s1 ch (src_offset + m2mf_src_pitch ch)
                  (dst_offset + m2mf_dst_pitch ch) (y + 1))
      else Some (Inr s))"

definition geforce_m2mf :: "GeForceState \<Rightarrow> GeForceChannel \<Rightarrow> (fault + GeForceState) option" where
  "geforce_m2mf s ch =
     (case m2mf_rows s ch (m2mf_src_offset ch) (m2mf_dst_offset ch) 0 of
        None \<Rightarrow> None
      | Some (Inl e) \<Rightarrow> Some (Inl e)
      | Some (Inr s1) \<Rightarrow>
          Some (bind_r (geforce_ramin_read32 s1 (m2mf_dst ch)) (\<lambda>w.
            let dma_target = drop_bit 12 w AND 0xFF
            in if dma_target = 0x03 \<or> dma_target = 0x0b
               then (if drop_bit 3 (bpp s1) = 0 then Inl Division_By_Zero else Inr s1)
               else Inr s1)))"

definition d3d_clear_rect :: "GeForceState \<Rightarrow> u32 \<Rightarrow> u32 \<Rightarrow> u32 \<Rightarrow> u32 \<Rightarrow> u32 \<Rightarrow> u32 \<Rightarrow> u32
    \<Rightarrow> fault + GeForceState" where
  "d3d_clear_rect s obj nbytes val width height pitch draw_offset =
     bind_r
       (for_r (unat height) (\<lambda>y (s1, ofs).
          bind_r
            (for_r (unat width) (\<lambda>x s2.
               if nbytes = 2 then geforce_dma_write16 s2 obj (ofs + of_nat x * 2) (ucast val)
               else geforce_dma_write32 s2 obj (ofs + of_nat x * 4) val) s1)
            (\<lambda>s3. Inr (s3, ofs + pitch)))
          (s, draw_offset))
       (\<lambda>(s4, ofs). Inr s4)"

definition geforce_d3d_clear_surface :: "GeForceState \<Rightarrow> GeForceChannel \<Rightarrow> fault + GeForceState" where
  "geforce_d3d_clear_surface s ch =
     (let dx = d3d_clip_horizontal ch AND 0xFFFF;
          dy = d3d_clip_vertical ch AND 0xFFFF;
          width = drop_bit 16 (d3d_clip_horizontal ch);
          height = drop_bit 16 (d3d_clip_vertical ch)
      in bind_r
           (if d3d_clear_surface ch AND 0x000000F0 \<noteq> 0
            then (let pitch = d3d_surface_pitch_a ch AND 0xFFFF;
                      draw_offset = d3d_surface_color_offset ch + dy * pitch + dx * d3d_color_bytes ch
                  in d3d_clear_rect s (d3d_color_obj ch) (d3d_color_bytes ch)
                       (d3d_color_clear_value ch) width height pitch draw_offset)
            else Inr s)
           (\<lambda>s1.
              if d3d_clear_surface ch AND 0x00000001 \<noteq> 0
              then (let pitch = drop_bit 16 (d3d_surface_pitch_a ch);
                        draw_offset = d3d_surface_zeta_offset ch + dy * pitch + dx * d3d_depth_bytes ch
                    in d3d_clear_rect s1 (d3d_zeta_obj ch) (d3d_depth_bytes ch)
                         (d3d_zstencil_clear_value ch) width height pitch draw_offset)
              else Inr s1))"

definition geforce_execute_graphics_op :: "GeForceState \<Rightarrow> GeForceChannel \<Rightarrow> string
    \<Rightarrow> (fault + GeForceState) option" where
  "geforce_execute_graphics_op s ch op_name =
     (if op_name = ''fillrect'' then Some (geforce_gdi_fillrect s ch False)
      else if op_name = ''fillrect_clipped'' then Some (geforce_gdi_fillrect s ch True)
      else if op_name = ''ifc'' then Some (geforce_ifc s ch)
      else if op_name = ''copyarea'' then Some (geforce_copyarea s ch)
      else if op_name = ''m2mf'' then geforce_m2mf s ch
      else if op_name = ''d3d_clear'' then Some (geforce_d3d_clear_surface s ch)
      else Some (Inr s))"

section \<open>Class handlers\<close>

text \<open>
  A handler works on the device state and on \<open>ch\<close>, the channel that
  \<open>geforce_execute_command\<close> took from \<open>s->channels[chid]\<close>; the command function
  puts the channel back when the handler is done. No handler reaches a channel in
  another way. Results are \<open>None\<close> (no return), \<open>Some (Inl f)\<close> (fault) or
  \<open>Some (Inr v)\<close>.
\<close>

definition bind_o :: "(fault + 'a) option \<Rightarrow> ('a \<Rightarrow> (fault + 'b) option) \<Rightarrow> (fault + 'b) option" where
  "bind_o m f = (case m of None \<Rightarrow> None | Some (Inl e) \<Rightarrow> Some (Inl e) | Some (Inr v) \<Rightarrow> f v)"

text \<open>
  The completion record written to a notifier, at byte offset \<open>base\<close> of the object:
  in \<open>geforce_execute_m2mf\<close> with \<open>base = 0x10\<close>, in \<open>geforce_execute_command\<close> with
  \<open>base = 0\<close>.
\<close>

definition notify_write :: "GeForceState \<Rightarrow> u32 \<Rightarrow> u32 \<Rightarrow> fault + GeForceState" where
  "notify_write s ntf base =
     bind_r (geforce_ramin_read32 s ntf) (\<lambda>w.
       if w AND 0xFF \<noteq> 0x30
       then bind_r (geforce_dma_write64 s ntf base (geforce_get_current_time s)) (\<lambda>s1.
              bind_r (geforce_dma_write32 s1 ntf (base + 8) 0) (\<lambda>s2.
                geforce_dma_write32 s2 ntf (base + 0xC) 0))
       else Inr s)"

definition geforce_execute_clip :: "GeForceChannel \<Rightarrow> u32 \<Rightarrow> u32 \<Rightarrow> GeForceChannel" where
  "geforce_execute_clip ch method param =
     (if method = 0x0c0 then ch\<lparr>clip_yx := param\<rparr>
      else if method = 0x0c1 then ch\<lparr>clip_hw := param\<rparr>
      else ch)"

definition geforce_execute_m2mf :: "GeForceState \<Rightarrow> GeForceChannel \<Rightarrow> u32 \<Rightarrow> u32 \<Rightarrow> u32
    \<Rightarrow> (fault + GeForceState \<times> GeForceChannel) option" where
  "geforce_execute_m2mf s ch sc method param =
     (if method = 0x061 then Some (Inr (s, ch\<lparr>m2mf_src := param\<rparr>))
      else if method = 0x062 then Some (Inr (s, ch\<lparr>m2mf_dst := param\<rparr>))
      else if method = 0x0c3 then Some (Inr (s, ch\<lparr>m2mf_src_offset := param\<rparr>))
      else if method = 0x0c4 then Some (Inr (s, ch\<lparr>m2mf_dst_offset := param\<rparr>))
      else if method = 0x0c5 then Some (Inr (s, ch\<lparr>m2mf_src_pitch := param\<rparr>))
      else if method = 0x0c6 then Some (Inr (s, ch\<lparr>m2mf_dst_pitch := param\<rparr>))
      else if method = 0x0c7 then Some (Inr (s, ch\<lparr>m2mf_line_length := param\<rparr>))
      else if method = 0x0c8 then Some (Inr (s, ch\<lparr>m2mf_line_count := param\<rparr>))
      else if method = 0x0c9 then Some (Inr (s, ch\<lparr>m2mf_format := param\<rparr>))
      else if method = 0x0ca
        then (let ch1 = ch\<lparr>m2mf_buffer_notify := param\<rparr>
              in bind_o (geforce_execute_graphics_op s ch1 ''m2mf'') (\<lambda>s1.
                   Some (bind_r (notify_write s1 (notifier (schs ch1 (unat sc))) 0x10) (\<lambda>s2.
                     Inr (s2, ch1)))))
      else Some (Inr (s, ch)))"

definition geforce_execute_rop :: "GeForceChannel \<Rightarrow> u32 \<Rightarrow> u32 \<Rightarrow> GeForceChannel" where
  "geforce_execute_rop ch method param =
     (if method = 0x0c0 then ch\<lparr>rop := ucast param\<rparr> else ch)"

definition geforce_execute_patt :: "GeForceChannel \<Rightarrow> u32 \<Rightarrow> u32 \<Rightarrow> GeForceChannel" where
  "geforce_execute_patt ch method param =
     (if method = 0x0c2 then ch\<lparr>patt_shape := param\<rparr>
      else if method = 0x0c3 then ch\<lparr>patt_type := param\<rparr>
      else if method = 0x0c4 then ch\<lparr>patt_bg_color := param\<rparr>
      else if method = 0x0c5 then ch\<lparr>patt_fg_color := param\<rparr>
      else if method = 0x0c6 \<or> method = 0x0c7
        then (let base = unat (method AND 1) * 32
              in ch\<lparr>patt_data_mono := (\<lambda>k. if base \<le> k \<and> k < base + 32
                                              then bit param ((k - base) XOR 7)
                                              else patt_data_mono ch k)\<rparr>)
      else if method \<ge> 0x100 \<and> method < 0x110
        then (let i = unat ((method - 0x100) * 4)
              in ch\<lparr>patt_data_color := (patt_data_color ch)
                      (i := param AND 0xFF,
                       i + 1 := drop_bit 8 param AND 0xFF,
                       i + 2 := drop_bit 16 param AND 0xFF,
                       i + 3 := drop_bit 24 param)\<rparr>)
      else ch)"

definition geforce_execute_gdi :: "GeForceState \<Rightarrow> GeForceChannel \<Rightarrow> u32 \<Rightarrow> u32
    \<Rightarrow> (fault + GeForceState \<times> GeForceChannel) option" where
  "geforce_execute_gdi s ch method param =
     (if method = 0x0bf then Some (Inr (s, ch\<lparr>gdi_operation := param\<rparr>))
      else if method = 0x0c0 then Some (Inr (s, ch\<lparr>gdi_color_fmt := param\<rparr>))
      else if method = 0x0c1 then Some (Inr (s, ch\<lparr>gdi_mono_fmt := param\<rparr>))
      else if method = 0x0ff then Some (Inr (s, ch\<lparr>gdi_rect_color := param\<rparr>))
      else if method = 0x17d then Some (Inr (s, ch\<lparr>gdi_clip_yx0 := param\<rparr>))
      else if method = 0x17e then Some (Inr (s, ch\<lparr>gdi_clip_yx1 := param\<rparr>))
      else if method = 0x17f then Some (Inr (s, ch\<lparr>gdi_rect_color := param\<rparr>))
      else if method \<ge> 0x100 \<and> method < 0x140
        then (if method AND 1 \<noteq> 0
              then (let ch1 = ch\<lparr>gdi_rect_wh := param\<rparr>
                    in bind_o (geforce_execute_graphics_op s ch1 ''fillrect'') (\<lambda>s1.
                         Some (Inr (s1, ch1))))
              else Some (Inr (s, ch\<lparr>gdi_rect_xy := param\<rparr>)))
      else if method \<ge> 0x180 \<and> method < 0x1c0
        then (if method AND 1 \<noteq> 0
              then (let ch1 = ch\<lparr>gdi_rect_yx1 := param\<rparr>
                    in bind_o (geforce_execute_graphics_op s ch1 ''fillrect_clipped'') (\<lambda>s1.
                         Some (Inr (s1, ch1))))
              else Some (Inr (s, ch\<lparr>gdi_rect_yx0 := param\<rparr>)))
      else Some (Inr (s, ch)))"

definition geforce_execute_surf2d :: "GeForceChannel \<Rightarrow> u32 \<Rightarrow> u32 \<Rightarrow> GeForceChannel" where
  "geforce_execute_surf2d ch method param =
     (if method = 0x061 then ch\<lparr>s2d_img_src := param\<rparr>
      else if method = 0x062 then ch\<lparr>s2d_img_dst := param\<rparr>
      else if method = 0x0c0
        then ch\<lparr>s2d_color_fmt := param,
                s2d_color_bytes := (if param = 1 then 1
                                    else if param = 4 then 2
                                    else if param = 0x6 \<or> param = 0xA \<or> param = 0xB then 4
                                    else 4)\<rparr>
      else if method = 0x0c1 then ch\<lparr>s2d_pitch := param\<rparr>
      else if method = 0x0c2 then ch\<lparr>s2d_ofs_src := param\<rparr>
      else if method = 0x0c3 then ch\<lparr>s2d_ofs_dst := param\<rparr>
      else ch)"

definition geforce_update_color_bytes :: "u32 \<Rightarrow> u32 \<Rightarrow> u32" where
  "geforce_update_color_bytes s2d_fmt color_fmt =
     (if s2d_fmt = 1 then 1
      else if color_fmt = 1 \<or> color_fmt = 2 \<or> color_fmt = 3 then 2
      else if color_fmt = 4 \<or> color_fmt = 5 then 4
      else 4)"

text \<open>
  \<open>g_new0(uint32_t, n)\<close> gives the null pointer for \<open>n = 0\<close> and \<open>n\<close> zeroed words
  otherwise; the allocation is taken to succeed.
\<close>

definition g_new0_u32 :: "u32 \<Rightarrow> u32 list option" where
  "g_new0_u32 n = (if n = 0 then None else Some (replicate (unat n) 0))"

definition geforce_execute_ifc :: "GeForceState \<Rightarrow> GeForceChannel \<Rightarrow> u32 \<Rightarrow> u32
    \<Rightarrow> (fault + GeForceState \<times> GeForceChannel) option" where
  "geforce_execute_ifc s ch method param =
     (if method = 0x061
        then Some (bind_r (geforce_ramin_read32 s param) (\<lambda>w.
               Inr (s, ch\<lparr>ifc_color_key_enable := (w AND 0xFF \<noteq> 0x30)\<rparr>)))
      else if method = 0x0bf then Some (Inr (s, ch\<lparr>ifc_operation := param\<rparr>))
      else if method = 0x0c0
        then Some (Inr (s, ch\<lparr>ifc_color_fmt := param,
               ifc_color_bytes := geforce_update_color_bytes (s2d_color_fmt ch) param\<rparr>))
      else if method = 0x0c1 then Some (Inr (s, ch\<lparr>ifc_yx := param\<rparr>))
      else if method = 0x0c2 then Some (Inr (s, ch\<lparr>ifc_dhw := param\<rparr>))
      else if method = 0x0c3
        then (let upload = (param = 0x10000400 \<and> ifc_dhw ch = 0x10000400 \<and>
                            s2d_color_fmt ch = 0xB \<and> s2d_pitch ch = 0x10001000);
                  ch1 = ch\<lparr>ifc_shw := param, ifc_upload := upload\<rparr>
              in if upload
                 then (let dx = ifc_yx ch1 AND 0xFFFF;
                           dy = drop_bit 16 (ifc_yx ch1)
                       in Some (Inr (s, ch1\<lparr>ifc_upload_offset :=
                            s2d_ofs_dst ch1 + (push_bit 12 dy OR push_bit 2 dx)\<rparr>)))
                 else (let width = ifc_shw ch1 AND 0xFFFF;
                           height = drop_bit 16 (ifc_shw ch1);
                           wordCount = drop_bit 2
                             ((width * height * ifc_color_bytes ch1 + 3) AND NOT 3)
                       in Some (Inr (s, ch1\<lparr>ifc_words_ptr := 0, ifc_words_left := wordCount,
                            ifc_words := g_new0_u32 wordCount\<rparr>))))
      else if method \<ge> 0x100 \<and> method < 0x800
        then (if ifc_upload ch
              then Some (bind_r (geforce_dma_write32 s (s2d_img_dst ch) (ifc_upload_offset ch) param)
                     (\<lambda>s1. Inr (s1, ch\<lparr>ifc_upload_offset := ifc_upload_offset ch + 4\<rparr>)))
              else (case ifc_words ch of
                      None \<Rightarrow> Some (Inl Null_Pointer)
                    | Some ws \<Rightarrow>
                        if \<not> unat (ifc_words_ptr ch) < length ws then Some (Inl Out_Of_Bounds)
                        else (let ch1 = ch\<lparr>ifc_words := Some (ws[unat (ifc_words_ptr ch) := param]),
                                           ifc_words_ptr := ifc_words_ptr ch + 1,
                                           ifc_words_left := ifc_words_left ch - 1\<rparr>
                              in if ifc_words_left ch1 = 0
                                 then bind_o (geforce_execute_graphics_op s ch1 ''ifc'') (\<lambda>s1.
                                        Some (Inr (s1, ch1\<lparr>ifc_words := None\<rparr>)))
                                 else Some (Inr (s, ch1)))))
      else Some (Inr (s, ch)))"

definition geforce_execute_imageblit :: "GeForceState \<Rightarrow> GeForceChannel \<Rightarrow> u32 \<Rightarrow> u32
    \<Rightarrow> (fault + GeForceState \<times> GeForceChannel) option" where
  "geforce_execute_imageblit s ch method param =
     (if method = 0x061
        then Some (bind_r (geforce_ramin_read32 s param) (\<lambda>w.
               Inr (s, ch\<lparr>blit_color_key_enable := (w AND 0xFF \<noteq> 0x30)\<rparr>)))
      else if method = 0x0bf then Some (Inr (s, ch\<lparr>blit_operation := param\<rparr>))
      else if method = 0x0c0 then Some (Inr (s, ch\<lparr>blit_syx := param\<rparr>))
      else if method = 0x0c1 then Some (Inr (s, ch\<lparr>blit_dyx := param\<rparr>))
      else if method = 0x0c2
        then (let ch1 = ch\<lparr>blit_hw := param\<rparr>
              in bind_o (geforce_execute_graphics_op s ch1 ''copyarea'') (\<lambda>s1.
                   Some (Inr (s1, ch1))))
      else Some (Inr (s, ch)))"

definition geforce_execute_d3d :: "GeForceState \<Rightarrow> GeForceChannel \<Rightarrow> u32 \<Rightarrow> u32 \<Rightarrow> u32
    \<Rightarrow> (fault + GeForceState \<times> GeForceChannel) option" where
  "geforce_execute_d3d s ch cls method param =
     (if method = 0x061 then Some (Inr (s, ch\<lparr>d3d_a_obj := param\<rparr>))
      else if method = 0x062 then Some (Inr (s, ch\<lparr>d3d_b_obj := param\<rparr>))
      else if method = 0x065 then Some (Inr (s, ch\<lparr>d3d_color_obj := param\<rparr>))
      else if method = 0x066 then Some (Inr (s, ch\<lparr>d3d_zeta_obj := param\<rparr>))
      else if method = 0x080 then Some (Inr (s, ch\<lparr>d3d_clip_horizontal := param\<rparr>))
      else if method = 0x081 then Some (Inr (s, ch\<lparr>d3d_clip_vertical := param\<rparr>))
      else if method = 0x082
        then (let format_color = (if cls = 0x0097 then param AND 0x0F else param AND 0x1F);
                  format_depth = (if cls = 0x0097 then drop_bit 4 param AND 0x0F
                                  else drop_bit 5 param AND 0x07);
                  ch1 = ch\<lparr>d3d_surface_format := param\<rparr>;
                  ch2 = (if format_color = 0x9 then ch1\<lparr>d3d_color_bytes := 1\<rparr>
                         else if format_color = 0x3 then ch1\<lparr>d3d_color_bytes := 2\<rparr>
                         else if format_color = 0x4 \<or> format_color = 0x5 \<or> format_color = 0x8
                           then ch1\<lparr>d3d_color_bytes := 4\<rparr>
                         else ch1);
                  ch3 = (if format_depth = 0x1 then ch2\<lparr>d3d_depth_bytes := 2\<rparr>
                         else if format_depth = 0x2 then ch2\<lparr>d3d_depth_bytes := 4\<rparr>
                         else ch2)
              in Some (Inr (s, ch3)))
      else if method = 0x083 then Some (Inr (s, ch\<lparr>d3d_surface_pitch_a := param\<rparr>))
      else if method = 0x084 then Some (Inr (s, ch\<lparr>d3d_surface_color_offset := param\<rparr>))
      else if method = 0x085 then Some (Inr (s, ch\<lparr>d3d_surface_zeta_offset := param\<rparr>))
      else if method = 0x763 then Some (Inr (s, ch\<lparr>d3d_zstencil_clear_value := param\<rparr>))
      else if method = 0x764 then Some (Inr (s, ch\<lparr>d3d_color_clear_value := param\<rparr>))
      else if method = 0x765
        then (let ch1 = ch\<lparr>d3d_clear_surface := param\<rparr>
              in bind_o (geforce_execute_graphics_op s ch1 ''d3d_clear'') (\<lambda>s1.
                   Some (Inr (s1, ch1))))
      else if method = 0x606
        then (let vi = unat (d3d_vertex_index ch);
                  ai = unat (d3d_attrib_index ch);
                  ci = unat (d3d_comp_index ch)
              in if \<not> (vi < 4 \<and> ai < 16 \<and> ci < 4) then Some (Inl Out_Of_Bounds)
                 else (let ch1 = ch\<lparr>d3d_vertex_data := (d3d_vertex_data ch)((vi, ai, ci) := param),
                                    d3d_comp_index := d3d_comp_index ch + 1\<rparr>;
                           ch2 = (if d3d_comp_index ch1 = 4
                                  then (let ch3 = ch1\<lparr>d3d_comp_index := 0,
                                                       d3d_attrib_index := d3d_attrib_index ch1 + 1\<rparr>
                                        in if d3d_attrib_index ch3 = 16
                                           then (let ch4 = ch3\<lparr>d3d_attrib_index := 0,
                                                     d3d_vertex_index := d3d_vertex_index ch3 + 1\<rparr>
                                                 in if d3d_vertex_index ch4 \<ge> 3
                                                    then ch4\<lparr>d3d_vertex_index := 0\<rparr>
                                                    else ch4)
                                           else ch3)
                                  else ch1)
                       in Some (Inr (s, ch2))))
      else Some (Inr (s, ch)))"

section \<open>Method dispatch\<close>

text \<open>The value left in an output location: \<open>None\<close> is a null pointer, nothing is there.\<close>

definition out_val :: "'a option \<Rightarrow> 'a \<Rightarrow> 'a" where
  "out_val p old = (case p of None \<Rightarrow> old | Some v \<Rightarrow> v)"

text \<open>
  The branch \<open>method == 0x000\<close> of \<open>geforce_execute_command\<close> (object binding):
  \<open>bind_update_object\<close> is its first block, which patches the notifier field of the
  object bound so far; \<open>execute_bind\<close> is the whole branch, and its result carries the
  flag \<open>software_method\<close>.
\<close>

definition bind_update_object :: "GeForceState \<Rightarrow> GeForceSubchannel \<Rightarrow> fault + GeForceState" where
  "bind_update_object s sub =
     (if engine sub = 0x01
      then bind_r (geforce_ramin_read32 s (object sub + 0x4)) (\<lambda>word1.
             geforce_ramin_write32 s (object sub + 0x4)
               (if card_type s < 0x40
                then (word1 AND 0x0000FFFF) OR push_bit 16 (drop_bit 4 (notifier sub))
                else (word1 AND 0xFFF00000) OR drop_bit 4 (notifier sub)))
      else Inr s)"

definition execute_bind :: "GeForceState \<Rightarrow> GeForceChannel \<Rightarrow> u32 \<Rightarrow> u32 \<Rightarrow> u32
    \<Rightarrow> (fault + GeForceState \<times> GeForceChannel \<times> bool) option" where
  "execute_bind s ch chid sc param =
     (if \<not> unat sc < GEFORCE_SUBCHANNEL_COUNT then Some (Inl Out_Of_Bounds)
      else
        let k = unat sc; sub = schs ch k
        in bind_o (Some (bind_update_object s sub)) (\<lambda>s1.
             bind_o (geforce_ramht_lookup s1 param chid (Some (object sub), Some (engine sub)))
               (\<lambda>(obj_out, eng_out).
                  let sub1 = sub\<lparr>object := out_val obj_out (object sub),
                                 engine := out_val eng_out (engine sub)\<rparr>
                  in if engine sub1 = 0x01
                     then Some (bind_r (geforce_ramin_read32 s1 (object sub1 + 0x4)) (\<lambda>word1.
                            let sub2 = sub1\<lparr>notifier :=
                                  (if card_type s1 < 0x40 then push_bit 4 (drop_bit 16 word1)
                                   else push_bit 4 (word1 AND 0xFFFFF))\<rparr>
                            in Inr (s1, ch\<lparr>schs := (schs ch)(k := sub2)\<rparr>, False)))
                     else Some (Inr (s1, ch\<lparr>schs := (schs ch)(k := sub1)\<rparr>,
                                     engine sub1 = 0x00)))))"

text \<open>The \<open>switch (cls8)\<close> of \<open>geforce_execute_command\<close>.\<close>

definition execute_class :: "GeForceState \<Rightarrow> GeForceChannel \<Rightarrow> u32 \<Rightarrow> u32 \<Rightarrow> u8 \<Rightarrow> u32 \<Rightarrow> u32
    \<Rightarrow> (fault + GeForceState \<times> GeForceChannel) option" where
  "execute_class s ch sc cls cls8 method param =
     (if cls8 = 0x19 then Some (Inr (s, geforce_execute_clip ch method param))
      else if cls8 = 0x39 then geforce_execute_m2mf s ch sc method param
      else if cls8 = 0x43 then Some (Inr (s, geforce_execute_rop ch method param))
      else if cls8 = 0x44 then Some (Inr (s, geforce_execute_patt ch method param))
      else if cls8 = 0x4a then geforce_execute_gdi s ch method param
      else if cls8 = 0x5f \<or> cls8 = 0x9f then geforce_execute_imageblit s ch method param
      else if cls8 = 0x61 \<or> cls8 = 0x65 \<or> cls8 = 0x8a then geforce_execute_ifc s ch method param
      else if cls8 = 0x62 then Some (Inr (s, geforce_execute_surf2d ch method param))
      else if cls8 = 0x97 then geforce_execute_d3d s ch cls method param
      else Some (Inr (s, ch)))"

text \<open>The block \<open>if (ch->notify_pending) { ... }\<close> that follows the switch.\<close>

definition execute_notify :: "GeForceState \<Rightarrow> GeForceChannel \<Rightarrow> u32
    \<Rightarrow> fault + GeForceState \<times> GeForceChannel" where
  "execute_notify s ch sc =
     (if notify_pending ch
      then (let ch1 = ch\<lparr>notify_pending := False\<rparr>
            in bind_r (notify_write s (notifier (schs ch1 (unat sc))) 0x0) (\<lambda>s1.
                 if notify_type ch1 \<noteq> 0
                 then (let s2 = s1\<lparr>graph_intr := graph_intr s1 OR 0x00000001\<rparr>;
                           s3 = geforce_update_irq s2;
                           s4 = s3\<lparr>graph_nsource := graph_nsource s3 OR 0x00000001\<rparr>
                       in Inr (s4\<lparr>graph_notify := 0x00110000\<rparr>, ch1))
                 else Inr (s1, ch1)))
      else Inr (s, ch))"

text \<open>The branch \<open>method >= 0x040\<close> of \<open>geforce_execute_command\<close>.\<close>

definition execute_object :: "GeForceState \<Rightarrow> GeForceChannel \<Rightarrow> u32 \<Rightarrow> u32 \<Rightarrow> u32 \<Rightarrow> u32
    \<Rightarrow> (fault + GeForceState \<times> GeForceChannel \<times> bool) option" where
  "execute_object s ch chid sc method param =
     (if \<not> unat sc < GEFORCE_SUBCHANNEL_COUNT then Some (Inl Out_Of_Bounds)
      else
        let k = unat sc; sub = schs ch k
        in if engine sub = 0x01
           then bind_o
                  (if method \<ge> 0x060 \<and> method < 0x080
                   then bind_o (geforce_ramht_lookup s param chid (Some param, None))
                          (\<lambda>(obj_out, eng_out). Some (Inr (out_val obj_out param)))
                   else Some (Inr param))
                  (\<lambda>param1.
                     bind_o (Some (geforce_ramin_read32 s (object sub))) (\<lambda>w.
                       let cls = w AND class_mask s;
                           cls8 = (ucast cls :: u8)
                       in bind_o (execute_class s ch sc cls cls8 method param1) (\<lambda>(s1, ch1).
                            bind_o (Some (execute_notify s1 ch1 sc)) (\<lambda>(s2, ch2).
                              if method = 0x041
                              then Some (Inr (s2, ch2\<lparr>notify_pending := True,
                                                      notify_type := param1\<rparr>, False))
                              else if method = 0x060
                              then Some (Inr (s2, ch2\<lparr>schs := (schs ch2)
                                     (k := (schs ch2 k)\<lparr>notifier := param1\<rparr>)\<rparr>, False))
                              else Some (Inr (s2, ch2, False))))))
           else Some (Inr (s, ch, engine sub = 0x00)))"

text \<open>The block \<open>if (software_method) { ... }\<close>: one entry of the software-method queue.\<close>

definition software_method_push :: "GeForceState \<Rightarrow> u32 \<Rightarrow> u32 \<Rightarrow> u32 \<Rightarrow> fault + GeForceState" where
  "software_method_push s sc method param =
     (let s1 = s\<lparr>fifo_intr := fifo_intr s OR 0x00000001\<rparr>;
          s2 = geforce_update_irq s1;
          s3 = s2\<lparr>fifo_cache1_pull0 := fifo_cache1_pull0 s2 OR 0x00000100\<rparr>;
          idx = unat (fifo_cache1_put s3 div 4)
      in if \<not> idx < GEFORCE_CACHE1_SIZE then Inl Out_Of_Bounds
         else
           let s4 = s3\<lparr>fifo_cache1_method := (fifo_cache1_method s3)
                         (idx := push_bit 2 method OR push_bit 13 sc)\<rparr>;
               s5 = s4\<lparr>fifo_cache1_data := (fifo_cache1_data s4)(idx := param)\<rparr>;
               s6 = s5\<lparr>fifo_cache1_put := fifo_cache1_put s5 + 4\<rparr>
           in if fifo_cache1_put s6 = of_nat (GEFORCE_CACHE1_SIZE * 4)
              then Inr (s6\<lparr>fifo_cache1_put := 0\<rparr>)
              else Inr s6)"

text \<open>
  \<open>geforce_execute_command\<close>. \<open>execute_method\<close> is its chain
  \<open>if (method == 0x000) ... else if (method == 0x014) ... else if (method >= 0x040)\<close>,
  whose result carries the flag \<open>software_method\<close>. The result of the function is the
  returned \<open>bool\<close> and the new state.
\<close>

definition execute_method :: "GeForceState \<Rightarrow> GeForceChannel \<Rightarrow> u32 \<Rightarrow> u32 \<Rightarrow> u32 \<Rightarrow> u32
    \<Rightarrow> (fault + GeForceState \<times> GeForceChannel \<times> bool) option" where
  "execute_method s ch chid sc method param =
     (if method = 0x000 then execute_bind s ch chid sc param
      else if method = 0x014 then Some (Inr (s\<lparr>fifo_cache1_ref_cnt := param\<rparr>, ch, False))
      else if method \<ge> 0x040 then execute_object s ch chid sc method param
      else Some (Inr (s, ch, False)))"

definition geforce_execute_command :: "GeForceState \<Rightarrow> u32 \<Rightarrow> u32 \<Rightarrow> u32 \<Rightarrow> u32
    \<Rightarrow> (fault + bool \<times> GeForceState) option" where
  "geforce_execute_command s chid sc method param =
     (if \<not> unat chid < GEFORCE_CHANNEL_COUNT then Some (Inl Out_Of_Bounds)
      else
        let ch = channels s (unat chid)
        in bind_o (execute_method s ch chid sc method param)
             (\<lambda>(s1, ch1, software_method).
                let s2 = s1\<lparr>channels := (channels s1)(unat chid := ch1)\<rparr>
                in if software_method
                   then Some (bind_r (software_method_push s2 sc method param) (\<lambda>s3. Inr (True, s3)))
                   else Some (Inr (True, s2))))"

section \<open>FIFO processing\<close>

text \<open>
  The block \<open>if (oldchid != chid) { ... }\<close> of \<open>geforce_fifo_process\<close>: save the five live
  registers in the record of \<open>oldchid\<close>, load them from the record of \<open>chid\<close>, make
  \<open>chid\<close> the active channel.
\<close>

definition fifo_context_switch :: "GeForceState \<Rightarrow> u32 \<Rightarrow> u32 \<Rightarrow> fault + GeForceState" where
  "fifo_context_switch s oldchid chid =
     (let sro = (if card_type s < 0x40 then 0x2C else 0x30)
      in bind_r (geforce_ramfc_write32 s oldchid 0x0 (fifo_cache1_dma_put s)) (\<lambda>s1.
         bind_r (geforce_ramfc_write32 s1 oldchid 0x4 (fifo_cache1_dma_get s1)) (\<lambda>s2.
         bind_r (geforce_ramfc_write32 s2 oldchid 0x8 (fifo_cache1_ref_cnt s2)) (\<lambda>s3.
         bind_r (geforce_ramfc_write32 s3 oldchid 0xC (fifo_cache1_dma_instance s3)) (\<lambda>s4.
         bind_r (geforce_ramfc_write32 s4 oldchid sro (fifo_cache1_semaphore s4)) (\<lambda>s5.
         bind_r (geforce_ramfc_read32 s5 chid 0x0) (\<lambda>v0.
         let s6 = s5\<lparr>fifo_cache1_dma_put := v0\<rparr> in
         bind_r (geforce_ramfc_read32 s6 chid 0x4) (\<lambda>v1.
         let s7 = s6\<lparr>fifo_cache1_dma_get := v1\<rparr> in
         bind_r (geforce_ramfc_read32 s7 chid 0x8) (\<lambda>v2.
         let s8 = s7\<lparr>fifo_cache1_ref_cnt := v2\<rparr> in
         bind_r (geforce_ramfc_read32 s8 chid 0xC) (\<lambda>v3.
         let s9 = s8\<lparr>fifo_cache1_dma_instance := v3\<rparr> in
         bind_r (geforce_ramfc_read32 s9 chid sro) (\<lambda>v4.
         let s10 = s9\<lparr>fifo_cache1_semaphore := v4\<rparr> in
         Inr (s10\<lparr>fifo_cache1_push1 := (fifo_cache1_push1 s10 AND NOT 0x1F) OR chid\<rparr>))))))))))))"

text \<open>
  The decoding of a word fetched while no parameter is pending (the \<open>else\<close> branch of
  the loop body). \<open>s\<close> is the state after the fetch, with the get cursor advanced.
\<close>

definition fifo_parse_header :: "GeForceState \<Rightarrow> nat \<Rightarrow> u32 \<Rightarrow> GeForceState" where
  "fifo_parse_header s c word =
     (let ch = channels s c
      in if word AND 0xe0000003 = 0x20000000
           then s\<lparr>fifo_cache1_dma_get := word AND 0x1fffffff\<rparr>
         else if word AND 3 = 1
           then s\<lparr>fifo_cache1_dma_get := word AND 0xfffffffc\<rparr>
         else if word AND 3 = 2
           then (if subr_active ch then s
                 else s\<lparr>channels := (channels s)
                          (c := ch\<lparr>subr_return := fifo_cache1_dma_get s, subr_active := True\<rparr>),
                        fifo_cache1_dma_get := word AND 0xfffffffc\<rparr>)
         else if word = 0x00020000
           then (if \<not> subr_active ch then s
                 else s\<lparr>fifo_cache1_dma_get := subr_return ch,
                        channels := (channels s)(c := ch\<lparr>subr_active := False\<rparr>)\<rparr>)
         else if word AND 0xa0030003 = 0
           then s\<lparr>channels := (channels s)
                    (c := ch\<lparr>dma_state := \<lparr>mthd = drop_bit 2 word AND 0x7ff,
                                          subc = drop_bit 13 word AND 7,
                                          mcnt = drop_bit 18 word AND 0x7ff,
                                          ni = (word AND 0x40000000 \<noteq> 0)\<rparr>\<rparr>)\<rparr>
         else s)"

text \<open>
  One turn of the \<open>while\<close> loop: \<open>fifo_fetch\<close> reads the word at the get cursor,
  \<open>fifo_step\<close> is the whole body. Its result is the new state and a flag: \<open>True\<close> when
  the body leaves the loop through \<open>break\<close>.
\<close>

definition fifo_fetch :: "GeForceState \<Rightarrow> fault + u32" where
  "fifo_fetch s =
     geforce_dma_read32 s (push_bit 4 (fifo_cache1_dma_instance s)) (fifo_cache1_dma_get s)"

definition fifo_step :: "GeForceState \<Rightarrow> u32 \<Rightarrow> (fault + bool \<times> GeForceState) option" where
  "fifo_step s chid =
     bind_o (Some (fifo_fetch s)) (\<lambda>word.
       let s1 = s\<lparr>fifo_cache1_dma_get := fifo_cache1_dma_get s + 4\<rparr>
       in if \<not> unat chid < GEFORCE_CHANNEL_COUNT then Some (Inl Out_Of_Bounds)
          else
            let c = unat chid; ch = channels s1 c
            in if mcnt (dma_state ch) \<noteq> 0
               then bind_o (geforce_execute_command s1 chid (subc (dma_state ch))
                              (mthd (dma_state ch)) word) (\<lambda>(ok, s2).
                      if \<not> ok
                      then Some (Inr (True, s2\<lparr>fifo_cache1_dma_get := fifo_cache1_dma_get s2 - 4\<rparr>))
                      else
                        let ch2 = channels s2 c;
                            ds = dma_state ch2;
                            ds1 = (if \<not> ni ds then ds\<lparr>mthd := mthd ds + 1\<rparr> else ds);
                            ds2 = ds1\<lparr>mcnt := mcnt ds1 - 1\<rparr>
                        in Some (Inr (False,
                             s2\<lparr>channels := (channels s2)(c := ch2\<lparr>dma_state := ds2\<rparr>)\<rparr>)))
               else Some (Inr (False, fifo_parse_header s1 c word)))"

partial_function (option) fifo_loop :: "GeForceState \<Rightarrow> u32 \<Rightarrow> (fault + GeForceState) option" where
  "fifo_loop s chid =
     (if fifo_cache1_dma_get s \<noteq> fifo_cache1_dma_put s
      then (case fifo_step s chid of
              None \<Rightarrow> None
            | Some (Inl e) \<Rightarrow> Some (Inl e)
            | Some (Inr (brk, s1)) \<Rightarrow> if brk then Some (Inr s1) else fifo_loop s1 chid)
      else Some (Inr s))"

text \<open>
  The two early returns of \<open>geforce_fifo_process\<close>: \<open>Inr True\<close> when the ring of \<open>chid\<close>
  is empty and the function returns at once.
\<close>

definition fifo_idle :: "GeForceState \<Rightarrow> u32 \<Rightarrow> fault + bool" where
  "fifo_idle s chid =
     (let oldchid = fifo_cache1_push1 s AND 0x1F
      in if oldchid = chid
         then Inr (fifo_cache1_dma_put s = fifo_cache1_dma_get s)
         else bind_r (geforce_ramfc_read32 s chid 0x0) (\<lambda>v0.
                bind_r (geforce_ramfc_read32 s chid 0x4) (\<lambda>v1. Inr (v0 = v1))))"

definition geforce_fifo_process :: "GeForceState \<Rightarrow> u32 \<Rightarrow> (fault + GeForceState) option" where
  "geforce_fifo_process s chid =
     (let oldchid = fifo_cache1_push1 s AND 0x1F
      in bind_o (Some (fifo_idle s chid)) (\<lambda>idle.
           if idle then Some (Inr s)
           else bind_o (if oldchid \<noteq> chid then Some (fifo_context_switch s oldchid chid)
                        else Some (Inr s))
                  (\<lambda>s1. fifo_loop s1 chid)))"

section \<open>Register writes\<close>

text \<open>
  The case \<open>0x003210\<close> (\<open>PFIFO_CACHE1_PUT\<close>) of \<open>geforce_mmio_write\<close>: the guest's value
  is stored as it is.
\<close>

definition mmio_write_cache1_put :: "GeForceState \<Rightarrow> u32 \<Rightarrow> GeForceState" where
  "mmio_write_cache1_put s val = s\<lparr>fifo_cache1_put := val\<rparr>"

section \<open>Notions used in the statements\<close>

subsection \<open>Handle table\<close>

text \<open>
  A linear probe as a function on slot numbers: \<open>probe_scan f outs n k\<close> examines \<open>n\<close>
  slots from slot \<open>k\<close> on, where \<open>f j\<close> is the outcome of the test at slot \<open>j\<close>. It
  stops at the first fault or match; when the \<open>n\<close> slots are used up, the outputs are
  as they were.
\<close>

fun probe_scan :: "(nat \<Rightarrow> fault + ramht_outs option) \<Rightarrow> ramht_outs \<Rightarrow> nat \<Rightarrow> nat
    \<Rightarrow> fault + ramht_outs" where
  "probe_scan f outs 0 k = Inr outs"
| "probe_scan f outs (Suc n) k =
     (case f k of
        Inl e \<Rightarrow> Inl e
      | Inr (Some r) \<Rightarrow> Inr r
      | Inr None \<Rightarrow> probe_scan f outs n (Suc k))"

text \<open>
  The table offset of the \<open>k\<close>-th slot of a probe that starts at \<open>hash\<close> and advances by
  8 bytes, wrapping at the table size.
\<close>

definition ramht_probe_off :: "GeForceState \<Rightarrow> u32 \<Rightarrow> u32 \<Rightarrow> nat \<Rightarrow> u32" where
  "ramht_probe_off s handle chid k =
     of_nat ((unat (ramht_hash s handle chid) + 8 * k) mod unat (ramht_size s))"

text \<open>The test of the probe loop at the \<open>k\<close>-th slot of that order.\<close>

definition ramht_test :: "GeForceState \<Rightarrow> u32 \<Rightarrow> u32 \<Rightarrow> ramht_outs \<Rightarrow> nat
    \<Rightarrow> fault + ramht_outs option" where
  "ramht_test s handle chid outs k =
     ramht_slot s handle chid (ramht_addr s) (ramht_probe_off s handle chid k) outs"

text \<open>
  No slot of the table resolves the handle for the channel: at every slot the test
  reads without fault and does not match.
\<close>

definition ramht_unresolved :: "GeForceState \<Rightarrow> u32 \<Rightarrow> u32 \<Rightarrow> bool" where
  "ramht_unresolved s handle chid =
     (\<forall>k < 2 ^ ramht_bits s. ramht_test s handle chid (None, None) k = Inr None)"

subsection \<open>Channel context records\<close>

text \<open>
  The five offsets of a channel record that the context switch uses, by device
  generation; the address of such a word in \<open>vram\<close>; the record being inside \<open>vram\<close>;
  the five words of a record; the five live registers, in the same order; two states
  with the same memory configuration and the same \<open>fifo_ramfc\<close>.
\<close>

definition ramfc_offsets :: "GeForceState \<Rightarrow> u32 list" where
  "ramfc_offsets s = [0x0, 0x4, 0x8, 0xC, if card_type s < 0x40 then 0x2C else 0x30]"

definition ramfc_slot :: "GeForceState \<Rightarrow> u32 \<Rightarrow> u32 \<Rightarrow> u32" where
  "ramfc_slot s chid offset = geforce_ramfc_address s chid offset XOR ramin_flip s"

definition ramfc_record_in_vram :: "GeForceState \<Rightarrow> u32 \<Rightarrow> bool" where
  "ramfc_record_in_vram s chid =
     (\<forall>offset \<in> set (ramfc_offsets s). in_vram s (ramfc_slot s chid offset) 4)"

definition ramfc_record :: "GeForceState \<Rightarrow> u32 \<Rightarrow> (fault + u32) list" where
  "ramfc_record s chid = map (geforce_ramfc_read32 s chid) (ramfc_offsets s)"

definition pull_regs :: "GeForceState \<Rightarrow> u32 list" where
  "pull_regs s = [fifo_cache1_dma_put s, fifo_cache1_dma_get s, fifo_cache1_ref_cnt s,
                  fifo_cache1_dma_instance s, fifo_cache1_semaphore s]"

definition same_ramfc_config :: "GeForceState \<Rightarrow> GeForceState \<Rightarrow> bool" where
  "same_ramfc_config s s' =
     (card_type s' = card_type s \<and> memsize s' = memsize s \<and> ramin_flip s' = ramin_flip s \<and>
      fifo_ramfc s' = fifo_ramfc s)"

subsection \<open>Results\<close>

text \<open>
  A view of the state in which a call returns: \<open>None\<close> when the call faults or does not
  return.
\<close>

definition on_return :: "(GeForceState \<Rightarrow> 'a) \<Rightarrow> (fault + bool \<times> GeForceState) option \<Rightarrow> 'a option" where
  "on_return f r = (case r of Some (Inr (ok, s)) \<Rightarrow> Some (f s) | _ \<Rightarrow> None)"

definition on_exit :: "(GeForceState \<Rightarrow> 'a) \<Rightarrow> (fault + GeForceState) option \<Rightarrow> 'a option" where
  "on_exit f r = (case r of Some (Inr s) \<Rightarrow> Some (f s) | _ \<Rightarrow> None)"

subsection \<open>What a command leaves alone\<close>

text \<open>
  \<open>same_fifo s s'\<close>: the registers of the ring, the software-method queue, the FIFO
  interrupt sources and the channel array of \<open>s'\<close> are those of \<open>s\<close>.
  \<open>same_pull ch ch'\<close>: the decode state of the ring (pending method run, subroutine
  return) of \<open>ch'\<close> is that of \<open>ch\<close>.
\<close>

definition same_fifo :: "GeForceState \<Rightarrow> GeForceState \<Rightarrow> bool" where
  "same_fifo s s' =
     (fifo_cache1_dma_get s' = fifo_cache1_dma_get s \<and>
      fifo_cache1_dma_put s' = fifo_cache1_dma_put s \<and>
      fifo_cache1_dma_instance s' = fifo_cache1_dma_instance s \<and>
      fifo_cache1_push1 s' = fifo_cache1_push1 s \<and>
      fifo_cache1_put s' = fifo_cache1_put s \<and>
      fifo_cache1_method s' = fifo_cache1_method s \<and>
      fifo_cache1_data s' = fifo_cache1_data s \<and>
      fifo_intr s' = fifo_intr s \<and>
      channels s' = channels s)"

definition same_pull :: "GeForceChannel \<Rightarrow> GeForceChannel \<Rightarrow> bool" where
  "same_pull ch ch' =
     (dma_state ch' = dma_state ch \<and> subr_return ch' = subr_return ch \<and>
      subr_active ch' = subr_active ch)"

subsection \<open>Turns of the command loop\<close>

text \<open>
  \<open>fifo_dispatch_turn s chid sc m ds'\<close>: a turn of the loop that fetches the word at the
  get cursor, advances the cursor by 4, dispatches method \<open>m\<close> on subchannel \<open>sc\<close> with
  that word as its parameter and, when the dispatch returns, goes on (no \<open>break\<close>) with
  \<open>ds'\<close> as the pending run of the channel.
\<close>

definition fifo_dispatch_turn :: "GeForceState \<Rightarrow> u32 \<Rightarrow> u32 \<Rightarrow> u32 \<Rightarrow> GeForceDataState
    \<Rightarrow> (fault + bool \<times> GeForceState) option" where
  "fifo_dispatch_turn s chid sc m ds' =
     bind_o (Some (fifo_fetch s)) (\<lambda>w.
       bind_o (geforce_execute_command (s\<lparr>fifo_cache1_dma_get := fifo_cache1_dma_get s + 4\<rparr>)
                 chid sc m w) (\<lambda>(ok, t).
         Some (Inr (False, t\<lparr>channels := (channels t)
                 (unat chid := (channels t (unat chid))\<lparr>dma_state := ds'\<rparr>)\<rparr>))))"

text \<open>
  \<open>fifo_header_turn s chid\<close>: a turn of the loop that fetches the word at the get cursor,
  advances the cursor by 4 and decodes the word as a header; nothing is dispatched.
\<close>

definition fifo_header_turn :: "GeForceState \<Rightarrow> u32 \<Rightarrow> (fault + bool \<times> GeForceState) option" where
  "fifo_header_turn s chid =
     bind_o (Some (fifo_fetch s)) (\<lambda>w.
       Some (Inr (False, fifo_parse_header
         (s\<lparr>fifo_cache1_dma_get := fifo_cache1_dma_get s + 4\<rparr>) (unat chid) w)))"

text \<open>
  The words that the header decoder takes for an old jump, a jump, a call or a return:
  they set the get cursor to a value that the word, or the channel, supplies.
\<close>

definition fifo_transfer :: "u32 \<Rightarrow> bool" where
  "fifo_transfer w =
     (w AND 0xe0000003 = 0x20000000 \<or> w AND 3 = 1 \<or> w AND 3 = 2 \<or> w = 0x00020000)"

section \<open>States used in the examples\<close>

text \<open>
  \<open>reset_state\<close> is the device after \<open>geforce_realize\<close> for the model \<open>GEFORCE_3\<close>
  (\<open>card_type = 0\<close>, 64 MiB of zeroed memory, \<open>ramin_flip = memsize - 64\<close>,
  \<open>class_mask = 0xFFF\<close>) and \<open>geforce_reset\<close> (channels zeroed, \<open>bpp = 32\<close>).
  \<open>ramin_poke\<close> stores a word at an instance-memory address, as the guest does when it
  writes through the RAMIN window.
\<close>

definition reset_channel :: GeForceChannel where
  "reset_channel = \<lparr>
     subr_return = 0, subr_active = False,
     dma_state = \<lparr>mthd = 0, subc = 0, mcnt = 0, ni = False\<rparr>,
     schs = (\<lambda>k. \<lparr>object = 0, engine = 0, notifier = 0\<rparr>),
     notify_pending = False, notify_type = 0,
     s2d_img_src = 0, s2d_img_dst = 0, s2d_color_fmt = 0, s2d_color_bytes = 0,
     s2d_pitch = 0, s2d_ofs_src = 0, s2d_ofs_dst = 0,
     ifc_color_key_enable = False, ifc_operation = 0, ifc_color_fmt = 0, ifc_color_bytes = 0,
     ifc_yx = 0, ifc_dhw = 0, ifc_shw = 0, ifc_words_ptr = 0, ifc_words_left = 0,
     ifc_words = None, ifc_upload = False, ifc_upload_offset = 0,
     blit_color_key_enable = False, blit_operation = 0, blit_syx = 0, blit_dyx = 0, blit_hw = 0,
     m2mf_src = 0, m2mf_dst = 0, m2mf_src_offset = 0, m2mf_dst_offset = 0,
     m2mf_src_pitch = 0, m2mf_dst_pitch = 0, m2mf_line_length = 0, m2mf_line_count = 0,
     m2mf_format = 0, m2mf_buffer_notify = 0,
     d3d_a_obj = 0, d3d_b_obj = 0, d3d_color_obj = 0, d3d_zeta_obj = 0,
     d3d_clip_horizontal = 0, d3d_clip_vertical = 0, d3d_surface_format = 0,
     d3d_color_bytes = 0, d3d_depth_bytes = 0, d3d_surface_pitch_a = 0,
     d3d_surface_color_offset = 0, d3d_surface_zeta_offset = 0,
     d3d_vertex_index = 0, d3d_attrib_index = 0, d3d_comp_index = 0,
     d3d_vertex_data = (\<lambda>i. 0),
     d3d_zstencil_clear_value = 0, d3d_color_clear_value = 0, d3d_clear_surface = 0,
     rop = 0, clip_yx = 0, clip_hw = 0,
     patt_shape = 0, patt_type = 0, patt_bg_color = 0, patt_fg_color = 0,
     patt_data_mono = (\<lambda>k. False), patt_data_color = (\<lambda>k. 0),
     gdi_operation = 0, gdi_color_fmt = 0, gdi_mono_fmt = 0,
     gdi_clip_yx0 = 0, gdi_clip_yx1 = 0, gdi_rect_color = 0, gdi_rect_xy = 0,
     gdi_rect_yx0 = 0, gdi_rect_yx1 = 0, gdi_rect_wh = 0\<rparr>"

definition reset_state :: GeForceState where
  "reset_state = \<lparr>
     card_type = 0, memsize = 0x4000000, ramin_flip = 0x3FFFFC0, class_mask = 0x00000FFF,
     vram = (\<lambda>a. 0), phys = (\<lambda>a. 0), clock_ns = 0, irq_level = False, bpp = 32,
     mc_intr_en = 0, bus_intr = 0, bus_intr_en = 0, fifo_intr = 0, fifo_intr_en = 0,
     graph_intr = 0, graph_nsource = 0, graph_intr_en = 0, graph_notify = 0,
     crtc_intr = 0, crtc_intr_en = 0, fifo_ramht = 0, fifo_ramfc = 0,
     fifo_cache1_push1 = 0, fifo_cache1_put = 0, fifo_cache1_get = 0,
     fifo_cache1_dma_instance = 0,
     fifo_cache1_dma_put = 0, fifo_cache1_dma_get = 0, fifo_cache1_ref_cnt = 0,
     fifo_cache1_pull0 = 0, fifo_cache1_semaphore = 0,
     fifo_cache1_method = (\<lambda>k. 0), fifo_cache1_data = (\<lambda>k. 0),
     timer_inittime1 = 0, timer_inittime2 = 0,
     channels = (\<lambda>c. reset_channel)\<rparr>"

definition ramin_poke :: "GeForceState \<Rightarrow> u32 \<Rightarrow> u32 \<Rightarrow> GeForceState" where
  "ramin_poke s addr val = s\<lparr>vram := st32 (vram s) (addr XOR ramin_flip s) val\<rparr>"

subsection \<open>Descriptors for the address translator\<close>

text \<open>
  The translation of a linear descriptor in the words of the specification: the adjust
  field from the first word, the base field from the second word (byte offset 4).
\<close>

definition spec_lin_lookup :: "GeForceState \<Rightarrow> u32 \<Rightarrow> u32 \<Rightarrow> fault + u32" where
  "spec_lin_lookup s obj addr =
     bind_r (geforce_ramin_read32 s obj) (\<lambda>w0.
       bind_r (geforce_ramin_read32 s (obj + 4)) (\<lambda>w1.
         Inr ((w1 AND 0xFFFFF000) + drop_bit 20 w0 + addr)))"

text \<open>
  The translation of a paged descriptor in the words of the specification:
  \<open>page_table[offset >> 12] & page_mask | (offset & page_offset_mask)\<close>, the table
  starting after the 8-byte header.
\<close>

definition spec_pt_lookup :: "GeForceState \<Rightarrow> u32 \<Rightarrow> u32 \<Rightarrow> fault + u32" where
  "spec_pt_lookup s obj addr =
     bind_r (geforce_ramin_read32 s (obj + 8 + drop_bit 12 addr * 4)) (\<lambda>e.
       Inr ((e AND 0xFFFFF000) OR (addr AND 0xFFF)))"

text \<open>
  A linear descriptor at instance address \<open>0x1000\<close>: adjust \<open>0x10\<close> and the linear flag in
  word 0, \<open>0x2000\<close> in word 1, \<open>0x7000\<close> in word 2.
\<close>

definition lin_desc_state :: GeForceState where
  "lin_desc_state =
     ramin_poke (ramin_poke (ramin_poke reset_state 0x1000 0x01002000) 0x1004 0x00002000)
       0x1008 0x00007000"

text \<open>The linear descriptor of the specification's example: base \<open>0x2000\<close>, adjust \<open>0x10\<close>.\<close>

definition lin_example_state :: GeForceState where
  "lin_example_state =
     ramin_poke (ramin_poke reset_state 0x1000 0x01002000) 0x1008 0x00002000"

text \<open>
  A paged descriptor at instance address \<open>0x1000\<close>: adjust \<open>0x60\<close> in word 0, page-table
  entries \<open>0x5000\<close> and \<open>0x9000\<close>.
\<close>

definition pt_desc_state :: GeForceState where
  "pt_desc_state =
     ramin_poke (ramin_poke (ramin_poke reset_state 0x1000 0x06000000) 0x1008 0x00005000)
       0x100C 0x00009000"

text \<open>The paged descriptor of the specification's example: entry 0 is \<open>0x5000\<close>, no adjust.\<close>

definition pt_example_state :: GeForceState where
  "pt_example_state = ramin_poke reset_state 0x1008 0x00005000"

subsection \<open>A state for the context switch\<close>

text \<open>
  Channel 0 is active with live registers put \<open>0x100\<close>, get \<open>0x40\<close>, reference count 7,
  instance \<open>0x1234\<close>, semaphore \<open>0x55\<close>; the record of channel 1 (at instance address
  \<open>0x40\<close>) holds put \<open>0x20\<close> and get \<open>0x10\<close>.
\<close>

definition switch_state :: GeForceState where
  "switch_state =
     ramin_poke (ramin_poke
       (reset_state\<lparr>fifo_cache1_dma_put := 0x100, fifo_cache1_dma_get := 0x40,
          fifo_cache1_ref_cnt := 7, fifo_cache1_dma_instance := 0x1234,
          fifo_cache1_semaphore := 0x55\<rparr>) 0x40 0x20) 0x44 0x10"

subsection \<open>Handle tables\<close>

text \<open>
  The table has its reset geometry: address 0, 512 slots. In \<open>entry_state\<close> the slot
  at offset \<open>0x468\<close> binds handle \<open>0xBEEF0001\<close> to object \<open>0x1000\<close>, engine 1, channel 5.
  In \<open>collision_state\<close> that slot binds handle \<open>0x2D\<close> (object \<open>0x2000\<close>), and the next
  slot binds \<open>0xBEEF0001\<close>.
\<close>

definition entry_state :: GeForceState where
  "entry_state = ramin_poke (ramin_poke reset_state 0x468 0xBEEF0001) 0x46C 0x05010100"


subsection \<open>A bound subchannel\<close>

text \<open>
  \<open>bind_state\<close>: the table of \<open>entry_state\<close>, and subchannel 3 of channel 5 bound to
  object \<open>0x2000\<close> on engine 1 with notifier \<open>0x3000\<close>. \<open>bind_patched_state\<close>: the same
  after the notifier field of that object (its word at offset 4) has been written.
\<close>

definition bind_state :: GeForceState where
  "bind_state =
     entry_state\<lparr>channels := (channels entry_state)
       (5 := reset_channel\<lparr>schs := (schs reset_channel)
          (3 := \<lparr>object = 0x2000, engine = 1, notifier = 0x3000\<rparr>)\<rparr>)\<rparr>"

definition bind_patched_state :: GeForceState where
  "bind_patched_state = ramin_poke bind_state 0x2004 0x03000000"

subsection \<open>Command rings\<close>

text \<open>
  \<open>ring_base_state\<close>: channel 0 is the active channel, its ring is described by a linear
  descriptor at instance \<open>0x100\<close> (instance address \<open>0x1000\<close>) with base \<open>0x10000\<close> in
  video memory. \<open>ring_poke s off w\<close> stores the word \<open>w\<close> at offset \<open>off\<close> of that ring.
\<close>

definition ring_base_state :: GeForceState where
  "ring_base_state =
     (ramin_poke (ramin_poke reset_state 0x1000 0x00002000) 0x1008 0x00010000)
       \<lparr>fifo_cache1_dma_instance := 0x100\<rparr>"

definition ring_poke :: "GeForceState \<Rightarrow> u32 \<Rightarrow> u32 \<Rightarrow> GeForceState" where
  "ring_poke s off w = s\<lparr>vram := st32 (vram s) (0x10000 + off) w\<rparr>"

text \<open>
  \<open>run3_state\<close>: the ring holds the header \<open>0x000C4400\<close> (run length 3, subchannel 2,
  method \<open>0x100\<close>, incrementing) and the three words \<open>0xA1\<close>, \<open>0xA2\<close>, \<open>0xA3\<close>; the put
  cursor is behind them. Every subchannel is on the software engine, as after reset.
\<close>

definition run3_state :: GeForceState where
  "run3_state =
     (ring_poke (ring_poke (ring_poke (ring_poke ring_base_state 0 0x000C4400) 4 0xA1) 8 0xA2)
        12 0xA3)\<lparr>fifo_cache1_dma_put := 16\<rparr>"

text \<open>
  \<open>run3_pending_state\<close>: the ring of \<open>run3_state\<close> with its header consumed: the get
  cursor is at 4 and the run of three methods from \<open>0x100\<close> on subchannel 2 is pending.
\<close>

definition run3_pending_state :: GeForceState where
  "run3_pending_state =
     run3_state\<lparr>fifo_cache1_dma_get := 4,
       channels := (channels run3_state)
         (0 := (channels run3_state 0)
            \<lparr>dma_state := \<lparr>mthd = 0x100, subc = 2, mcnt = 3, ni = False\<rparr>\<rparr>)\<rparr>"

text \<open>
  \<open>jump_state\<close>: the first word of the ring is a jump to offset 0, the put cursor is at 4.
\<close>

definition jump_state :: GeForceState where
  "jump_state = (ring_poke ring_base_state 0 0x00000001)\<lparr>fifo_cache1_dma_put := 4\<rparr>"

text \<open>
  \<open>headers_state\<close>: the ring holds two headers of run length 0, the put cursor is behind
  them.
\<close>

definition headers_state :: GeForceState where
  "headers_state = (ring_poke ring_base_state 4 0x00004400)\<lparr>fifo_cache1_dma_put := 8\<rparr>"

subsection \<open>The software-method queue\<close>

text \<open>
  The states after reset and a write of 5, or of \<open>0x400\<close>, to \<open>PFIFO_CACHE1_PUT\<close>.
\<close>

definition odd_put_state :: GeForceState where
  "odd_put_state = mmio_write_cache1_put reset_state 5"

definition overrun_put_state :: GeForceState where
  "overrun_put_state = mmio_write_cache1_put reset_state 0x400"

subsection \<open>An oversize handle table\<close>


section \<open>Basic facts\<close>

lemma bind_r_simps [simp]:
  "bind_r (Inr v) f = f v"
  "bind_r (Inl e) f = Inl e"
  by (simp_all add: bind_r_def)

lemma bind_o_simps [simp]:
  "bind_o None g = None"
  "bind_o (Some (Inl e)) g = Some (Inl e)"
  "bind_o (Some (Inr v)) g = g v"
  by (simp_all add: bind_o_def)

lemmas mem_eval =
  geforce_ramin_read32_def geforce_vram_read32_def in_vram_def ld32_def le32_def st32_def
  ramin_poke_def reset_state_def

section \<open>Address translation: linear descriptors\<close>

text \<open>
  Claim C7, as the code has it. For a descriptor whose flag word \<open>w0\<close> has the linear
  flag \<open>0x2000\<close> set, the absolute address is base + adjust + offset, where adjust is
  \<open>w0 >> 20\<close> and base is the word at byte offset 8 of the descriptor (its third word,
  not its second), masked with \<open>0xFFFFF000\<close>.
\<close>

theorem dma_linear_address:
  assumes "geforce_ramin_read32 s obj = Inr w0"
    and "w0 AND 0x00002000 \<noteq> 0"
    and "geforce_ramin_read32 s (obj + 8) = Inr w2"
  shows "dma_addr_abs s obj addr = Inr (w0, (w2 AND 0xFFFFF000) + drop_bit 20 w0 + addr)"
  using assms by (simp add: dma_addr_abs_def geforce_dma_lin_lookup_def)

text \<open>
  The example of the specification: base \<open>0x2000\<close>, adjust \<open>0x10\<close>, offset \<open>0x34\<close> give
  \<open>0x2044\<close>, when the base sits at byte offset 8.
\<close>

theorem dma_linear_address_witness:
  "geforce_ramin_read32 lin_example_state 0x1000 = Inr 0x01002000 \<and>
   (0x01002000 :: u32) AND 0x00002000 \<noteq> 0 \<and>
   geforce_ramin_read32 lin_example_state (0x1000 + 8) = Inr 0x00002000 \<and>
   dma_addr_abs lin_example_state 0x1000 0x34 = Inr (0x01002000, 0x2044)"
proof -
  have r0: "geforce_ramin_read32 lin_example_state 0x1000 = Inr 0x01002000"
    by (simp add: lin_example_state_def mem_eval)
  have fl: "(0x01002000 :: u32) AND 0x00002000 \<noteq> 0"
    by simp
  have r2: "geforce_ramin_read32 lin_example_state (0x1000 + 8) = Inr 0x00002000"
    by (simp add: lin_example_state_def mem_eval)
  show ?thesis
    using r0 fl r2 dma_linear_address [OF r0 fl r2, of "0x34"] by simp
qed

text \<open>
  Claim C7 as the specification words it fails: with \<open>0x2000\<close> in the second word and
  \<open>0x7000\<close> in the third, the code resolves offset \<open>0x34\<close> to \<open>0x7044\<close>, while base
  taken from the second word gives \<open>0x2044\<close>.
\<close>

theorem dma_linear_second_word_counterexample:
  "geforce_dma_lin_lookup lin_desc_state 0x1000 0x34 = Inr 0x7044 \<and>
   spec_lin_lookup lin_desc_state 0x1000 0x34 = Inr 0x2044"
  by (simp add: lin_desc_state_def mem_eval geforce_dma_lin_lookup_def spec_lin_lookup_def)

section \<open>Address translation: paged descriptors\<close>

text \<open>
  Claim C3, as the code has it. For a descriptor whose flag word \<open>w0\<close> has the linear
  flag clear, the adjust field \<open>w0 >> 20\<close> is first added to the offset; the sum selects
  the page-table entry (32-bit entries from byte offset 8 of the descriptor) and gives
  the offset inside the page.
\<close>

theorem dma_paged_address:
  assumes "geforce_ramin_read32 s obj = Inr w0"
    and "w0 AND 0x00002000 = 0"
    and "geforce_ramin_read32 s (obj + 8 + drop_bit 12 (addr + drop_bit 20 w0) * 4) = Inr e"
  shows "dma_addr_abs s obj addr =
           Inr (w0, (e AND 0xFFFFF000) OR ((addr + drop_bit 20 w0) AND 0xFFF))"
  using assms by (simp add: dma_addr_abs_def geforce_dma_pt_lookup_def Let_def)

text \<open>
  The example of the specification: page-table entry 0 equal to \<open>0x5000\<close> and offset
  \<open>0x0FA0\<close> give \<open>0x5FA0\<close>, when the adjust field is zero.
\<close>

theorem dma_paged_address_witness:
  "geforce_ramin_read32 pt_example_state 0x1000 = Inr 0 \<and>
   (0 :: u32) AND 0x00002000 = 0 \<and>
   geforce_ramin_read32 pt_example_state (0x1000 + 8 + drop_bit 12 (0xFA0 + drop_bit 20 0) * 4)
     = Inr 0x5000 \<and>
   dma_addr_abs pt_example_state 0x1000 0xFA0 = Inr (0, 0x5FA0)"
proof -
  have r0: "geforce_ramin_read32 pt_example_state 0x1000 = Inr 0"
    by (simp add: pt_example_state_def mem_eval)
  have fl: "(0 :: u32) AND 0x00002000 = 0"
    by simp
  have r2: "geforce_ramin_read32 pt_example_state
              (0x1000 + 8 + drop_bit 12 (0xFA0 + drop_bit 20 0) * 4) = Inr 0x5000"
    by (simp add: pt_example_state_def mem_eval)
  show ?thesis
    using r0 fl r2 dma_paged_address [OF r0 fl r2] by simp
qed

text \<open>
  Claim C3 as the specification words it fails: with adjust \<open>0x60\<close>, offset \<open>0x0FA0\<close>
  crosses into page 1, and the code resolves it to \<open>0x9000\<close>; the formula without the
  adjust gives \<open>0x5FA0\<close>.
\<close>

theorem dma_paged_adjust_counterexample:
  "geforce_dma_pt_lookup pt_desc_state 0x1000 0xFA0 = Inr 0x9000 \<and>
   spec_pt_lookup pt_desc_state 0x1000 0xFA0 = Inr 0x5FA0"
  by (simp add: pt_desc_state_def mem_eval geforce_dma_pt_lookup_def spec_pt_lookup_def)

section \<open>Words in byte memory\<close>

lemma unat_and_3: "unat (w AND 3) = unat w mod 4" for w :: u32
proof -
  have "w AND 3 = take_bit 2 w"
    by (simp add: take_bit_eq_mask mask_eq_exp_minus_1)
  then have "unat (w AND 3) = take_bit 2 (unat w)"
    by (simp add: unsigned_take_bit_eq)
  then show ?thesis
    by (simp add: take_bit_eq_mod)
qed

lemma le32_bytes:
  "le32 (ucast v) (ucast (drop_bit 8 v)) (ucast (drop_bit 16 v)) (ucast (drop_bit 24 v)) = v"
proof (rule bit_word_eqI)
  fix n
  assume n: "n < LENGTH(32)"
  consider "n < 8" | "8 \<le> n" "n < 16" | "16 \<le> n" "n < 24" | "24 \<le> n"
    by linarith
  then show "bit (le32 (ucast v) (ucast (drop_bit 8 v)) (ucast (drop_bit 16 v))
                  (ucast (drop_bit 24 v))) n = bit v n"
    using n by cases (auto simp: le32_def bit_simps le_add_diff_inverse)
qed

lemma mod4_small: "x < 8 \<Longrightarrow> x mod 4 = (if x < 4 then x else x - 4)" for x :: nat
  by (simp add: le_mod_geq)

lemma mod4_cancel:
  fixes a b i j :: nat
  assumes eq: "(a + i) mod 4 = (b + j) mod 4" and res: "a mod 4 = b mod 4"
    and i: "i < 4" and j: "j < 4"
  shows "i = j"
proof -
  define r where "r = a mod 4"
  have r: "r < 4"
    by (simp add: r_def)
  have "(a + i) mod 4 = (r + i) mod 4"
    unfolding r_def by (rule mod_add_left_eq [symmetric])
  moreover have "(b + j) mod 4 = (r + j) mod 4"
    unfolding r_def res by (rule mod_add_left_eq [symmetric])
  ultimately have "(r + i) mod 4 = (r + j) mod 4"
    using eq by simp
  moreover have "r + i < 8" "r + j < 8"
    using r i j by simp_all
  ultimately have "(if r + i < 4 then r + i else r + i - 4) = (if r + j < 4 then r + j else r + j - 4)"
    by (simp only: mod4_small)
  then show ?thesis
    using r i j by (simp split: if_splits)
qed

lemma unat_mod4_add: "unat (x + y) mod 4 = (unat x + unat y) mod 4" for x y :: u32
proof -
  have "unat (x + y) = (unat x + unat y) mod 2 ^ LENGTH(32)"
    by (rule unat_word_ariths)
  moreover have "(4::nat) dvd 2 ^ LENGTH(32)"
    by simp
  ultimately show ?thesis
    by (simp only: mod_mod_cancel)
qed

lemma word_add_neq:
  fixes p q :: u32
  assumes res: "unat p mod 4 = unat q mod 4" and ne: "p \<noteq> q" and i: "i < 4" and j: "j < 4"
  shows "p + of_nat i \<noteq> q + of_nat j"
proof
  assume eq: "p + of_nat i = q + of_nat j"
  have ui: "unat (of_nat i :: u32) = i" and uj: "unat (of_nat j :: u32) = j"
    using i j by (simp_all add: unat_of_nat)
  have "unat (p + of_nat i) mod 4 = unat (q + of_nat j) mod 4"
    using eq by simp
  then have "(unat p + i) mod 4 = (unat q + j) mod 4"
    by (simp only: unat_mod4_add ui uj)
  then have "i = j"
    using res i j by (rule mod4_cancel)
  with eq have "p = q" by simp
  with ne show False by simp
qed

lemma word_add_neq_num:
  fixes p q :: u32
  assumes res: "unat p mod 4 = unat q mod 4" and ne: "p \<noteq> q"
  shows "p \<noteq> q + 1" "p \<noteq> q + 2" "p \<noteq> q + 3"
    "p + 1 \<noteq> q" "p + 1 \<noteq> q + 1" "p + 1 \<noteq> q + 2" "p + 1 \<noteq> q + 3"
    "p + 2 \<noteq> q" "p + 2 \<noteq> q + 1" "p + 2 \<noteq> q + 2" "p + 2 \<noteq> q + 3"
    "p + 3 \<noteq> q" "p + 3 \<noteq> q + 1" "p + 3 \<noteq> q + 2" "p + 3 \<noteq> q + 3"
  using word_add_neq [OF res ne, of 0 1] word_add_neq [OF res ne, of 0 2]
    word_add_neq [OF res ne, of 0 3]
    word_add_neq [OF res ne, of 1 0] word_add_neq [OF res ne, of 1 1]
    word_add_neq [OF res ne, of 1 2] word_add_neq [OF res ne, of 1 3]
    word_add_neq [OF res ne, of 2 0] word_add_neq [OF res ne, of 2 1]
    word_add_neq [OF res ne, of 2 2] word_add_neq [OF res ne, of 2 3]
    word_add_neq [OF res ne, of 3 0] word_add_neq [OF res ne, of 3 1]
    word_add_neq [OF res ne, of 3 2] word_add_neq [OF res ne, of 3 3]
  by simp_all

lemma ld32_st32_same: "ld32 (st32 m p v) p = v"
  by (simp add: ld32_def st32_def le32_bytes)

lemma ld32_st32_other:
  assumes "unat p mod 4 = unat q mod 4" and "p \<noteq> q"
  shows "ld32 (st32 m p v) q = ld32 m q"
proof -
  note a = word_add_neq_num [OF assms]
  note b = word_add_neq_num [OF assms(1) [symmetric] assms(2) [symmetric]]
  show ?thesis
    using assms(2) a b by (simp add: ld32_def st32_def)
qed

lemma in_vram_guard:
  assumes "in_vram s a 4"
  shows "a + 3 < memsize s"
proof -
  have le: "unat a + 4 \<le> unat (memsize s)"
    using assms by (simp add: in_vram_def)
  have "unat (memsize s) < 2 ^ LENGTH(32)"
    by (rule unsigned_less)
  with le have "unat a + unat (3 :: u32) < 2 ^ LENGTH(32)"
    by simp
  then have "unat (a + 3) = unat a + unat (3 :: u32)"
    by (simp only: unat_add_lem [THEN iffD1])
  with le show ?thesis
    by (simp add: word_less_nat_alt)
qed

lemma vram_read32_in:
  "in_vram s a 4 \<Longrightarrow> geforce_vram_read32 s a = Inr (ld32 (vram s) a)"
  by (simp add: geforce_vram_read32_def in_vram_guard)

lemma vram_write32_in:
  "in_vram s a 4 \<Longrightarrow> geforce_vram_write32 s a v = Inr (s\<lparr>vram := st32 (vram s) a v\<rparr>)"
  by (simp add: geforce_vram_write32_def in_vram_guard)


section \<open>Channel context records\<close>

lemma unat_mod4_mult_64: "unat (c * 0x40) mod 4 = 0" for c :: u32
proof -
  have "unat (c * 0x40) = unat c * unat (0x40 :: u32) mod 2 ^ LENGTH(32)"
    by (rule unat_word_ariths)
  moreover have "(4::nat) dvd 2 ^ LENGTH(32)"
    by simp
  ultimately have "unat (c * 0x40) mod 4 = unat c * unat (0x40 :: u32) mod 4"
    by (simp only: mod_mod_cancel)
  then show ?thesis by simp
qed

lemma unat_mod4_mult_128: "unat (c * 0x80) mod 4 = 0" for c :: u32
proof -
  have "unat (c * 0x80) = unat c * unat (0x80 :: u32) mod 2 ^ LENGTH(32)"
    by (rule unat_word_ariths)
  moreover have "(4::nat) dvd 2 ^ LENGTH(32)"
    by simp
  ultimately have "unat (c * 0x80) mod 4 = unat c * unat (0x80 :: u32) mod 4"
    by (simp only: mod_mod_cancel)
  then show ?thesis by simp
qed

lemma unat_mod4_push_bit:
  fixes x :: u32
  assumes "2 \<le> n"
  shows "unat (push_bit n x) mod 4 = 0"
proof -
  have "unat (push_bit n x) = take_bit LENGTH(32) (push_bit n (unat x))"
    by (rule unsigned_push_bit_eq)
  then have "unat (push_bit n x) = (unat x * 2 ^ n) mod 2 ^ LENGTH(32)"
    by (simp add: take_bit_eq_mod push_bit_eq_mult)
  moreover have "(4::nat) dvd 2 ^ LENGTH(32)"
    by simp
  ultimately have "unat (push_bit n x) mod 4 = (unat x * 2 ^ n) mod 4"
    by (simp only: mod_mod_cancel)
  moreover have "(4::nat) dvd 2 ^ n"
  proof -
    have "(2::nat) ^ 2 dvd 2 ^ n"
      using assms by (rule le_imp_power_dvd)
    then show ?thesis by simp
  qed
  ultimately show ?thesis
    by (simp add: dvd_mult)
qed

lemma mod4_sum0: "a mod 4 = 0 \<Longrightarrow> b mod 4 = 0 \<Longrightarrow> (a + b) mod 4 = 0" for a b :: nat
  by (metis add_0 mod_add_eq mod_0)

lemma ramfc_offset_cases:
  assumes "offset \<in> set (ramfc_offsets s)"
  shows "offset = 0x0 \<or> offset = 0x4 \<or> offset = 0x8 \<or> offset = 0xC \<or> offset = 0x2C \<or> offset = 0x30"
  using assms by (auto simp: ramfc_offsets_def split: if_splits)

lemma ramfc_offset_props:
  assumes "offset \<in> set (ramfc_offsets s)"
  shows "unat offset mod 4 = 0" and "unat offset < 64"
  using ramfc_offset_cases [OF assms] by auto

lemma ramfc_address_aligned:
  assumes "offset \<in> set (ramfc_offsets s)"
  shows "unat (geforce_ramfc_address s chid offset) mod 4 = 0"
proof -
  have o: "unat offset mod 4 = 0"
    using assms by (rule ramfc_offset_props)
  obtain base n where addr: "geforce_ramfc_address s chid offset = base + chid * n + offset"
    and base: "unat base mod 4 = 0" and n: "unat (chid * n) mod 4 = 0"
  proof (cases "card_type s < 0x40")
    case True
    show ?thesis
    proof (rule that)
      show "geforce_ramfc_address s chid offset =
              push_bit 8 (fifo_ramfc s AND 0xFFF) + chid * 0x40 + offset"
        using True by (simp only: geforce_ramfc_address_def Let_def if_True)
      show "unat (push_bit 8 (fifo_ramfc s AND 0xFFF)) mod 4 = 0"
        by (rule unat_mod4_push_bit) simp
      show "unat (chid * 0x40) mod 4 = 0"
        by (rule unat_mod4_mult_64)
    qed
  next
    case False
    show ?thesis
    proof (rule that)
      show "geforce_ramfc_address s chid offset =
              push_bit 16 (fifo_ramfc s AND 0xFFF) + chid * 0x80 + offset"
        using False by (simp only: geforce_ramfc_address_def Let_def if_False)
      show "unat (push_bit 16 (fifo_ramfc s AND 0xFFF)) mod 4 = 0"
        by (rule unat_mod4_push_bit) simp
      show "unat (chid * 0x80) mod 4 = 0"
        by (rule unat_mod4_mult_128)
    qed
  qed
  have "unat (base + chid * n) mod 4 = 0"
    unfolding unat_mod4_add using base n by (rule mod4_sum0)
  then have "unat (base + chid * n + offset) mod 4 = 0"
    unfolding unat_mod4_add [of "base + chid * n" offset] using o by (rule mod4_sum0)
  then show ?thesis
    by (simp only: addr)
qed

lemma ramfc_slot_residue:
  assumes "offset \<in> set (ramfc_offsets s)"
  shows "unat (ramfc_slot s chid offset) mod 4 = unat (ramin_flip s) mod 4"
proof -
  define a where "a = geforce_ramfc_address s chid offset"
  have "unat (a AND 3) = 0"
    using ramfc_address_aligned [OF assms, of chid] by (simp add: unat_and_3 a_def)
  then have a0: "a AND 3 = 0"
    by (simp add: unat_eq_0)
  have "(a XOR ramin_flip s) AND 3 = (a AND 3) XOR (ramin_flip s AND 3)"
    by (rule bit.conj_xor_distrib2)
  with a0 have "(a XOR ramin_flip s) AND 3 = ramin_flip s AND 3"
    by simp
  then have "unat ((a XOR ramin_flip s) AND 3) = unat (ramin_flip s AND 3)"
    by simp
  then show ?thesis
    by (simp only: unat_and_3 ramfc_slot_def a_def)
qed

lemma nat_radix_inj:
  fixes x y a b n :: nat
  assumes "x * n + a = y * n + b" "a < n" "b < n"
  shows "x = y \<and> a = b"
proof -
  have "(x * n + a) div n = x" "(y * n + b) div n = y"
    using assms(2,3) by simp_all
  with assms(1) have "x = y" by metis
  with assms(1) show ?thesis by simp
qed

lemma ramfc_address_inj:
  assumes c: "c < 32" "c' < 32"
    and o: "offset \<in> set (ramfc_offsets s)" "offset' \<in> set (ramfc_offsets s)"
    and eq: "geforce_ramfc_address s c offset = geforce_ramfc_address s c' offset'"
  shows "c = c' \<and> offset = offset'"
proof -
  define n :: u32 where "n = (if card_type s < 0x40 then 0x40 else 0x80)"
  have n: "unat n = 64 \<or> unat n = 128"
    by (simp add: n_def)
  have uc: "unat c < 32" "unat c' < 32"
    using c by (simp_all add: word_less_nat_alt)
  have uo: "unat offset < 64" "unat offset' < 64"
    using o by (simp_all add: ramfc_offset_props)
  have sum: "unat (d * n + x) = unat d * unat n + unat x" if "unat d < 32" "unat x < 64" for d x
  proof -
    have "unat d * unat n < 32 * 128"
      using that n by (auto intro: mult_strict_mono)
    then have m: "unat (d * n) = unat d * unat n"
      by (simp add: unat_word_ariths)
    have "unat (d * n) + unat x < 2 ^ LENGTH(32)"
      using that \<open>unat d * unat n < 32 * 128\<close> by (simp add: m)
    then have "unat (d * n + x) = unat (d * n) + unat x"
      by (simp only: unat_add_lem [THEN iffD1])
    with m show ?thesis by simp
  qed
  have "c * n + offset = c' * n + offset'"
    using eq by (simp add: geforce_ramfc_address_def n_def Let_def add.assoc)
  then have "unat (c * n + offset) = unat (c' * n + offset')"
    by simp
  then have "unat c * unat n + unat offset = unat c' * unat n + unat offset'"
    by (simp only: sum uc uo)
  moreover have "unat offset < unat n" "unat offset' < unat n"
    using uo n by auto
  ultimately have "unat c = unat c' \<and> unat offset = unat offset'"
    by (rule nat_radix_inj)
  then show ?thesis
    by (simp add: word_unat_eq_iff)
qed


lemma ramfc_slot_cfg:
  "same_ramfc_config s s' \<Longrightarrow> ramfc_slot s' c offset = ramfc_slot s c offset"
  by (simp add: same_ramfc_config_def ramfc_slot_def geforce_ramfc_address_def)

lemma in_vram_cfg:
  "same_ramfc_config s s' \<Longrightarrow> in_vram s' a n = in_vram s a n"
  by (simp add: same_ramfc_config_def in_vram_def)

lemma ramfc_write32_cfg:
  assumes "same_ramfc_config s s'" and "in_vram s (ramfc_slot s c offset) 4"
  shows "geforce_ramfc_write32 s' c offset v =
           Inr (s'\<lparr>vram := st32 (vram s') (ramfc_slot s c offset) v\<rparr>)"
proof -
  have "in_vram s' (ramfc_slot s' c offset) 4"
    using assms by (simp add: ramfc_slot_cfg in_vram_cfg)
  then have "geforce_vram_write32 s' (ramfc_slot s' c offset) v =
               Inr (s'\<lparr>vram := st32 (vram s') (ramfc_slot s' c offset) v\<rparr>)"
    by (rule vram_write32_in)
  then show ?thesis
    using assms(1)
    by (simp add: geforce_ramfc_write32_def geforce_ramin_write32_def ramfc_slot_cfg
        flip: ramfc_slot_def)
qed

lemma ramfc_read32_cfg:
  assumes "same_ramfc_config s s'" and "in_vram s (ramfc_slot s c offset) 4"
  shows "geforce_ramfc_read32 s' c offset = Inr (ld32 (vram s') (ramfc_slot s c offset))"
proof -
  have "in_vram s' (ramfc_slot s' c offset) 4"
    using assms by (simp add: ramfc_slot_cfg in_vram_cfg)
  then have "geforce_vram_read32 s' (ramfc_slot s' c offset) =
               Inr (ld32 (vram s') (ramfc_slot s' c offset))"
    by (rule vram_read32_in)
  then show ?thesis
    using assms(1)
    by (simp add: geforce_ramfc_read32_def geforce_ramin_read32_def ramfc_slot_cfg
        flip: ramfc_slot_def)
qed

lemma fifo_context_switch_result:
  assumes A: "ramfc_record_in_vram s A" and B: "ramfc_record_in_vram s B"
    and offs: "ramfc_offsets s = [0x0, 0x4, 0x8, 0xC, sro]"
  shows "\<exists>s1. fifo_context_switch s A B = Inr s1 \<and> same_ramfc_config s s1 \<and>
     vram s1 = st32 (st32 (st32 (st32 (st32 (vram s)
                 (ramfc_slot s A 0x0) (fifo_cache1_dma_put s))
                 (ramfc_slot s A 0x4) (fifo_cache1_dma_get s))
                 (ramfc_slot s A 0x8) (fifo_cache1_ref_cnt s))
                 (ramfc_slot s A 0xC) (fifo_cache1_dma_instance s))
                 (ramfc_slot s A sro) (fifo_cache1_semaphore s) \<and>
     pull_regs s1 = map (\<lambda>offset. ld32 (vram s1) (ramfc_slot s B offset)) (ramfc_offsets s) \<and>
     fifo_cache1_push1 s1 = (fifo_cache1_push1 s AND NOT 0x1F) OR B"
proof -
  have sro: "(if card_type s < 0x40 then 0x2C else 0x30) = sro"
    using offs by (simp add: ramfc_offsets_def)
  have inA: "in_vram s (ramfc_slot s A 0x0) 4" "in_vram s (ramfc_slot s A 0x4) 4"
    "in_vram s (ramfc_slot s A 0x8) 4" "in_vram s (ramfc_slot s A 0xC) 4"
    "in_vram s (ramfc_slot s A sro) 4"
    using A by (simp_all add: ramfc_record_in_vram_def offs)
  have inB: "in_vram s (ramfc_slot s B 0x0) 4" "in_vram s (ramfc_slot s B 0x4) 4"
    "in_vram s (ramfc_slot s B 0x8) 4" "in_vram s (ramfc_slot s B 0xC) 4"
    "in_vram s (ramfc_slot s B sro) 4"
    using B by (simp_all add: ramfc_record_in_vram_def offs)
  have cfg: "same_ramfc_config s s' \<Longrightarrow> same_ramfc_config s (s'\<lparr>vram := m\<rparr>)"
    "same_ramfc_config s s' \<Longrightarrow> same_ramfc_config s (s'\<lparr>fifo_cache1_dma_put := v\<rparr>)"
    "same_ramfc_config s s' \<Longrightarrow> same_ramfc_config s (s'\<lparr>fifo_cache1_dma_get := v\<rparr>)"
    "same_ramfc_config s s' \<Longrightarrow> same_ramfc_config s (s'\<lparr>fifo_cache1_ref_cnt := v\<rparr>)"
    "same_ramfc_config s s' \<Longrightarrow> same_ramfc_config s (s'\<lparr>fifo_cache1_dma_instance := v\<rparr>)"
    "same_ramfc_config s s' \<Longrightarrow> same_ramfc_config s (s'\<lparr>fifo_cache1_semaphore := v\<rparr>)"
    "same_ramfc_config s s' \<Longrightarrow> same_ramfc_config s (s'\<lparr>fifo_cache1_push1 := v\<rparr>)"
    "same_ramfc_config s s" for s' m v
    by (simp_all add: same_ramfc_config_def)
  show ?thesis
    unfolding fifo_context_switch_def Let_def sro
    by (simp add: ramfc_write32_cfg [where s = s] ramfc_read32_cfg [where s = s] inA inB cfg
        pull_regs_def offs)
qed


lemma ramfc_slot_sep:
  assumes "c < 32" "c' < 32"
    and "offset \<in> set (ramfc_offsets s)" "offset' \<in> set (ramfc_offsets s)"
    and "c \<noteq> c' \<or> offset \<noteq> offset'"
  shows "unat (ramfc_slot s c offset) mod 4 = unat (ramfc_slot s c' offset') mod 4"
    and "ramfc_slot s c offset \<noteq> ramfc_slot s c' offset'"
proof -
  show "unat (ramfc_slot s c offset) mod 4 = unat (ramfc_slot s c' offset') mod 4"
    using assms(3,4) by (simp only: ramfc_slot_residue)
  show "ramfc_slot s c offset \<noteq> ramfc_slot s c' offset'"
  proof
    assume "ramfc_slot s c offset = ramfc_slot s c' offset'"
    then have "(geforce_ramfc_address s c offset XOR ramin_flip s) XOR ramin_flip s =
                 (geforce_ramfc_address s c' offset' XOR ramin_flip s) XOR ramin_flip s"
      by (simp only: ramfc_slot_def)
    then have "geforce_ramfc_address s c offset = geforce_ramfc_address s c' offset'"
      by (simp add: xor.assoc)
    with assms(1-4) have "c = c' \<and> offset = offset'"
      by (rule ramfc_address_inj)
    with assms(5) show False by simp
  qed
qed

lemma ld32_other_slot:
  assumes "c < 32" "c' < 32"
    and "offset \<in> set (ramfc_offsets s)" "offset' \<in> set (ramfc_offsets s)"
    and "c \<noteq> c' \<or> offset \<noteq> offset'"
  shows "ld32 (st32 m (ramfc_slot s c offset) v) (ramfc_slot s c' offset') =
           ld32 m (ramfc_slot s c' offset')"
  using ramfc_slot_sep [OF assms] by (rule ld32_st32_other)

lemma ramfc_offsets_cfg: "same_ramfc_config s s' \<Longrightarrow> ramfc_offsets s' = ramfc_offsets s"
  by (simp add: same_ramfc_config_def ramfc_offsets_def)

lemma ramfc_record_in_vram_cfg:
  "same_ramfc_config s s' \<Longrightarrow> ramfc_record_in_vram s' c = ramfc_record_in_vram s c"
  by (simp add: ramfc_record_in_vram_def ramfc_offsets_cfg ramfc_slot_cfg in_vram_cfg)

lemma ramfc_record_ld32:
  assumes "same_ramfc_config s s'" "ramfc_record_in_vram s c"
  shows "ramfc_record s' c = map (\<lambda>offset. Inr (ld32 (vram s') (ramfc_slot s c offset))) (ramfc_offsets s)"
  using assms
  by (simp add: ramfc_record_def ramfc_offsets_cfg ramfc_record_in_vram_def
      ramfc_read32_cfg [where s = s])

lemma push1_chid:
  fixes c p :: u32
  assumes "c < 32"
  shows "((p AND NOT 0x1F) OR c) AND 0x1F = c"
proof -
  have "c < 2 ^ 5"
    using assms by simp
  then have "c AND mask 5 = c"
    by (rule less_mask_eq)
  then have c: "c AND 0x1F = c"
    by (simp add: mask_eq_exp_minus_1)
  have "((p AND NOT 0x1F) OR c) AND 0x1F = ((p AND NOT 0x1F) AND 0x1F) OR (c AND 0x1F)"
    by (rule bit.conj_disj_distrib2)
  also have "(p AND NOT 0x1F) AND 0x1F = 0"
    by (simp add: and.assoc)
  finally show ?thesis
    by (simp add: c)
qed

lemma same_ramfc_config_trans:
  "same_ramfc_config s s1 \<Longrightarrow> same_ramfc_config s1 s2 \<Longrightarrow> same_ramfc_config s s2"
  by (simp add: same_ramfc_config_def)

lemma fifo_process_switch:
  assumes "fifo_cache1_push1 s AND 0x1F = A" "A \<noteq> B" "fifo_idle s B = Inr False"
    and "fifo_context_switch s A B = Inr s1"
  shows "geforce_fifo_process s B = fifo_loop s1 B"
  using assms by (simp add: geforce_fifo_process_def Let_def)

text \<open>
  Claim C5. Let channel \<open>A\<close> be active, and let \<open>geforce_fifo_process\<close> be called for
  another channel \<open>B\<close> whose ring is not empty, both records lying inside \<open>vram\<close>. The
  call saves the five live registers (put, get, reference count, instance, semaphore)
  in the record of \<open>A\<close> and enters the command loop in a state \<open>s1\<close> with \<open>B\<close> active.
  From any later state \<open>s2\<close> with the same configuration in which the record of \<open>A\<close>
  holds the same five words and \<open>B\<close> is still active, a call for \<open>A\<close> enters its command
  loop in a state \<open>s3\<close> whose five live registers are those of the first state. Save and
  load use the same offsets \<open>ramfc_offsets\<close>, fixed by the device generation.
\<close>

theorem context_switch_restores:
  assumes AB: "A < 32" "B < 32" "A \<noteq> B"
    and inA: "ramfc_record_in_vram s A" and inB: "ramfc_record_in_vram s B"
    and act: "fifo_cache1_push1 s AND 0x1F = A" and busy: "fifo_idle s B = Inr False"
  shows "\<exists>s1. fifo_context_switch s A B = Inr s1 \<and>
           geforce_fifo_process s B = fifo_loop s1 B \<and>
           fifo_cache1_push1 s1 AND 0x1F = B \<and>
           same_ramfc_config s s1 \<and>
           ramfc_record s1 A = map Inr (pull_regs s) \<and>
           (\<forall>s2. same_ramfc_config s1 s2 \<and> ramfc_record s2 A = ramfc_record s1 A \<and>
                 fifo_cache1_push1 s2 AND 0x1F = B \<and> fifo_idle s2 A = Inr False \<longrightarrow>
              (\<exists>s3. fifo_context_switch s2 B A = Inr s3 \<and>
                    geforce_fifo_process s2 A = fifo_loop s3 A \<and>
                    fifo_cache1_push1 s3 AND 0x1F = A \<and>
                    pull_regs s3 = pull_regs s))"
proof -
  obtain sro where offs: "ramfc_offsets s = [0x0, 0x4, 0x8, 0xC, sro]"
    and sro: "sro = 0x2C \<or> sro = 0x30"
    by (auto simp: ramfc_offsets_def)
  have mem: "0x0 \<in> set (ramfc_offsets s)" "0x4 \<in> set (ramfc_offsets s)"
    "0x8 \<in> set (ramfc_offsets s)" "0xC \<in> set (ramfc_offsets s)" "sro \<in> set (ramfc_offsets s)"
    by (simp_all add: offs)
  have ne: "sro \<noteq> 0x0" "sro \<noteq> 0x4" "sro \<noteq> 0x8" "sro \<noteq> 0xC"
    "0x0 \<noteq> sro" "0x4 \<noteq> sro" "0x8 \<noteq> sro" "0xC \<noteq> sro"
    using sro by auto
  obtain s1 where s1: "fifo_context_switch s A B = Inr s1" "same_ramfc_config s s1"
    and v1: "vram s1 = st32 (st32 (st32 (st32 (st32 (vram s)
                 (ramfc_slot s A 0x0) (fifo_cache1_dma_put s))
                 (ramfc_slot s A 0x4) (fifo_cache1_dma_get s))
                 (ramfc_slot s A 0x8) (fifo_cache1_ref_cnt s))
                 (ramfc_slot s A 0xC) (fifo_cache1_dma_instance s))
                 (ramfc_slot s A sro) (fifo_cache1_semaphore s)"
    and p1: "fifo_cache1_push1 s1 = (fifo_cache1_push1 s AND NOT 0x1F) OR B"
    using fifo_context_switch_result [OF inA inB offs] by blast
  have proc1: "geforce_fifo_process s B = fifo_loop s1 B"
    using act AB(3) busy s1(1) by (rule fifo_process_switch)
  have rec1: "ramfc_record s1 A = map Inr (pull_regs s)"
    using AB(1) mem ne
    by (simp add: ramfc_record_ld32 [OF s1(2) inA] offs v1 pull_regs_def
        ld32_st32_same ld32_other_slot)
  have rest: "\<exists>s3. fifo_context_switch s2 B A = Inr s3 \<and>
                    geforce_fifo_process s2 A = fifo_loop s3 A \<and>
                    fifo_cache1_push1 s3 AND 0x1F = A \<and> pull_regs s3 = pull_regs s"
    if cfg2: "same_ramfc_config s1 s2" and rec2: "ramfc_record s2 A = ramfc_record s1 A"
      and act2: "fifo_cache1_push1 s2 AND 0x1F = B" and busy2: "fifo_idle s2 A = Inr False" for s2
  proof -
    have cfg: "same_ramfc_config s s2"
      using s1(2) cfg2 by (rule same_ramfc_config_trans)
    have inA2: "ramfc_record_in_vram s2 A" and inB2: "ramfc_record_in_vram s2 B"
      using inA inB by (simp_all add: ramfc_record_in_vram_cfg [OF cfg])
    have offs2: "ramfc_offsets s2 = [0x0, 0x4, 0x8, 0xC, sro]"
      using offs by (simp add: ramfc_offsets_cfg [OF cfg])
    obtain s3 where s3: "fifo_context_switch s2 B A = Inr s3"
      and v3: "vram s3 = st32 (st32 (st32 (st32 (st32 (vram s2)
                 (ramfc_slot s2 B 0x0) (fifo_cache1_dma_put s2))
                 (ramfc_slot s2 B 0x4) (fifo_cache1_dma_get s2))
                 (ramfc_slot s2 B 0x8) (fifo_cache1_ref_cnt s2))
                 (ramfc_slot s2 B 0xC) (fifo_cache1_dma_instance s2))
                 (ramfc_slot s2 B sro) (fifo_cache1_semaphore s2)"
      and r3: "pull_regs s3 = map (\<lambda>offset. ld32 (vram s3) (ramfc_slot s2 A offset)) (ramfc_offsets s2)"
      and p3: "fifo_cache1_push1 s3 = (fifo_cache1_push1 s2 AND NOT 0x1F) OR A"
      using fifo_context_switch_result [OF inB2 inA2 offs2] by blast
    have "map Inr (pull_regs s3) =
            map (\<lambda>offset. Inr (ld32 (vram s2) (ramfc_slot s A offset)) :: fault + u32) (ramfc_offsets s)"
      using AB mem
      by (simp add: r3 v3 offs offs2 ramfc_slot_cfg [OF cfg] ld32_other_slot)
    also have "\<dots> = ramfc_record s2 A"
      by (simp add: ramfc_record_ld32 [OF cfg inA])
    also have "\<dots> = map Inr (pull_regs s)"
      by (simp add: rec2 rec1)
    finally have "pull_regs s3 = pull_regs s"
      by (simp add: inj_map_eq_map)
    moreover have "fifo_cache1_push1 s3 AND 0x1F = A"
      unfolding p3 using AB(1) by (rule push1_chid)
    moreover have "geforce_fifo_process s2 A = fifo_loop s3 A"
      using act2 AB(3) [symmetric] busy2 s3 by (rule fifo_process_switch)
    ultimately show ?thesis
      using s3 by blast
  qed
  have "fifo_cache1_push1 s1 AND 0x1F = B"
    unfolding p1 using AB(2) by (rule push1_chid)
  with s1 rec1 rest proc1 show ?thesis
    by blast
qed

lemmas switch_eval =
  switch_state_def ramin_poke_def reset_state_def ramfc_record_in_vram_def ramfc_offsets_def
  ramfc_slot_def geforce_ramfc_address_def in_vram_def


theorem context_switch_restores_witness:
  "(0 :: u32) < 32 \<and> (1 :: u32) < 32 \<and> (0 :: u32) \<noteq> 1 \<and>
   ramfc_record_in_vram switch_state 0 \<and> ramfc_record_in_vram switch_state 1 \<and>
   fifo_cache1_push1 switch_state AND 0x1F = 0 \<and> fifo_idle switch_state 1 = Inr False \<and>
   (\<exists>s1 s3. geforce_fifo_process switch_state 1 = fifo_loop s1 1 \<and>
            geforce_fifo_process s1 0 = fifo_loop s3 0 \<and>
            pull_regs s3 = [0x100, 0x40, 7, 0x1234, 0x55])"
proof -
  have h1: "(0 :: u32) < 32" "(1 :: u32) < 32" "(0 :: u32) \<noteq> 1"
    by simp_all
  have h2: "ramfc_record_in_vram switch_state 0" "ramfc_record_in_vram switch_state 1"
    by (simp_all add: switch_eval)
  have h3: "fifo_cache1_push1 switch_state AND 0x1F = 0"
    by (simp add: switch_eval)
  have h4: "fifo_idle switch_state 1 = Inr False"
    by (simp add: switch_eval fifo_idle_def geforce_ramfc_read32_def mem_eval)
  have regs: "pull_regs switch_state = [0x100, 0x40, 7, 0x1234, 0x55]"
    by (simp add: pull_regs_def switch_eval)
  obtain s1 where s1: "geforce_fifo_process switch_state 1 = fifo_loop s1 1"
    and p1: "fifo_cache1_push1 s1 AND 0x1F = 1"
    and cfg: "same_ramfc_config switch_state s1"
    and rec: "ramfc_record s1 0 = map Inr (pull_regs switch_state)"
    and bk: "\<forall>s2. same_ramfc_config s1 s2 \<and> ramfc_record s2 0 = ramfc_record s1 0 \<and>
                 fifo_cache1_push1 s2 AND 0x1F = 1 \<and> fifo_idle s2 0 = Inr False \<longrightarrow>
              (\<exists>s3. fifo_context_switch s2 1 0 = Inr s3 \<and>
                    geforce_fifo_process s2 0 = fifo_loop s3 0 \<and>
                    fifo_cache1_push1 s3 AND 0x1F = 0 \<and>
                    pull_regs s3 = pull_regs switch_state)"
    using context_switch_restores [OF h1 h2 h3 h4] by blast
  have "card_type s1 = 0"
    using cfg by (simp add: same_ramfc_config_def switch_eval)
  then have "ramfc_offsets s1 = [0x0, 0x4, 0x8, 0xC, 0x2C]"
    by (simp add: ramfc_offsets_def)
  with rec have "geforce_ramfc_read32 s1 0 0x0 = Inr 0x100" "geforce_ramfc_read32 s1 0 0x4 = Inr 0x40"
    by (simp_all add: ramfc_record_def regs)
  with p1 have idle: "fifo_idle s1 0 = Inr False"
    by (simp add: fifo_idle_def)
  have "same_ramfc_config s1 s1"
    by (simp add: same_ramfc_config_def)
  with bk p1 idle obtain s3 where "geforce_fifo_process s1 0 = fifo_loop s3 0"
    "pull_regs s3 = pull_regs switch_state"
    by blast
  with s1 regs have "\<exists>s1 s3. geforce_fifo_process switch_state 1 = fifo_loop s1 1 \<and>
            geforce_fifo_process s1 0 = fifo_loop s3 0 \<and>
            pull_regs s3 = [0x100, 0x40, 7, 0x1234, 0x55]"
    by auto
  with h1 h2 h3 h4 show ?thesis
    by simp
qed

section \<open>Handle table\<close>

lemma unat_push_bit_small:
  fixes w :: u32
  assumes "unat w * 2 ^ n < 2 ^ 32"
  shows "unat (push_bit n w) = unat w * 2 ^ n"
proof -
  have "unat (push_bit n w) = take_bit LENGTH(32) (push_bit n (unat w))"
    by (rule unsigned_push_bit_eq)
  also have "\<dots> = unat w * 2 ^ n"
    using assms by (simp add: push_bit_eq_mult take_bit_nat_eq_self)
  finally show ?thesis .
qed

lemma pow2_le_27: "B \<le> 27 \<Longrightarrow> (2::nat) ^ B \<le> 2 ^ 27"
  by (rule power_increasing) simp_all

lemma ramht_size_unat:
  assumes "ramht_bits s \<le> 27"
  shows "unat (ramht_size s) = 8 * 2 ^ ramht_bits s"
proof -
  have le: "(2::nat) ^ ramht_bits s \<le> 2 ^ 27"
    using assms by (rule pow2_le_27)
  have a: "unat (push_bit (ramht_bits s) (1 :: u32)) = 2 ^ ramht_bits s"
    using le by (subst unat_push_bit_small) simp_all
  have "unat (push_bit 3 (push_bit (ramht_bits s) (1 :: u32))) =
          unat (push_bit (ramht_bits s) (1 :: u32)) * 2 ^ 3"
  proof (rule unat_push_bit_small)
    show "unat (push_bit (ramht_bits s) (1 :: u32)) * 2 ^ 3 < 2 ^ 32"
      unfolding a using le by simp
  qed
  then show ?thesis
    unfolding ramht_size_def a by simp
qed

lemma hash_loop_take_bit:
  "take_bit (n + 9) acc = acc \<Longrightarrow> take_bit (n + 9) (ramht_hash_loop n x acc) = ramht_hash_loop n x acc"
proof (induction n x acc rule: ramht_hash_loop.induct)
  case (1 n x hash)
  show ?case
  proof (cases "x = 0")
    case True
    with "1.prems" show ?thesis by simp
  next
    case False
    have "take_bit (n + 9) (hash XOR (x AND mask (n + 9))) = hash XOR (x AND mask (n + 9))"
      using "1.prems" by (simp add: take_bit_xor flip: take_bit_eq_mask)
    with "1.IH" [OF False] False show ?thesis
      by (simp del: ramht_hash_loop.simps add: ramht_hash_loop.simps [of n x hash])
  qed
qed

lemma ramht_bits_ge: "9 \<le> ramht_bits s"
  by (simp add: ramht_bits_def)

lemma ramht_hash_unat:
  assumes "ramht_bits s \<le> 27"
  shows "\<exists>i < 2 ^ ramht_bits s. unat (ramht_hash s handle chid) = 8 * i"
proof -
  define B where "B = ramht_bits s"
  define h0 where "h0 = ramht_hash_loop (B - 9) handle 0"
  define h1 where "h1 = h0 XOR push_bit (B - 4) (chid AND 0xF)"
  have B: "9 \<le> B" "B \<le> 27"
    using assms ramht_bits_ge [of s] by (simp_all add: B_def)
  have "take_bit (B - 9 + 9) h0 = h0"
    unfolding h0_def by (rule hash_loop_take_bit) simp
  then have t0: "take_bit B h0 = h0"
    using B by simp
  have "chid AND 0xF = take_bit 4 chid"
    by (simp add: take_bit_eq_mask mask_eq_exp_minus_1)
  then have "push_bit (B - 4) (chid AND 0xF) = take_bit (B - 4 + 4) (push_bit (B - 4) chid)"
    by (simp add: push_bit_take_bit)
  then have "take_bit B (push_bit (B - 4) (chid AND 0xF)) = push_bit (B - 4) (chid AND 0xF)"
    using B by simp
  with t0 have t1: "take_bit B h1 = h1"
    by (simp add: h1_def take_bit_xor)
  have "unat h1 = take_bit B (unat h1)"
    using t1 by (metis unsigned_take_bit_eq)
  then have lt: "unat h1 < 2 ^ B"
    by (metis take_bit_nat_less_exp)
  have "(2::nat) ^ B \<le> 2 ^ 27"
    using B by (intro pow2_le_27) simp
  with lt have lt27: "unat h1 < 2 ^ 27"
    by simp
  have "unat (push_bit 3 h1) = unat h1 * 2 ^ 3"
    using lt27 by (subst unat_push_bit_small) simp_all
  then have "unat (push_bit 3 h1) = 8 * unat h1"
    by simp
  moreover have "ramht_hash s handle chid = push_bit 3 h1"
    by (simp add: ramht_hash_def h1_def h0_def B_def Let_def)
  ultimately show ?thesis
    using lt by (auto simp: B_def)
qed


lemma mod_wrap:
  fixes a b N :: nat
  assumes "a < N" "b \<le> N"
  shows "(a + b) mod N = (if a + b < N then a + b else a + b - N)"
  using assms by (simp add: le_mod_geq)

lemma probe_run:
  fixes N i0 :: nat and sz hash :: u32
  assumes N: "8 * N \<le> 2 ^ 30"
    and sz: "unat sz = 8 * N"
    and hs: "unat hash = 8 * i0" "i0 < N"
    and off: "\<And>k. off k = (of_nat (8 * ((i0 + k) mod N)) :: u32)"
  shows "k < N \<Longrightarrow> k + n = N \<Longrightarrow>
     ramht_probe s h c addr sz hash outs (off k) =
       Some (probe_scan (\<lambda>j. ramht_slot s h c addr (off j) outs) outs n k)"
proof (induction n arbitrary: k)
  case 0
  then show ?case by simp
next
  case (Suc m)
  have Npos: "0 < N"
    using hs by simp
  have unat_off: "unat (off j) = 8 * ((i0 + j) mod N)" for j
  proof -
    have "(i0 + j) mod N < N"
      using Npos by simp
    then have lt: "8 * ((i0 + j) mod N) < 2 ^ LENGTH(32)"
      using N by simp
    have "unat (of_nat (8 * ((i0 + j) mod N)) :: u32) = 8 * ((i0 + j) mod N) mod 2 ^ LENGTH(32)"
      by (rule unat_of_nat)
    also have "\<dots> = 8 * ((i0 + j) mod N)"
      using lt by (rule mod_less)
    finally show ?thesis
      unfolding off .
  qed
  have hash_off: "hash = off N"
  proof -
    have "unat hash = unat (off N)"
      using hs by (simp add: unat_off)
    then show ?thesis
      by (simp add: word_unat_eq_iff)
  qed
  define r where "r = (i0 + k) mod N"
  have r: "r < N"
    using Npos by (simp add: r_def)
  have r_suc: "Suc (i0 + k) mod N = (if Suc r = N then 0 else Suc r)"
    unfolding r_def by (simp add: mod_Suc)
  have u8: "unat (off k + 8) = 8 * r + 8"
  proof -
    have "unat (off k) + unat (8 :: u32) < 2 ^ LENGTH(32)"
      using r N by (simp add: unat_off r_def [symmetric])
    then have "unat (off k + 8) = unat (off k) + unat (8 :: u32)"
      by (simp only: unat_add_lem [THEN iffD1])
    then show ?thesis
      by (simp add: unat_off r_def)
  qed
  have ge: "sz \<le> off k + 8 \<longleftrightarrow> Suc r = N"
    using r by (auto simp: word_le_nat_alt sz u8)
  have next_off: "(if sz \<le> off k + 8 then 0 else off k + 8) = off (Suc k)"
  proof (cases "Suc r = N")
    case True
    then have "unat (off (Suc k)) = 0"
      by (simp add: unat_off r_suc)
    then have "off (Suc k) = 0"
      by (simp add: unat_eq_0)
    with True ge show ?thesis by simp
  next
    case False
    then have "unat (off (Suc k)) = unat (off k + 8)"
      by (simp add: unat_off r_suc u8)
    then have "off (Suc k) = off k + 8"
      by (simp add: word_unat_eq_iff)
    with False ge show ?thesis by simp
  qed
  have wrapped: "off (Suc k) = hash \<longleftrightarrow> m = 0"
  proof -
    have "off (Suc k) = off N \<longleftrightarrow> (i0 + Suc k) mod N = (i0 + N) mod N"
      by (simp add: word_unat_eq_iff unat_off del: add_Suc_right)
    also have "\<dots> \<longleftrightarrow> Suc k = N"
      using hs(2) Suc.prems by (simp add: mod_wrap del: add_Suc_right) arith
    also have "\<dots> \<longleftrightarrow> m = 0"
      using Suc.prems by arith
    finally show ?thesis
      by (simp add: hash_off)
  qed
  show ?case
  proof (cases "ramht_slot s h c addr (off k) outs")
    case (Inl e)
    then show ?thesis
      by (subst ramht_probe.simps) simp
  next
    case (Inr res)
    show ?thesis
    proof (cases res)
      case (Some v)
      with Inr show ?thesis
        by (subst ramht_probe.simps) simp
    next
      case None
      show ?thesis
      proof (cases "m = 0")
        case True
        with Inr None next_off wrapped show ?thesis
          by (subst ramht_probe.simps) (simp add: Let_def)
      next
        case False
        then have "Suc k < N" "Suc k + m = N"
          using Suc.prems by simp_all
        then have "ramht_probe s h c addr sz hash outs (off (Suc k)) =
            Some (probe_scan (\<lambda>j. ramht_slot s h c addr (off j) outs) outs m (Suc k))"
          by (rule Suc.IH)
        with Inr None next_off wrapped False show ?thesis
          by (subst ramht_probe.simps) (simp add: Let_def)
      qed
    qed
  qed
qed

lemma ramht_lookup_scan:
  assumes "ramht_bits s \<le> 27"
  shows "geforce_ramht_lookup s handle chid outs =
     Some (probe_scan (ramht_test s handle chid outs) outs (2 ^ ramht_bits s) 0)"
proof -
  define N :: nat where "N = 2 ^ ramht_bits s"
  obtain i0 where i0: "i0 < N" "unat (ramht_hash s handle chid) = 8 * i0"
    using ramht_hash_unat [OF assms, of handle chid] by (auto simp: N_def)
  have sz: "unat (ramht_size s) = 8 * N"
    using assms by (simp add: ramht_size_unat N_def)
  have N: "8 * N \<le> 2 ^ 30"
    using pow2_le_27 [OF assms] by (simp add: N_def)
  have off: "ramht_probe_off s handle chid k = of_nat (8 * ((i0 + k) mod N))" for k
  proof -
    have "(8 * i0 + 8 * k) mod (8 * N) = 8 * ((i0 + k) mod N)"
      by (simp add: mult_mod_right distrib_left)
    then show ?thesis
      by (simp only: ramht_probe_off_def sz i0)
  qed
  have h0: "ramht_probe_off s handle chid 0 = ramht_hash s handle chid"
  proof -
    have "ramht_probe_off s handle chid 0 = of_nat (unat (ramht_hash s handle chid))"
      using i0 by (simp only: off i0 add_0_right mod_less)
    then show ?thesis by simp
  qed
  have "0 < N" "0 + N = N"
    using i0 by simp_all
  then have "ramht_probe s handle chid (ramht_addr s) (ramht_size s) (ramht_hash s handle chid) outs
          (ramht_probe_off s handle chid 0) =
        Some (probe_scan (\<lambda>j. ramht_slot s handle chid (ramht_addr s)
                (ramht_probe_off s handle chid j) outs) outs N 0)"
    by (rule probe_run [OF N sz i0(2) i0(1) off])
  then show ?thesis
    using assms unfolding geforce_ramht_lookup_def h0 N_def ramht_test_def [abs_def] by simp
qed


lemma probe_scan_none:
  "(\<And>j. k \<le> j \<Longrightarrow> j < k + n \<Longrightarrow> f j = Inr None) \<Longrightarrow> probe_scan f outs n k = Inr outs"
  by (induction n arbitrary: k) simp_all

lemma probe_scan_first:
  "k \<le> m \<Longrightarrow> m < k + n \<Longrightarrow> (\<And>j. k \<le> j \<Longrightarrow> j < m \<Longrightarrow> f j = Inr None) \<Longrightarrow> f m = Inr (Some r)
   \<Longrightarrow> probe_scan f outs n k = Inr r"
proof (induction n arbitrary: k)
  case 0
  then show ?case by simp
next
  case (Suc n)
  show ?case
  proof (cases "k = m")
    case True
    with Suc.prems show ?thesis by simp
  next
    case False
    with Suc.prems have "k < m" by simp
    then have "f k = Inr None"
      using Suc.prems by simp
    moreover have "probe_scan f outs n (Suc k) = Inr r"
      using Suc.prems \<open>k < m\<close> by (intro Suc.IH) simp_all
    ultimately show ?thesis by simp
  qed
qed

lemma probe_scan_result:
  "probe_scan f outs n k = Inr r \<Longrightarrow> r = outs \<or> (\<exists>j. k \<le> j \<and> j < k + n \<and> f j = Inr (Some r))"
proof (induction n arbitrary: k)
  case 0
  then show ?case by simp
next
  case (Suc n)
  show ?case
  proof (cases "f k")
    case (Inl e)
    with Suc.prems show ?thesis by simp
  next
    case (Inr v)
    show ?thesis
    proof (cases v)
      case None
      with Inr Suc.prems have "probe_scan f outs n (Suc k) = Inr r" by simp
      from Suc.IH [OF this] show ?thesis by auto
    next
      case (Some a)
      with Inr Suc.prems have "f k = Inr (Some r)" by simp
      then show ?thesis by auto
    qed
  qed
qed

lemma ramht_slot_found:
  assumes "geforce_ramin_read32 s (a + it) = Inr handle"
    and "geforce_ramin_read32 s (a + it + 4) = Inr ctx"
    and "ramht_ctx_chid s ctx = chid"
  shows "ramht_slot s handle chid a it outs = Inr (Some (ramht_store s ctx outs))"
  using assms by (simp add: ramht_slot_def)

lemma ramht_slot_other_chid:
  assumes "geforce_ramin_read32 s (a + it) = Inr handle"
    and "geforce_ramin_read32 s (a + it + 4) = Inr ctx"
    and "ramht_ctx_chid s ctx \<noteq> chid"
  shows "ramht_slot s handle chid a it outs = Inr None"
  using assms by (auto simp: ramht_slot_def)

lemma ramht_slot_other_handle:
  assumes "geforce_ramin_read32 s (a + it) = Inr h" and "h \<noteq> handle"
  shows "ramht_slot s handle chid a it outs = Inr None"
  using assms by (simp add: ramht_slot_def)

lemma ramht_slot_None_outs:
  "ramht_slot s handle chid a it outs = Inr None \<Longrightarrow> ramht_slot s handle chid a it outs' = Inr None"
  by (auto simp: ramht_slot_def bind_r_def split: sum.splits if_splits)

lemma ramht_lookup_returns: "\<exists>r. geforce_ramht_lookup s handle chid outs = Some r"
proof (cases "ramht_bits s \<le> 27")
  case True
  then show ?thesis by (simp add: ramht_lookup_scan)
next
  case False
  then show ?thesis by (simp add: geforce_ramht_lookup_def)
qed

lemma ramht_probe_off_0:
  assumes "ramht_bits s \<le> 27"
  shows "ramht_probe_off s handle chid 0 = ramht_hash s handle chid"
proof -
  obtain i0 where i0: "i0 < 2 ^ ramht_bits s" "unat (ramht_hash s handle chid) = 8 * i0"
    using ramht_hash_unat [OF assms, of handle chid] by auto
  have "unat (ramht_hash s handle chid) < unat (ramht_size s)"
    using i0 assms by (simp add: ramht_size_unat)
  then have "ramht_probe_off s handle chid 0 = of_nat (unat (ramht_hash s handle chid))"
    by (simp only: ramht_probe_off_def mult_0_right add_0_right mod_less)
  then show ?thesis by simp
qed










lemma dvd4_room:
  fixes n m :: nat
  assumes "n mod 4 = 0" "n < 4 * m"
  shows "n + 4 \<le> 4 * m"
proof -
  have "4 dvd n"
    using assms(1) by (simp add: dvd_eq_mod_eq_0)
  then obtain q where q: "n = 4 * q" ..
  with assms(2) have "q < m" by simp
  then have "Suc q \<le> m" by simp
  then have "4 * Suc q \<le> 4 * m" by (rule mult_le_mono2)
  with q show ?thesis by simp
qed

lemma xor_flip_residue:
  fixes a f :: u32
  assumes "unat a mod 4 = 0"
  shows "unat (a XOR f) mod 4 = unat f mod 4"
proof -
  have "unat (a AND 3) = 0"
    using assms by (simp add: unat_and_3)
  then have a0: "a AND 3 = 0"
    by (simp add: unat_eq_0)
  have "(a XOR f) AND 3 = (a AND 3) XOR (f AND 3)"
    by (rule bit.conj_xor_distrib2)
  with a0 have "unat ((a XOR f) AND 3) = unat (f AND 3)"
    by simp
  then show ?thesis
    by (simp only: unat_and_3)
qed

lemma ramin_read32_config:
  assumes cfg: "memsize s = 0x4000000" "ramin_flip s = 0x3FFFFC0"
    and al: "unat a mod 4 = 0" and lt: "a < 0x4000000"
  shows "geforce_ramin_read32 s a = Inr (ld32 (vram s) (a XOR 0x3FFFFC0))"
proof -
  define x where "x = a XOR (0x3FFFFC0 :: u32)"
  have "a < 2 ^ 26"
    using lt by simp
  then have "a AND mask 26 = a"
    by (rule less_mask_eq)
  then have ta: "take_bit 26 a = a"
    by (simp add: take_bit_eq_mask)
  have tf: "take_bit 26 (0x3FFFFC0 :: u32) = 0x3FFFFC0"
    by simp
  have "take_bit 26 x = x"
    unfolding x_def take_bit_xor ta tf ..
  then have "unat x = take_bit 26 (unat x)"
    by (metis unsigned_take_bit_eq)
  then have "unat x < 2 ^ 26"
    by (metis take_bit_nat_less_exp)
  then have ub: "unat x < 4 * 2 ^ 24"
    by simp
  have "unat x mod 4 = unat (0x3FFFFC0 :: u32) mod 4"
    unfolding x_def using al by (rule xor_flip_residue)
  then have "unat x mod 4 = 0"
    by simp
  then have "unat x + 4 \<le> 4 * 2 ^ 24"
    using ub by (rule dvd4_room)
  then have "in_vram s x 4"
    by (simp add: in_vram_def cfg)
  then have "geforce_vram_read32 s x = Inr (ld32 (vram s) x)"
    by (rule vram_read32_in)
  then show ?thesis
    by (simp add: geforce_ramin_read32_def cfg x_def)
qed


lemma ld32_st32_if:
  assumes "unat q mod 4 = unat p mod 4"
  shows "ld32 (st32 m p v) q = (if q = p then v else ld32 m q)"
  using assms by (auto simp: ld32_st32_same ld32_st32_other [OF assms [symmetric]])

lemma ld32_zero: "ld32 (\<lambda>a. 0) q = 0"
  by (simp add: ld32_def le32_def)

lemma xor_eq_iff: "(a XOR f = p) = (a = p XOR f)" for a f p :: u32
proof
  assume "a XOR f = p"
  then have "(a XOR f) XOR f = p XOR f" by simp
  then show "a = p XOR f" by (simp add: xor.assoc)
next
  assume "a = p XOR f"
  then show "a XOR f = p" by (simp add: xor.assoc)
qed

lemma add4_eq_iff: "(a + 4 = n) = (a = n - 4)" for a n :: u32
  by auto

lemma ramht_config_facts:
  assumes "fifo_ramht s = 0"
  shows "ramht_bits s = 9" "ramht_addr s = 0" "ramht_size s = 0x1000"
  using assms by (simp_all add: ramht_bits_def ramht_addr_def ramht_size_def)

lemma ramht_probe_off_config:
  assumes "fifo_ramht s = 0"
  obtains a where "ramht_probe_off s handle chid k = a" "unat a mod 8 = 0" "a < 0x1000"
proof -
  have b: "ramht_bits s \<le> 27"
    using assms by (simp add: ramht_config_facts)
  obtain i0 where i0: "unat (ramht_hash s handle chid) = 8 * i0"
    using ramht_hash_unat [OF b, of handle chid] by auto
  define j where "j = (i0 + k) mod 512"
  have j: "j < 512"
    by (simp add: j_def)
  have "(8 * i0 + 8 * k) mod (8 * 512) = 8 * j"
    unfolding j_def by (simp only: mult_mod_right distrib_left)
  then have off: "ramht_probe_off s handle chid k = of_nat (8 * j)"
    using assms by (simp add: ramht_probe_off_def ramht_config_facts i0)
  have "unat (of_nat (8 * j) :: u32) = 8 * j mod 2 ^ LENGTH(32)"
    by (rule unat_of_nat)
  also have "\<dots> = 8 * j"
    using j by simp
  finally have u: "unat (ramht_probe_off s handle chid k) = 8 * j"
    by (simp only: off)
  show ?thesis
  proof (rule that)
    show "ramht_probe_off s handle chid k = ramht_probe_off s handle chid k" ..
    show "unat (ramht_probe_off s handle chid k) mod 8 = 0"
      by (simp add: u)
    show "ramht_probe_off s handle chid k < 0x1000"
      using j by (simp add: word_less_nat_alt u)
  qed
qed

lemma mod8_mod4: "n mod 8 = 0 \<Longrightarrow> n mod 4 = 0" for n :: nat
proof -
  assume "n mod 8 = 0"
  then have "8 dvd n" by (simp add: dvd_eq_mod_eq_0)
  then obtain q where "n = 8 * q" ..
  then have "n = 4 * (2 * q)" by simp
  then show ?thesis by simp
qed

lemma ramht_test_config:
  assumes cfg: "memsize s = 0x4000000" "ramin_flip s = 0x3FFFFC0" "fifo_ramht s = 0"
    and a: "ramht_probe_off s handle chid k = a" "unat a mod 8 = 0" "a < 0x1000"
  shows "ramht_test s handle chid outs k =
     (if ld32 (vram s) (a XOR 0x3FFFFC0) = handle
      then (if chid = ramht_ctx_chid s (ld32 (vram s) ((a + 4) XOR 0x3FFFFC0))
            then Inr (Some (ramht_store s (ld32 (vram s) ((a + 4) XOR 0x3FFFFC0)) outs))
            else Inr None)
      else Inr None)"
proof -
  have ua: "unat a < 4096"
    using a(3) by (simp add: word_less_nat_alt)
  have al: "unat a mod 4 = 0"
    using a(2) by (rule mod8_mod4)
  have lt: "a < 0x4000000"
    using ua by (simp add: word_less_nat_alt)
  have u4: "unat (a + 4) = unat a + 4"
  proof -
    have "unat a + unat (4 :: u32) < 2 ^ LENGTH(32)"
      using ua by simp
    then have "unat (a + 4) = unat a + unat (4 :: u32)"
      by (simp only: unat_add_lem [THEN iffD1])
    then show ?thesis by simp
  qed
  have al4: "unat (a + 4) mod 4 = 0"
    using al by (simp add: u4)
  have lt4: "a + 4 < 0x4000000"
    using ua by (simp add: word_less_nat_alt u4)
  have r0: "geforce_ramin_read32 s a = Inr (ld32 (vram s) (a XOR 0x3FFFFC0))"
    using cfg(1,2) al lt by (rule ramin_read32_config)
  have r4: "geforce_ramin_read32 s (a + 4) = Inr (ld32 (vram s) ((a + 4) XOR 0x3FFFFC0))"
    using cfg(1,2) al4 lt4 by (rule ramin_read32_config)
  show ?thesis
    using cfg(3) by (simp add: ramht_test_def ramht_slot_def a(1) ramht_config_facts r0 r4)
qed

lemma entry_cfg:
  "memsize entry_state = 0x4000000" "ramin_flip entry_state = 0x3FFFFC0"
  "fifo_ramht entry_state = 0" "card_type entry_state = 0"
  by (simp_all add: entry_state_def ramin_poke_def reset_state_def)

lemma entry_vram:
  "vram entry_state = st32 (st32 (\<lambda>a. 0) 0x3FFFBA8 0xBEEF0001) 0x3FFFBAC 0x05010100"
  by (simp add: entry_state_def ramin_poke_def reset_state_def)

lemma entry_other:
  assumes "handle \<noteq> 0"
    and "ramht_probe_off entry_state handle chid k \<noteq> 0x468"
  shows "ramht_test entry_state handle chid outs k = Inr None"
proof -
  obtain a where a: "ramht_probe_off entry_state handle chid k = a" "unat a mod 8 = 0" "a < 0x1000"
    using entry_cfg(3) by (rule ramht_probe_off_config)
  have al: "unat a mod 4 = 0"
    using a(2) by (rule mod8_mod4)
  have res: "unat (a XOR 0x3FFFFC0) mod 4 = unat (0x3FFFBAC :: u32) mod 4"
    "unat (a XOR 0x3FFFFC0) mod 4 = unat (0x3FFFBA8 :: u32) mod 4"
    using xor_flip_residue [OF al, of "0x3FFFFC0"] by simp_all
  have ne: "a \<noteq> 0x468"
    using assms(2) a(1) by simp
  have ne2: "a \<noteq> 0x46C"
    using a(2) by auto
  have "ld32 (vram entry_state) (a XOR 0x3FFFFC0) = 0"
    using ne ne2 by (simp add: entry_vram ld32_st32_if res xor_eq_iff ld32_zero)
  with assms(1) show ?thesis
    by (simp add: ramht_test_config [OF entry_cfg(1-3) a])
qed


text \<open>
  Claim C4. Let the slot at the natural hash offset of handle \<open>H\<close> and channel \<open>chid\<close>
  hold \<open>H\<close> and a context word \<open>ctx\<close> whose embedded channel id is \<open>chid\<close>. Then the
  lookup returns the object address and the engine id encoded in \<open>ctx\<close>, in the bit
  layout of the device generation. For another channel id \<open>chid'\<close> the test at that
  slot does not match, and when no other slot resolves the handle the lookup for
  \<open>chid'\<close> fails: its outputs are as they were.
\<close>

theorem ramht_lookup_natural_slot:
  assumes b: "ramht_bits s \<le> 27"
    and rd: "geforce_ramin_read32 s (ramht_addr s + ramht_hash s handle chid) = Inr handle"
    and rc: "geforce_ramin_read32 s (ramht_addr s + ramht_hash s handle chid + 4) = Inr ctx"
    and ch: "ramht_ctx_chid s ctx = chid"
  shows "geforce_ramht_lookup s handle chid (Some obj0, Some eng0) =
           Some (Inr (Some (if card_type s < 0x40 then push_bit 4 (ctx AND 0xFFFF)
                            else push_bit 4 (ctx AND 0xFFFFF)),
                      Some (if card_type s < 0x40 then ucast (drop_bit 16 ctx AND 0xFF)
                            else ucast (drop_bit 20 ctx AND 0x7)))) \<and>
         (\<forall>chid' outs. chid' \<noteq> chid \<longrightarrow>
            ramht_slot s handle chid' (ramht_addr s) (ramht_hash s handle chid) outs = Inr None) \<and>
         (\<forall>chid' outs. chid' \<noteq> chid \<and>
            (\<forall>k < 2 ^ ramht_bits s.
               ramht_probe_off s handle chid' k \<noteq> ramht_hash s handle chid \<longrightarrow>
               ramht_test s handle chid' outs k = Inr None) \<longrightarrow>
            geforce_ramht_lookup s handle chid' outs = Some (Inr outs))"
proof (intro conjI allI impI)
  have "ramht_test s handle chid (Some obj0, Some eng0) 0 =
          Inr (Some (ramht_store s ctx (Some obj0, Some eng0)))"
    unfolding ramht_test_def ramht_probe_off_0 [OF b] using rd rc ch by (rule ramht_slot_found)
  then have "probe_scan (ramht_test s handle chid (Some obj0, Some eng0)) (Some obj0, Some eng0)
               (2 ^ ramht_bits s) 0 = Inr (ramht_store s ctx (Some obj0, Some eng0))"
    by (intro probe_scan_first [where m = 0]) simp_all
  then show "geforce_ramht_lookup s handle chid (Some obj0, Some eng0) =
           Some (Inr (Some (if card_type s < 0x40 then push_bit 4 (ctx AND 0xFFFF)
                            else push_bit 4 (ctx AND 0xFFFFF)),
                      Some (if card_type s < 0x40 then ucast (drop_bit 16 ctx AND 0xFF)
                            else ucast (drop_bit 20 ctx AND 0x7))))"
    by (simp add: ramht_lookup_scan [OF b] ramht_store_def ramht_ctx_object_def
        ramht_ctx_engine_def)
next
  fix chid' outs
  assume "chid' \<noteq> chid"
  then have "ramht_ctx_chid s ctx \<noteq> chid'"
    using ch by simp
  with rd rc show "ramht_slot s handle chid' (ramht_addr s) (ramht_hash s handle chid) outs = Inr None"
    by (rule ramht_slot_other_chid)
next
  fix chid' outs
  assume h: "chid' \<noteq> chid \<and>
            (\<forall>k < 2 ^ ramht_bits s.
               ramht_probe_off s handle chid' k \<noteq> ramht_hash s handle chid \<longrightarrow>
               ramht_test s handle chid' outs k = Inr None)"
  then have "ramht_ctx_chid s ctx \<noteq> chid'"
    using ch by auto
  with rd rc have other: "ramht_slot s handle chid' (ramht_addr s) (ramht_hash s handle chid) outs = Inr None"
    by (rule ramht_slot_other_chid)
  have "ramht_test s handle chid' outs k = Inr None" if "k < 2 ^ ramht_bits s" for k
  proof (cases "ramht_probe_off s handle chid' k = ramht_hash s handle chid")
    case True
    with other show ?thesis
      by (simp add: ramht_test_def)
  next
    case False
    with h that show ?thesis by simp
  qed
  then have "probe_scan (ramht_test s handle chid' outs) outs (2 ^ ramht_bits s) 0 = Inr outs"
    by (intro probe_scan_none) simp_all
  then show "geforce_ramht_lookup s handle chid' outs = Some (Inr outs)"
    by (simp add: ramht_lookup_scan [OF b])
qed

lemmas entry_eval =
  entry_state_def mem_eval ramht_addr_def ramht_bits_def ramht_hash_def ramht_size_def
  ramht_ctx_chid_def mask_eq_exp_minus_1

text \<open>
  Handle \<open>0xBEEF0001\<close> of channel 5 hashes to offset \<open>0x468\<close>; the entry there resolves
  it to object \<open>0x1000\<close> on engine 1. Channel 21 hashes to the same slot and is refused.
\<close>

theorem ramht_lookup_natural_slot_witness:
  "ramht_bits entry_state \<le> 27 \<and>
   geforce_ramin_read32 entry_state (ramht_addr entry_state + ramht_hash entry_state 0xBEEF0001 5)
     = Inr 0xBEEF0001 \<and>
   geforce_ramin_read32 entry_state (ramht_addr entry_state + ramht_hash entry_state 0xBEEF0001 5 + 4)
     = Inr 0x05010100 \<and>
   ramht_ctx_chid entry_state 0x05010100 = 5 \<and>
   ramht_hash entry_state 0xBEEF0001 21 = ramht_hash entry_state 0xBEEF0001 5 \<and>
   geforce_ramht_lookup entry_state 0xBEEF0001 5 (Some 0, Some 0) = Some (Inr (Some 0x1000, Some 1)) \<and>
   geforce_ramht_lookup entry_state 0xBEEF0001 21 (Some 0x770, Some 9)
     = Some (Inr (Some 0x770, Some 9))"
proof -
  have h: "ramht_hash entry_state 0xBEEF0001 5 = 0x468" "ramht_hash entry_state 0xBEEF0001 21 = 0x468"
    by (simp_all add: entry_eval)
  have b: "ramht_bits entry_state \<le> 27"
    by (simp add: entry_eval)
  have rd: "geforce_ramin_read32 entry_state
              (ramht_addr entry_state + ramht_hash entry_state 0xBEEF0001 5) = Inr 0xBEEF0001"
    unfolding h by (simp add: entry_eval)
  have rc: "geforce_ramin_read32 entry_state
              (ramht_addr entry_state + ramht_hash entry_state 0xBEEF0001 5 + 4) = Inr 0x05010100"
    unfolding h by (simp add: entry_eval)
  have ch: "ramht_ctx_chid entry_state 0x05010100 = 5"
    by (simp add: entry_eval)
  note inst = ramht_lookup_natural_slot [OF b rd rc ch, of 0 0]
  have found: "geforce_ramht_lookup entry_state 0xBEEF0001 5 (Some 0, Some 0) =
                 Some (Inr (Some 0x1000, Some 1))"
    using inst by (simp add: entry_cfg)
  have "\<forall>k < 2 ^ ramht_bits entry_state.
          ramht_probe_off entry_state 0xBEEF0001 21 k \<noteq> ramht_hash entry_state 0xBEEF0001 5 \<longrightarrow>
          ramht_test entry_state 0xBEEF0001 21 (Some 0x770, Some 9) k = Inr None"
    unfolding h by (intro allI impI entry_other) simp_all
  with inst have refused: "geforce_ramht_lookup entry_state 0xBEEF0001 21 (Some 0x770, Some 9) =
                 Some (Inr (Some 0x770, Some 9))"
    by simp
  show ?thesis
    using b rd rc ch h found refused by simp
qed

















section \<open>Binding an unresolved handle\<close>

lemma software_method_push_channels:
  "software_method_push s sc m p = Inr s' \<Longrightarrow> channels s' = channels s"
  by (auto simp: software_method_push_def Let_def geforce_update_irq_def split: if_splits)

lemma ramht_test_None_outs:
  "ramht_test s handle chid outs k = Inr None \<Longrightarrow> ramht_test s handle chid outs' k = Inr None"
  unfolding ramht_test_def by (rule ramht_slot_None_outs)

lemma ramht_unresolved_lookup:
  assumes "ramht_bits s \<le> 27" "ramht_unresolved s handle chid"
  shows "geforce_ramht_lookup s handle chid outs = Some (Inr outs)"
proof -
  have "ramht_test s handle chid outs k = Inr None" if "k < 2 ^ ramht_bits s" for k
    using assms(2) that by (auto simp: ramht_unresolved_def intro: ramht_test_None_outs)
  then have "probe_scan (ramht_test s handle chid outs) outs (2 ^ ramht_bits s) 0 = Inr outs"
    by (intro probe_scan_none) simp_all
  then show ?thesis
    by (simp add: ramht_lookup_scan [OF assms(1)])
qed

text \<open>
  Claim C9. When no slot of the table resolves the handle for the channel, the lookup
  returns with both output locations as they were. A bind (method 0) runs the lookup in
  the state \<open>s1\<close> left by \<open>bind_update_object\<close>; when the handle is unresolved there,
  the command returns or faults, and whenever it returns the subchannel's object
  address and engine id are what they were before the call.
\<close>

theorem bind_unresolved_keeps_binding:
  assumes c: "unat chid < GEFORCE_CHANNEL_COUNT" and k: "unat sc < GEFORCE_SUBCHANNEL_COUNT"
    and upd: "bind_update_object s (schs (channels s (unat chid)) (unat sc)) = Inr s1"
    and b: "ramht_bits s1 \<le> 27" and un: "ramht_unresolved s1 param chid"
  shows "(\<forall>outs. geforce_ramht_lookup s1 param chid outs = Some (Inr outs)) \<and>
         (\<exists>r. geforce_execute_command s chid sc 0 param = Some r \<and>
            (\<forall>ok s'. r = Inr (ok, s') \<longrightarrow>
               object (schs (channels s' (unat chid)) (unat sc)) =
                 object (schs (channels s (unat chid)) (unat sc)) \<and>
               engine (schs (channels s' (unat chid)) (unat sc)) =
                 engine (schs (channels s (unat chid)) (unat sc))))"
proof
  show lk: "\<forall>outs. geforce_ramht_lookup s1 param chid outs = Some (Inr outs)"
    using b un by (simp add: ramht_unresolved_lookup)
  define ch where "ch = channels s (unat chid)"
  define sub where "sub = schs ch (unat sc)"
  have upd': "bind_update_object s sub = Inr s1"
    using upd by (simp add: sub_def ch_def)
  show "\<exists>r. geforce_execute_command s chid sc 0 param = Some r \<and>
            (\<forall>ok s'. r = Inr (ok, s') \<longrightarrow>
               object (schs (channels s' (unat chid)) (unat sc)) =
                 object (schs (channels s (unat chid)) (unat sc)) \<and>
               engine (schs (channels s' (unat chid)) (unat sc)) =
                 engine (schs (channels s (unat chid)) (unat sc)))"
  proof (cases "engine sub = 1")
    case True
    show ?thesis
    proof (cases "geforce_ramin_read32 s1 (object sub + 4)")
      case (Inl e)
      with True show ?thesis
        using c k upd' lk
        by (simp add: geforce_execute_command_def execute_method_def execute_bind_def Let_def out_val_def
            flip: ch_def sub_def)
    next
      case (Inr w)
      with True show ?thesis
        using c k upd' lk
        by (simp add: geforce_execute_command_def execute_method_def execute_bind_def Let_def out_val_def
            flip: ch_def sub_def)
    qed
  next
    case False
    show ?thesis
    proof (cases "engine sub = 0")
      case True
      define s2 where "s2 = s1\<lparr>channels := (channels s1)(unat chid := ch\<lparr>schs := (schs ch)(unat sc := sub)\<rparr>)\<rparr>"
      have same: "sub\<lparr>engine := 0\<rparr> = sub"
        using True by simp
      have res: "geforce_execute_command s chid sc 0 param =
              Some (bind_r (software_method_push s2 sc 0 param) (\<lambda>s3. Inr (True, s3)))"
        using True c k upd' lk
        by (simp add: geforce_execute_command_def execute_method_def execute_bind_def Let_def out_val_def s2_def same
            flip: ch_def sub_def)
      show ?thesis
      proof (cases "software_method_push s2 sc 0 param")
        case (Inl e)
        with res show ?thesis by simp
      next
        case (Inr s3)
        then have "channels s3 = channels s2"
          by (rule software_method_push_channels)
        with res Inr show ?thesis
          by (simp add: s2_def sub_def ch_def)
      qed
    next
      case False
      with \<open>engine sub \<noteq> 1\<close> show ?thesis
        using c k upd' lk
        by (simp add: geforce_execute_command_def execute_method_def execute_bind_def Let_def out_val_def
            flip: ch_def sub_def)
    qed
  qed
qed


lemma bind_patched_cfg:
  "memsize bind_patched_state = 0x4000000" "ramin_flip bind_patched_state = 0x3FFFFC0"
  "fifo_ramht bind_patched_state = 0" "card_type bind_patched_state = 0"
  by (simp_all add: bind_patched_state_def bind_state_def entry_state_def ramin_poke_def
      reset_state_def)

lemma bind_patched_vram:
  "vram bind_patched_state =
     st32 (st32 (st32 (\<lambda>a. 0) 0x3FFFBA8 0xBEEF0001) 0x3FFFBAC 0x05010100) 0x3FFDFC4 0x03000000"
  by (simp add: bind_patched_state_def bind_state_def entry_state_def ramin_poke_def
      reset_state_def)

lemma bind_patched_other:
  assumes "handle \<noteq> 0" "handle \<noteq> 0xBEEF0001"
  shows "ramht_test bind_patched_state handle chid outs k = Inr None"
proof -
  obtain a where a: "ramht_probe_off bind_patched_state handle chid k = a" "unat a mod 8 = 0"
    "a < 0x1000"
    using bind_patched_cfg(3) by (rule ramht_probe_off_config)
  have al: "unat a mod 4 = 0"
    using a(2) by (rule mod8_mod4)
  have res: "unat (a XOR 0x3FFFFC0) mod 4 = unat (0x3FFFBA8 :: u32) mod 4"
    "unat (a XOR 0x3FFFFC0) mod 4 = unat (0x3FFFBAC :: u32) mod 4"
    "unat (a XOR 0x3FFFFC0) mod 4 = unat (0x3FFDFC4 :: u32) mod 4"
    using xor_flip_residue [OF al, of "0x3FFFFC0"] by simp_all
  have ne: "a \<noteq> 0x46C" "a \<noteq> 0x2004"
    using a(2,3) by auto
  have "ld32 (vram bind_patched_state) (a XOR 0x3FFFFC0) \<in> {0, 0xBEEF0001}"
    using ne by (simp add: bind_patched_vram ld32_st32_if res xor_eq_iff ld32_zero)
  with assms have "ld32 (vram bind_patched_state) (a XOR 0x3FFFFC0) \<noteq> handle"
    by auto
  then show ?thesis
    by (simp add: ramht_test_config [OF bind_patched_cfg(1-3) a])
qed

lemmas bind_eval =
  bind_patched_state_def bind_state_def entry_state_def ramin_poke_def reset_state_def
  reset_channel_def GEFORCE_CHANNEL_COUNT_def GEFORCE_SUBCHANNEL_COUNT_def

text \<open>
  Subchannel 3 of channel 5 is bound to object \<open>0x2000\<close> on engine 1. Binding handle
  \<open>0x77\<close>, which no slot holds, leaves it so.
\<close>

theorem bind_unresolved_keeps_binding_witness:
  "unat (5 :: u32) < GEFORCE_CHANNEL_COUNT \<and> unat (3 :: u32) < GEFORCE_SUBCHANNEL_COUNT \<and>
   bind_update_object bind_state (schs (channels bind_state (unat (5 :: u32))) (unat (3 :: u32)))
     = Inr bind_patched_state \<and>
   ramht_bits bind_patched_state \<le> 27 \<and>
   ramht_unresolved bind_patched_state 0x77 5 \<and>
   (\<exists>s'. geforce_execute_command bind_state 5 3 0 0x77 = Some (Inr (True, s')) \<and>
         object (schs (channels s' 5) 3) = 0x2000 \<and> engine (schs (channels s' 5) 3) = 1)"
proof -
  have c: "unat (5 :: u32) < GEFORCE_CHANNEL_COUNT" and k: "unat (3 :: u32) < GEFORCE_SUBCHANNEL_COUNT"
    by (simp_all add: GEFORCE_CHANNEL_COUNT_def GEFORCE_SUBCHANNEL_COUNT_def)
  have upd: "bind_update_object bind_state
               (schs (channels bind_state (unat (5 :: u32))) (unat (3 :: u32))) = Inr bind_patched_state"
    by (simp add: bind_update_object_def bind_eval geforce_ramin_write32_def
        geforce_vram_write32_def mem_eval)
  have b: "ramht_bits bind_patched_state \<le> 27"
    by (simp add: ramht_bits_def bind_patched_cfg)
  have un: "ramht_unresolved bind_patched_state 0x77 5"
    unfolding ramht_unresolved_def by (intro allI impI bind_patched_other) simp_all
  note inst = bind_unresolved_keeps_binding [OF c k upd b un]
  have lk: "geforce_ramht_lookup bind_patched_state 0x77 5 outs = Some (Inr outs)" for outs
    using inst by (cases outs) blast
  have rd: "geforce_ramin_read32 bind_patched_state 0x2004 = Inr 0x03000000"
    by (simp add: bind_eval mem_eval)
  have sub: "schs (channels bind_state 5) 3 = \<lparr>object = 0x2000, engine = 1, notifier = 0x3000\<rparr>"
    by (simp add: bind_eval)
  have "\<exists>s'. geforce_execute_command bind_state 5 3 0 0x77 = Some (Inr (True, s')) \<and>
         object (schs (channels s' 5) 3) = 0x2000 \<and> engine (schs (channels s' 5) 3) = 1"
    using upd c k
    by (simp add: geforce_execute_command_def execute_method_def execute_bind_def Let_def out_val_def lk sub rd
        bind_patched_cfg)
  with c k upd b un show ?thesis
    by simp
qed


section \<open>What a command leaves alone\<close>

text \<open>
  No write to memory, no graphics operation and no class handler touches the registers
  of the ring, the software-method queue or the decode state of a channel.
\<close>

lemma bind_r_Inr: "bind_r m f = Inr y \<longleftrightarrow> (\<exists>v. m = Inr v \<and> f v = Inr y)"
  by (cases m) simp_all

lemma bind_o_Inr: "bind_o m f = Some (Inr y) \<longleftrightarrow> (\<exists>v. m = Some (Inr v) \<and> f v = Some (Inr y))"
  by (cases m) (auto simp: bind_o_def split: sum.splits)

lemma same_fifo_refl [simp]: "same_fifo s s"
  by (simp add: same_fifo_def)

lemma same_fifo_trans: "same_fifo s t \<Longrightarrow> same_fifo t u \<Longrightarrow> same_fifo s u"
  by (simp add: same_fifo_def)

lemma same_pull_refl [simp]: "same_pull ch ch"
  by (simp add: same_pull_def)

lemma same_pull_trans: "same_pull a b \<Longrightarrow> same_pull b c \<Longrightarrow> same_pull a c"
  by (simp add: same_pull_def)

lemma vram_write_frame:
  "geforce_vram_write8 s a v8 = Inr s' \<Longrightarrow> same_fifo s s'"
  "geforce_vram_write16 s a v16 = Inr s' \<Longrightarrow> same_fifo s s'"
  "geforce_vram_write32 s a v32 = Inr s' \<Longrightarrow> same_fifo s s'"
  "geforce_vram_write64 s a v64 = Inr s' \<Longrightarrow> same_fifo s s'"
  by (auto simp: geforce_vram_write8_def geforce_vram_write16_def geforce_vram_write32_def
        geforce_vram_write64_def same_fifo_def split: if_splits)

lemma physical_write_frame:
  "same_fifo s (geforce_physical_write8 s a v8)"
  "same_fifo s (geforce_physical_write16 s a v16)"
  "same_fifo s (geforce_physical_write32 s a v32)"
  "same_fifo s (geforce_physical_write64 s a v64)"
  by (simp_all add: geforce_physical_write8_def geforce_physical_write16_def
        geforce_physical_write32_def geforce_physical_write64_def same_fifo_def)

lemma ramin_write32_frame: "geforce_ramin_write32 s a v = Inr s' \<Longrightarrow> same_fifo s s'"
  by (simp add: geforce_ramin_write32_def vram_write_frame)

lemma dma_write_frame:
  "geforce_dma_write8 s obj a v8 = Inr s' \<Longrightarrow> same_fifo s s'"
  "geforce_dma_write16 s obj a v16 = Inr s' \<Longrightarrow> same_fifo s s'"
  "geforce_dma_write32 s obj a v32 = Inr s' \<Longrightarrow> same_fifo s s'"
  "geforce_dma_write64 s obj a v64 = Inr s' \<Longrightarrow> same_fifo s s'"
  by (auto simp: geforce_dma_write8_def geforce_dma_write16_def geforce_dma_write32_def
        geforce_dma_write64_def bind_r_Inr physical_write_frame
        dest: vram_write_frame split: if_splits)

lemma for_r_Suc: "for_r (Suc n) body a = bind_r (for_r n body a) (body n)"
  by (simp add: for_r_def)

lemma for_r_0: "for_r 0 body a = Inr a"
  by (simp add: for_r_def)

lemma for_r_inv:
  assumes step: "\<And>i a a'. I a \<Longrightarrow> body i a = Inr a' \<Longrightarrow> I a'"
    and init: "I a" and run: "for_r n body a = Inr a'"
  shows "I a'"
  using run
proof (induction n arbitrary: a')
  case 0
  then show ?case using init by (simp add: for_r_0)
next
  case (Suc n)
  then obtain b where b: "for_r n body a = Inr b" and l: "body n b = Inr a'"
    by (auto simp: for_r_Suc bind_r_Inr)
  from Suc.IH [OF b] have "I b" .
  then show ?case using l by (rule step)
qed

lemma put_pixel_frame: "geforce_put_pixel s ch ofs x v = Inr s' \<Longrightarrow> same_fifo s s'"
  by (auto simp: geforce_put_pixel_def dest: dma_write_frame split: if_splits)

lemma put_pixel_frame_from:
  "same_fifo s0 s \<Longrightarrow> geforce_put_pixel s ch ofs x v = Inr s' \<Longrightarrow> same_fifo s0 s'"
  by (blast intro: same_fifo_trans put_pixel_frame)

lemma for_r_frame_st:
  assumes run: "for_r n body s = Inr s'"
    and step: "\<And>i t t'. body i t = Inr t' \<Longrightarrow> same_fifo t t'"
  shows "same_fifo s s'"
proof (rule for_r_inv [where I = "same_fifo s" and body = body, OF _ _ run])
  show "same_fifo s s" by simp
next
  fix i a a'
  assume "same_fifo s a" "body i a = Inr a'"
  then show "same_fifo s a'"
    by (blast intro: same_fifo_trans step)
qed

lemma for_r_frame_pair:
  assumes run: "for_r n body (s, x) = Inr (s', x')"
    and step: "\<And>i t y t' y'. body i (t, y) = Inr (t', y') \<Longrightarrow> same_fifo t t'"
  shows "same_fifo s s'"
proof -
  have "same_fifo s (fst (s', x'))"
  proof (rule for_r_inv [where I = "\<lambda>a. same_fifo s (fst a)" and body = body, OF _ _ run])
    show "same_fifo s (fst (s, x))" by simp
  next
    fix i a a'
    assume a: "same_fifo s (fst a)" "body i a = Inr a'"
    then have "same_fifo (fst a) (fst a')"
      using step [of i "fst a" "snd a" "fst a'" "snd a'"] by simp
    with a show "same_fifo s (fst a')"
      by (blast intro: same_fifo_trans)
  qed
  then show ?thesis by simp
qed

lemma gdi_fillrect_frame:
  assumes "geforce_gdi_fillrect s ch clipped = Inr s'"
  shows "same_fifo s s'"
  using assms unfolding geforce_gdi_fillrect_def Let_def bind_r_Inr
  apply (clarsimp split: prod.splits)
  apply (erule for_r_frame_pair)
  apply (clarsimp simp: bind_r_Inr)
  apply (erule for_r_frame_st)
  apply (auto dest: put_pixel_frame split: if_splits)
  done

lemma ifc_frame:
  assumes "geforce_ifc s ch = Inr s'"
  shows "same_fifo s s'"
  using assms unfolding geforce_ifc_def Let_def bind_r_Inr
  apply (clarsimp split: prod.splits)
  apply (erule for_r_frame_pair)
  apply (clarsimp simp: bind_r_Inr split: prod.splits)
  apply (erule for_r_frame_pair)
  apply (auto simp: bind_r_Inr dest: put_pixel_frame split: if_splits)
  done

lemma copyarea_frame:
  assumes "geforce_copyarea s ch = Inr s'"
  shows "same_fifo s s'"
  using assms unfolding geforce_copyarea_def Let_def bind_r_Inr
  apply (clarsimp split: prod.splits)
  apply (erule for_r_frame_pair)
  apply (clarsimp simp: bind_r_Inr)
  apply (erule for_r_frame_st)
  apply (auto simp: bind_r_Inr dest: put_pixel_frame split: if_splits)
  done

lemma d3d_clear_rect_frame:
  assumes "d3d_clear_rect s obj nbytes v w h pitch ofs = Inr s'"
  shows "same_fifo s s'"
  using assms unfolding d3d_clear_rect_def bind_r_Inr
  apply (clarsimp split: prod.splits)
  apply (erule for_r_frame_pair)
  apply (clarsimp simp: bind_r_Inr)
  apply (erule for_r_frame_st)
  apply (auto dest: dma_write_frame split: if_splits)
  done

lemma d3d_clear_surface_frame:
  assumes "geforce_d3d_clear_surface s ch = Inr s'"
  shows "same_fifo s s'"
  using assms unfolding geforce_d3d_clear_surface_def Let_def bind_r_Inr
  by (auto dest!: d3d_clear_rect_frame intro: same_fifo_trans split: if_splits)

lemma m2mf_line_frame_raw:
  assumes "m2mf_line s ch so d i = Some y"
  shows "\<forall>s'. y = Inr s' \<longrightarrow> same_fifo s s'"
proof (rule m2mf_line.raw_induct
    [where P = "\<lambda>s ch so d i y. \<forall>s'. y = Inr s' \<longrightarrow> same_fifo s s'", OF _ assms], goal_cases)
  case (1 f s ch so d i y)
  show ?case
  proof (intro allI impI)
    fix s'
    assume y: "y = Inr s'"
    show "same_fifo s s'"
    proof (cases "i < m2mf_line_length ch")
      case False
      with 1(2) y show ?thesis by simp
    next
      case True
      with 1(2) y obtain w s1 where
        wr: "geforce_dma_write32 s (m2mf_dst ch) (d + i) w = Inr s1"
        and rec: "f s1 ch so d (i + 4) = Some (Inr s')"
        by (auto split: sum.splits)
      from wr have "same_fifo s s1" by (rule dma_write_frame)
      moreover from 1(1) [OF rec] have "same_fifo s1 s'" by simp
      ultimately show ?thesis by (rule same_fifo_trans)
    qed
  qed
qed

lemma m2mf_line_frame: "m2mf_line s ch so d i = Some (Inr s') \<Longrightarrow> same_fifo s s'"
  using m2mf_line_frame_raw by blast

lemma m2mf_rows_frame_raw:
  assumes "m2mf_rows s ch so d y = Some r"
  shows "\<forall>s'. r = Inr s' \<longrightarrow> same_fifo s s'"
proof (rule m2mf_rows.raw_induct
    [where P = "\<lambda>s ch so d y r. \<forall>s'. r = Inr s' \<longrightarrow> same_fifo s s'", OF _ assms], goal_cases)
  case (1 f s ch so d y r)
  show ?case
  proof (intro allI impI)
    fix s'
    assume r: "r = Inr s'"
    show "same_fifo s s'"
    proof (cases "ucast y < m2mf_line_count ch")
      case False
      with 1(2) r show ?thesis by simp
    next
      case True
      with 1(2) r obtain s1 where
        ln: "m2mf_line s ch so d 0 = Some (Inr s1)"
        and rec: "f s1 ch (so + m2mf_src_pitch ch) (d + m2mf_dst_pitch ch) (y + 1)
                  = Some (Inr s')"
        by (auto split: option.splits sum.splits)
      from ln have "same_fifo s s1" by (rule m2mf_line_frame)
      moreover from 1(1) [OF rec] have "same_fifo s1 s'" by simp
      ultimately show ?thesis by (rule same_fifo_trans)
    qed
  qed
qed

lemma m2mf_frame: "geforce_m2mf s ch = Some (Inr s') \<Longrightarrow> same_fifo s s'"
  by (auto simp: geforce_m2mf_def bind_r_Inr Let_def
        split: option.splits sum.splits if_splits dest!: m2mf_rows_frame_raw)

lemma graphics_op_frame:
  "geforce_execute_graphics_op s ch name = Some (Inr s') \<Longrightarrow> same_fifo s s'"
  by (auto simp: geforce_execute_graphics_op_def split: if_splits
        dest: gdi_fillrect_frame ifc_frame copyarea_frame m2mf_frame d3d_clear_surface_frame)

lemma notify_write_frame: "notify_write s ntf base = Inr s' \<Longrightarrow> same_fifo s s'"
  by (auto simp: notify_write_def bind_r_Inr split: if_splits
        dest!: dma_write_frame intro: same_fifo_trans)

lemma execute_clip_pull [simp]: "same_pull ch (geforce_execute_clip ch m p)"
  by (simp add: geforce_execute_clip_def same_pull_def)

lemma execute_rop_pull [simp]: "same_pull ch (geforce_execute_rop ch m p)"
  by (simp add: geforce_execute_rop_def same_pull_def)

lemma execute_patt_pull [simp]: "same_pull ch (geforce_execute_patt ch m p)"
  by (simp add: geforce_execute_patt_def same_pull_def Let_def)

lemma execute_surf2d_pull [simp]: "same_pull ch (geforce_execute_surf2d ch m p)"
  by (simp add: geforce_execute_surf2d_def same_pull_def)

lemma execute_m2mf_frame:
  "geforce_execute_m2mf s ch sc m p = Some (Inr (s', ch')) \<Longrightarrow> same_fifo s s' \<and> same_pull ch ch'"
  by (auto simp: geforce_execute_m2mf_def bind_o_Inr bind_r_Inr Let_def same_pull_def
        split: if_splits dest!: graphics_op_frame notify_write_frame intro: same_fifo_trans)

lemma execute_gdi_frame:
  "geforce_execute_gdi s ch m p = Some (Inr (s', ch')) \<Longrightarrow> same_fifo s s' \<and> same_pull ch ch'"
  by (auto simp: geforce_execute_gdi_def bind_o_Inr Let_def same_pull_def
        split: if_splits dest!: graphics_op_frame)

lemma execute_imageblit_frame:
  "geforce_execute_imageblit s ch m p = Some (Inr (s', ch')) \<Longrightarrow> same_fifo s s' \<and> same_pull ch ch'"
  by (auto simp: geforce_execute_imageblit_def bind_o_Inr bind_r_Inr Let_def same_pull_def
        split: if_splits dest!: graphics_op_frame)

lemma execute_ifc_frame:
  "geforce_execute_ifc s ch m p = Some (Inr (s', ch')) \<Longrightarrow> same_fifo s s' \<and> same_pull ch ch'"
  by (auto simp: geforce_execute_ifc_def bind_o_Inr bind_r_Inr Let_def same_pull_def
        split: if_splits option.splits dest!: graphics_op_frame dma_write_frame)

lemma execute_d3d_frame:
  "geforce_execute_d3d s ch cls m p = Some (Inr (s', ch')) \<Longrightarrow> same_fifo s s' \<and> same_pull ch ch'"
  by (auto simp: geforce_execute_d3d_def bind_o_Inr Let_def same_pull_def
        split: if_splits dest!: graphics_op_frame)

lemma execute_class_frame:
  "execute_class s ch sc cls cls8 m p = Some (Inr (s', ch')) \<Longrightarrow> same_fifo s s' \<and> same_pull ch ch'"
  by (auto simp: execute_class_def split: if_splits
        dest: execute_m2mf_frame execute_gdi_frame execute_imageblit_frame execute_ifc_frame
          execute_d3d_frame)

lemma notify_irq_frame:
  "same_fifo s ((geforce_update_irq (s\<lparr>graph_intr := g\<rparr>))\<lparr>graph_nsource := n, graph_notify := m\<rparr>)"
  by (simp add: geforce_update_irq_def same_fifo_def Let_def)

lemma execute_notify_frame:
  assumes "execute_notify s ch sc = Inr (s', ch')"
  shows "same_fifo s s' \<and> same_pull ch ch'"
  using assms unfolding execute_notify_def Let_def
  by (auto simp: bind_r_Inr same_pull_def split: if_splits dest!: notify_write_frame
        intro: same_fifo_trans [OF _ notify_irq_frame])

lemma execute_object_frame:
  assumes "execute_object s ch chid sc m p = Some (Inr (s', ch', soft))"
  shows "same_fifo s s' \<and> same_pull ch ch'"
proof (cases "unat sc < GEFORCE_SUBCHANNEL_COUNT \<and> engine (schs ch (unat sc)) = 0x01")
  case False
  with assms show ?thesis
    by (auto simp: execute_object_def Let_def split: if_splits)
next
  case True
  with assms obtain s1 ch1 s2 ch2 cls cls8 p1 where
    c: "execute_class s ch sc cls cls8 m p1 = Some (Inr (s1, ch1))"
    and n: "execute_notify s1 ch1 sc = Inr (s2, ch2)"
    and r: "s' = s2" "same_pull ch2 ch'"
    by (auto simp: execute_object_def Let_def bind_o_Inr same_pull_def split: if_splits)
  from c have "same_fifo s s1 \<and> same_pull ch ch1" by (rule execute_class_frame)
  moreover from n have "same_fifo s1 s2 \<and> same_pull ch1 ch2" by (rule execute_notify_frame)
  ultimately show ?thesis
    using r by (blast intro: same_fifo_trans same_pull_trans)
qed

lemma bind_update_object_frame: "bind_update_object s sub = Inr s' \<Longrightarrow> same_fifo s s'"
  by (auto simp: bind_update_object_def bind_r_Inr split: if_splits dest: ramin_write32_frame)

lemma execute_bind_frame:
  assumes "execute_bind s ch chid sc p = Some (Inr (s', ch', soft))"
  shows "same_fifo s s' \<and> same_pull ch ch'"
  using assms
  by (auto simp: execute_bind_def Let_def bind_o_Inr bind_r_Inr same_pull_def
        split: if_splits dest: bind_update_object_frame)

lemma software_method_push_ring:
  assumes "software_method_push s sc m p = Inr s'"
  shows "fifo_cache1_dma_get s' = fifo_cache1_dma_get s \<and>
         fifo_cache1_dma_put s' = fifo_cache1_dma_put s \<and>
         fifo_cache1_dma_instance s' = fifo_cache1_dma_instance s \<and>
         fifo_cache1_push1 s' = fifo_cache1_push1 s \<and> channels s' = channels s"
  using assms
  by (auto simp: software_method_push_def Let_def geforce_update_irq_def split: if_splits)

lemma execute_method_frame:
  "execute_method s ch chid sc m p = Some (Inr (s1, ch1, soft))
   \<Longrightarrow> same_fifo s s1 \<and> same_pull ch ch1"
  by (auto simp: execute_method_def split: if_splits
        dest: execute_bind_frame execute_object_frame)
    (simp_all add: same_fifo_def)

lemma execute_command_result:
  assumes "geforce_execute_command s chid sc m p = Some (Inr (ok, s'))"
  shows "\<exists>t soft. ok \<and> unat chid < GEFORCE_CHANNEL_COUNT \<and>
           fifo_cache1_dma_get t = fifo_cache1_dma_get s \<and>
           fifo_cache1_dma_put t = fifo_cache1_dma_put s \<and>
           fifo_cache1_dma_instance t = fifo_cache1_dma_instance s \<and>
           fifo_cache1_push1 t = fifo_cache1_push1 s \<and>
           fifo_cache1_put t = fifo_cache1_put s \<and>
           fifo_cache1_method t = fifo_cache1_method s \<and>
           fifo_cache1_data t = fifo_cache1_data s \<and>
           fifo_intr t = fifo_intr s \<and>
           same_pull (channels s (unat chid)) (channels t (unat chid)) \<and>
           (\<forall>c. c \<noteq> unat chid \<longrightarrow> channels t c = channels s c) \<and>
           (if soft then software_method_push t sc m p = Inr s' else s' = t)"
proof -
  from assms have c: "unat chid < GEFORCE_CHANNEL_COUNT"
    by (auto simp: geforce_execute_command_def split: if_splits)
  let ?ch = "channels s (unat chid)"
  from assms c obtain s1 ch1 soft where
    d: "execute_method s ?ch chid sc m p = Some (Inr (s1, ch1, soft))"
    and r: "(if soft
             then Some (bind_r (software_method_push (s1\<lparr>channels := (channels s1)(unat chid := ch1)\<rparr>) sc m p)
                    (\<lambda>s3. Inr (True, s3)))
             else Some (Inr (True, s1\<lparr>channels := (channels s1)(unat chid := ch1)\<rparr>)))
            = Some (Inr (ok, s'))"
    by (auto simp: geforce_execute_command_def Let_def bind_o_Inr)
  define t where "t = s1\<lparr>channels := (channels s1)(unat chid := ch1)\<rparr>"
  from d have f: "same_fifo s s1 \<and> same_pull ?ch ch1"
    by (rule execute_method_frame)
  from r have ok: ok
    by (auto split: if_splits simp: bind_r_Inr)
  from r have fin: "if soft then software_method_push t sc m p = Inr s' else s' = t"
    unfolding t_def [symmetric] by (auto split: if_splits simp: bind_r_Inr)
  have t: "fifo_cache1_dma_get t = fifo_cache1_dma_get s"
    "fifo_cache1_dma_put t = fifo_cache1_dma_put s"
    "fifo_cache1_dma_instance t = fifo_cache1_dma_instance s"
    "fifo_cache1_push1 t = fifo_cache1_push1 s"
    "fifo_cache1_put t = fifo_cache1_put s"
    "fifo_cache1_method t = fifo_cache1_method s"
    "fifo_cache1_data t = fifo_cache1_data s"
    "fifo_intr t = fifo_intr s"
    "channels t = (channels s)(unat chid := ch1)"
    using f by (simp_all add: t_def same_fifo_def)
  have p: "same_pull ?ch (channels t (unat chid))"
    using f by (simp add: t)
  have o: "\<forall>c. c \<noteq> unat chid \<longrightarrow> channels t c = channels s c"
    by (simp add: t)
  show ?thesis
    apply (rule exI [where x = t])
    apply (rule exI [where x = soft])
    apply (intro conjI ok c t(1-8) p o fin)
    done
qed

lemma execute_command_ring:
  assumes "geforce_execute_command s chid sc m p = Some (Inr (ok, s'))"
  shows "ok \<and>
         fifo_cache1_dma_get s' = fifo_cache1_dma_get s \<and>
         fifo_cache1_dma_put s' = fifo_cache1_dma_put s \<and>
         fifo_cache1_dma_instance s' = fifo_cache1_dma_instance s \<and>
         fifo_cache1_push1 s' = fifo_cache1_push1 s \<and>
         same_pull (channels s (unat chid)) (channels s' (unat chid)) \<and>
         (\<forall>c. c \<noteq> unat chid \<longrightarrow> channels s' c = channels s c)"
proof -
  from execute_command_result [OF assms] obtain t soft where ok: ok
    and t: "fifo_cache1_dma_get t = fifo_cache1_dma_get s"
      "fifo_cache1_dma_put t = fifo_cache1_dma_put s"
      "fifo_cache1_dma_instance t = fifo_cache1_dma_instance s"
      "fifo_cache1_push1 t = fifo_cache1_push1 s"
    and p: "same_pull (channels s (unat chid)) (channels t (unat chid))"
    and o: "\<forall>c. c \<noteq> unat chid \<longrightarrow> channels t c = channels s c"
    and fin: "if soft then software_method_push t sc m p = Inr s' else s' = t"
    by blast
  have "fifo_cache1_dma_get s' = fifo_cache1_dma_get t \<and>
        fifo_cache1_dma_put s' = fifo_cache1_dma_put t \<and>
        fifo_cache1_dma_instance s' = fifo_cache1_dma_instance t \<and>
        fifo_cache1_push1 s' = fifo_cache1_push1 t \<and> channels s' = channels t"
  proof (cases soft)
    case False
    with fin have "s' = t" by simp
    then show ?thesis by (simp only: simp_thms)
  next
    case True
    with fin have "software_method_push t sc m p = Inr s'" by simp
    then show ?thesis by (rule software_method_push_ring)
  qed
  then show ?thesis
    using ok p o by (simp add: t)
qed

section \<open>The software-method queue\<close>

lemma software_method_push_step:
  assumes a: "unat (fifo_cache1_put s) mod 4 = 0" and b: "fifo_cache1_put s < 0x100"
  shows "\<exists>s'. software_method_push s sc method param = Inr s' \<and>
           fifo_cache1_method s' = (fifo_cache1_method s)
             (unat (fifo_cache1_put s) div 4 := push_bit 2 method OR push_bit 13 sc) \<and>
           fifo_cache1_data s' = (fifo_cache1_data s)(unat (fifo_cache1_put s) div 4 := param) \<and>
           fifo_intr s' = fifo_intr s OR 1 \<and>
           fifo_cache1_put s' = (if fifo_cache1_put s = 0xFC then 0 else fifo_cache1_put s + 4) \<and>
           fifo_cache1_get s' = fifo_cache1_get s \<and>
           unat (fifo_cache1_put s') mod 4 = 0 \<and> fifo_cache1_put s' < 0x100"
proof -
  let ?p = "fifo_cache1_put s"
  have ub: "unat ?p < 256"
    using b by (simp add: word_less_nat_alt)
  have dv: "unat (?p div 4) = unat ?p div 4"
    by (simp add: unat_div)
  have idx: "unat ?p div 4 < GEFORCE_CACHE1_SIZE"
    using ub by (simp add: GEFORCE_CACHE1_SIZE_def)
  have le: "unat ?p \<le> 252"
  proof (rule ccontr)
    assume "\<not> unat ?p \<le> 252"
    then have "unat ?p = 253 \<or> unat ?p = 254 \<or> unat ?p = 255"
      using ub by linarith
    then show False using a by auto
  qed
  have add: "unat (?p + 4) = unat ?p + 4"
    using le by (simp add: unat_word_ariths)
  have eq: "(?p + 4 = 256) = (?p = 252)"
  proof
    assume "?p + 4 = 256"
    then have "unat (?p + 4) = 256" by simp
    then have "unat ?p = 252" using add by simp
    then show "?p = 252" by (simp add: word_unat_eq_iff)
  next
    assume "?p = 252" then show "?p + 4 = 256" by simp
  qed
  have m4: "unat (?p + 4) mod 4 = 0"
    unfolding add using a by (simp add: mod_add_left_eq [symmetric])
  have lt: "?p \<noteq> 252 \<Longrightarrow> ?p + 4 < 256"
  proof -
    assume n: "?p \<noteq> 252"
    have "unat ?p \<noteq> 252" using n by (simp add: word_unat_eq_iff)
    then have "unat ?p < 252" using le by simp
    then have "unat (?p + 4) < 256" using add by simp
    then show ?thesis by (simp add: word_less_nat_alt)
  qed
  show ?thesis
    using idx dv eq m4 lt
    by (simp add: software_method_push_def Let_def geforce_update_irq_def GEFORCE_CACHE1_SIZE_def)
qed

text \<open>
  Claim C10. Let \<open>fifo_cache1_put\<close> be a multiple of 4 below \<open>GEFORCE_CACHE1_SIZE * 4\<close>
  when \<open>geforce_execute_command\<close> is called. Whenever the call returns, it has either
  left the queue and its put index alone, or written exactly one pair, at index
  \<open>fifo_cache1_put / 4\<close>, raised bit 0 of the FIFO interrupt sources, and advanced the put
  index by 4, wrapping to 0 at \<open>GEFORCE_CACHE1_SIZE * 4\<close>; in both cases the put index is
  again a multiple of 4 below that bound. A method \<open>0x40\<close> or above on a subchannel of
  the software engine is such a deferral, and it is made whatever the get index of the
  queue is: nothing checks that the queue is full.
\<close>

theorem software_method_queue_put:
  assumes al: "unat (fifo_cache1_put s) mod 4 = 0" and lt: "fifo_cache1_put s < 0x100"
  shows "(\<forall>ok s'. geforce_execute_command s chid sc method param = Some (Inr (ok, s')) \<longrightarrow>
            ((fifo_cache1_put s' = fifo_cache1_put s \<and>
              fifo_cache1_method s' = fifo_cache1_method s \<and>
              fifo_cache1_data s' = fifo_cache1_data s) \<or>
             (fifo_cache1_method s' = (fifo_cache1_method s)
                (unat (fifo_cache1_put s) div 4 := push_bit 2 method OR push_bit 13 sc) \<and>
              fifo_cache1_data s' = (fifo_cache1_data s)(unat (fifo_cache1_put s) div 4 := param) \<and>
              fifo_intr s' = fifo_intr s OR 1 \<and>
              fifo_cache1_put s' =
                (if fifo_cache1_put s = 0xFC then 0 else fifo_cache1_put s + 4))) \<and>
            unat (fifo_cache1_put s') mod 4 = 0 \<and> fifo_cache1_put s' < 0x100) \<and>
         (unat chid < GEFORCE_CHANNEL_COUNT \<and> unat sc < GEFORCE_SUBCHANNEL_COUNT \<and>
          0x40 \<le> method \<and> engine (schs (channels s (unat chid)) (unat sc)) = 0 \<longrightarrow>
          (\<forall>g. \<exists>s'. geforce_execute_command (s\<lparr>fifo_cache1_get := g\<rparr>) chid sc method param
                       = Some (Inr (True, s')) \<and>
                fifo_cache1_method s' = (fifo_cache1_method s)
                  (unat (fifo_cache1_put s) div 4 := push_bit 2 method OR push_bit 13 sc) \<and>
                fifo_cache1_data s' = (fifo_cache1_data s)(unat (fifo_cache1_put s) div 4 := param) \<and>
                fifo_intr s' = fifo_intr s OR 1 \<and>
                fifo_cache1_put s' =
                  (if fifo_cache1_put s = 0xFC then 0 else fifo_cache1_put s + 4) \<and>
                fifo_cache1_get s' = g))"
proof (rule conjI)
  show "\<forall>ok s'. geforce_execute_command s chid sc method param = Some (Inr (ok, s')) \<longrightarrow>
            ((fifo_cache1_put s' = fifo_cache1_put s \<and>
              fifo_cache1_method s' = fifo_cache1_method s \<and>
              fifo_cache1_data s' = fifo_cache1_data s) \<or>
             (fifo_cache1_method s' = (fifo_cache1_method s)
                (unat (fifo_cache1_put s) div 4 := push_bit 2 method OR push_bit 13 sc) \<and>
              fifo_cache1_data s' = (fifo_cache1_data s)(unat (fifo_cache1_put s) div 4 := param) \<and>
              fifo_intr s' = fifo_intr s OR 1 \<and>
              fifo_cache1_put s' =
                (if fifo_cache1_put s = 0xFC then 0 else fifo_cache1_put s + 4))) \<and>
            unat (fifo_cache1_put s') mod 4 = 0 \<and> fifo_cache1_put s' < 0x100"
  proof (intro allI impI)
  fix ok s'
  assume r: "geforce_execute_command s chid sc method param = Some (Inr (ok, s'))"
  from execute_command_result [OF r] obtain t soft where
    q: "fifo_cache1_put t = fifo_cache1_put s" "fifo_cache1_method t = fifo_cache1_method s"
      "fifo_cache1_data t = fifo_cache1_data s" "fifo_intr t = fifo_intr s"
    and fin: "if soft then software_method_push t sc method param = Inr s' else s' = t"
    by blast
  show "((fifo_cache1_put s' = fifo_cache1_put s \<and>
              fifo_cache1_method s' = fifo_cache1_method s \<and>
              fifo_cache1_data s' = fifo_cache1_data s) \<or>
             (fifo_cache1_method s' = (fifo_cache1_method s)
                (unat (fifo_cache1_put s) div 4 := push_bit 2 method OR push_bit 13 sc) \<and>
              fifo_cache1_data s' = (fifo_cache1_data s)(unat (fifo_cache1_put s) div 4 := param) \<and>
              fifo_intr s' = fifo_intr s OR 1 \<and>
              fifo_cache1_put s' =
                (if fifo_cache1_put s = 0xFC then 0 else fifo_cache1_put s + 4))) \<and>
            unat (fifo_cache1_put s') mod 4 = 0 \<and> fifo_cache1_put s' < 0x100"
  proof (cases soft)
    case False
    with fin have "s' = t" by simp
    with q al lt show ?thesis by simp
  next
    case True
    with fin have p: "software_method_push t sc method param = Inr s'" by simp
    have "unat (fifo_cache1_put t) mod 4 = 0" "fifo_cache1_put t < 0x100"
      using al lt by (simp_all add: q)
    from software_method_push_step [OF this, of sc "method" param] p q
    show ?thesis by auto
  qed
  qed
next
  show "unat chid < GEFORCE_CHANNEL_COUNT \<and> unat sc < GEFORCE_SUBCHANNEL_COUNT \<and>
          0x40 \<le> method \<and> engine (schs (channels s (unat chid)) (unat sc)) = 0 \<longrightarrow>
          (\<forall>g. \<exists>s'. geforce_execute_command (s\<lparr>fifo_cache1_get := g\<rparr>) chid sc method param
                       = Some (Inr (True, s')) \<and>
                fifo_cache1_method s' = (fifo_cache1_method s)
                  (unat (fifo_cache1_put s) div 4 := push_bit 2 method OR push_bit 13 sc) \<and>
                fifo_cache1_data s' = (fifo_cache1_data s)(unat (fifo_cache1_put s) div 4 := param) \<and>
                fifo_intr s' = fifo_intr s OR 1 \<and>
                fifo_cache1_put s' =
                  (if fifo_cache1_put s = 0xFC then 0 else fifo_cache1_put s + 4) \<and>
                fifo_cache1_get s' = g)"
  proof (intro allI impI)
  fix g
  assume h: "unat chid < GEFORCE_CHANNEL_COUNT \<and> unat sc < GEFORCE_SUBCHANNEL_COUNT \<and>
          0x40 \<le> method \<and> engine (schs (channels s (unat chid)) (unat sc)) = 0"
  define t where "t = s\<lparr>fifo_cache1_get := g,
    channels := (channels s)(unat chid := channels s (unat chid))\<rparr>"
  have m: "method \<noteq> 0" "method \<noteq> 0x14"
    using h by auto
  have cmd: "geforce_execute_command (s\<lparr>fifo_cache1_get := g\<rparr>) chid sc method param =
               Some (bind_r (software_method_push t sc method param) (\<lambda>s3. Inr (True, s3)))"
    using h m
    by (simp add: geforce_execute_command_def execute_method_def execute_object_def Let_def t_def)
  have "unat (fifo_cache1_put t) mod 4 = 0" "fifo_cache1_put t < 0x100"
    using al lt by (simp_all add: t_def)
  from software_method_push_step [OF this, of sc "method" param]
  obtain s' where p: "software_method_push t sc method param = Inr s'"
    and f: "fifo_cache1_method s' = (fifo_cache1_method t)
             (unat (fifo_cache1_put t) div 4 := push_bit 2 method OR push_bit 13 sc)"
      "fifo_cache1_data s' = (fifo_cache1_data t)(unat (fifo_cache1_put t) div 4 := param)"
      "fifo_intr s' = fifo_intr t OR 1"
      "fifo_cache1_put s' = (if fifo_cache1_put t = 0xFC then 0 else fifo_cache1_put t + 4)"
      "fifo_cache1_get s' = fifo_cache1_get t"
    by blast
  have tf: "fifo_cache1_method t = fifo_cache1_method s" "fifo_cache1_data t = fifo_cache1_data s"
    "fifo_cache1_put t = fifo_cache1_put s" "fifo_intr t = fifo_intr s" "fifo_cache1_get t = g"
    by (simp_all add: t_def)
  show "\<exists>s'. geforce_execute_command (s\<lparr>fifo_cache1_get := g\<rparr>) chid sc method param
                       = Some (Inr (True, s')) \<and>
                fifo_cache1_method s' = (fifo_cache1_method s)
                  (unat (fifo_cache1_put s) div 4 := push_bit 2 method OR push_bit 13 sc) \<and>
                fifo_cache1_data s' = (fifo_cache1_data s)(unat (fifo_cache1_put s) div 4 := param) \<and>
                fifo_intr s' = fifo_intr s OR 1 \<and>
                fifo_cache1_put s' =
                  (if fifo_cache1_put s = 0xFC then 0 else fifo_cache1_put s + 4) \<and>
                fifo_cache1_get s' = g"
    apply (rule exI [where x = s'])
    using f unfolding tf cmd p
    apply simp
    done
  qed
qed


lemmas command_eval =
  geforce_execute_command_def execute_method_def execute_object_def software_method_push_def
  geforce_update_irq_def Let_def GEFORCE_CHANNEL_COUNT_def GEFORCE_SUBCHANNEL_COUNT_def
  GEFORCE_CACHE1_SIZE_def reset_state_def reset_channel_def

text \<open>
  After reset the put index is 0. With the get index at 4 the queue holds 63 unconsumed
  entries; the deferral of method \<open>0x100\<close> writes entry 0 all the same and moves the put
  index onto the get index.
\<close>

theorem software_method_queue_put_witness:
  "unat (fifo_cache1_put reset_state) mod 4 = 0 \<and> fifo_cache1_put reset_state < 0x100 \<and>
   unat (0 :: u32) < GEFORCE_CHANNEL_COUNT \<and> unat (0 :: u32) < GEFORCE_SUBCHANNEL_COUNT \<and>
   engine (schs (channels reset_state (unat (0 :: u32))) (unat (0 :: u32))) = 0 \<and>
   (\<exists>s'. geforce_execute_command (reset_state\<lparr>fifo_cache1_get := 4\<rparr>) 0 0 0x100 7
            = Some (Inr (True, s')) \<and>
         fifo_cache1_method s' 0 = 0x400 \<and> fifo_cache1_data s' 0 = 7 \<and> fifo_intr s' = 1 \<and>
         fifo_cache1_put s' = 4 \<and> fifo_cache1_get s' = 4)"
proof -
  have al: "unat (fifo_cache1_put reset_state) mod 4 = 0"
    and lt: "fifo_cache1_put reset_state < 0x100"
    by (simp_all add: reset_state_def)
  have h: "unat (0 :: u32) < GEFORCE_CHANNEL_COUNT \<and> unat (0 :: u32) < GEFORCE_SUBCHANNEL_COUNT \<and>
           (0x40 :: u32) \<le> 0x100 \<and>
           engine (schs (channels reset_state (unat (0 :: u32))) (unat (0 :: u32))) = 0"
    by (simp add: GEFORCE_CHANNEL_COUNT_def GEFORCE_SUBCHANNEL_COUNT_def reset_state_def
        reset_channel_def)
  from software_method_queue_put [OF al lt, of 0 0 "0x100" 7, THEN conjunct2, rule_format, OF h, of 4]
  obtain s' where
    "geforce_execute_command (reset_state\<lparr>fifo_cache1_get := 4\<rparr>) 0 0 0x100 7 = Some (Inr (True, s'))"
    "fifo_cache1_method s' = (fifo_cache1_method reset_state)
       (unat (fifo_cache1_put reset_state) div 4 := push_bit 2 0x100 OR push_bit 13 0)"
    "fifo_cache1_data s' = (fifo_cache1_data reset_state)(unat (fifo_cache1_put reset_state) div 4 := 7)"
    "fifo_intr s' = fifo_intr reset_state OR 1"
    "fifo_cache1_put s' = (if fifo_cache1_put reset_state = 0xFC then 0
                          else fifo_cache1_put reset_state + 4)"
    "fifo_cache1_get s' = 4"
    by blast
  then have "geforce_execute_command (reset_state\<lparr>fifo_cache1_get := 4\<rparr>) 0 0 0x100 7
            = Some (Inr (True, s')) \<and>
         fifo_cache1_method s' 0 = 0x400 \<and> fifo_cache1_data s' 0 = 7 \<and> fifo_intr s' = 1 \<and>
         fifo_cache1_put s' = 4 \<and> fifo_cache1_get s' = 4"
    by (simp add: reset_state_def)
  then show ?thesis
    using al lt h by blast
qed

text \<open>
  Claim C10 as the specification words it fails: the put index is not always a multiple
  of 4 below the bound. A write to \<open>PFIFO_CACHE1_PUT\<close> stores any value. From 5 a deferral
  moves the index to 9; from \<open>0x400\<close> the deferral writes entry 256 of the 64-entry
  arrays.
\<close>

theorem software_method_put_counterexample:
  "fifo_cache1_put odd_put_state = 5 \<and>
   on_return fifo_cache1_put (geforce_execute_command odd_put_state 0 0 0x100 1) = Some 9 \<and>
   fifo_cache1_put overrun_put_state = 0x400 \<and>
   geforce_execute_command overrun_put_state 0 0 0x100 1 = Some (Inl Out_Of_Bounds)"
  by (simp add: command_eval on_return_def odd_put_state_def overrun_put_state_def
      mmio_write_cache1_put_def)

section \<open>The command loop\<close>

lemma fifo_step_idle:
  assumes c: "unat chid < GEFORCE_CHANNEL_COUNT"
    and idle: "mcnt (dma_state (channels s (unat chid))) = 0"
  shows "fifo_step s chid = fifo_header_turn s chid"
  using c idle by (simp add: fifo_step_def fifo_header_turn_def Let_def)

lemma dma_state_next:
  "(if \<not> ni ds then ds\<lparr>mthd := mthd ds + 1\<rparr> else ds)
     \<lparr>mcnt := mcnt (if \<not> ni ds then ds\<lparr>mthd := mthd ds + 1\<rparr> else ds) - 1\<rparr>
   = ds\<lparr>mthd := (if ni ds then mthd ds else mthd ds + 1), mcnt := mcnt ds - 1\<rparr>"
  by simp

lemma fifo_step_pending:
  assumes c: "unat chid < GEFORCE_CHANNEL_COUNT"
    and ds: "dma_state (channels s (unat chid)) = ds"
    and pend: "mcnt ds \<noteq> 0"
  shows "fifo_step s chid =
           fifo_dispatch_turn s chid (subc ds) (mthd ds)
             (ds\<lparr>mthd := (if ni ds then mthd ds else mthd ds + 1), mcnt := mcnt ds - 1\<rparr>)"
proof (cases "fifo_fetch s")
  case (Inl e)
  then show ?thesis
    by (simp add: fifo_step_def fifo_dispatch_turn_def)
next
  case (Inr w)
  let ?s1 = "s\<lparr>fifo_cache1_dma_get := fifo_cache1_dma_get s + 4\<rparr>"
  let ?cmd = "geforce_execute_command ?s1 chid (subc ds) (mthd ds) w"
  show ?thesis
  proof (cases ?cmd)
    case None
    then show ?thesis
      using c ds pend Inr by (simp add: fifo_step_def fifo_dispatch_turn_def Let_def)
  next
    case (Some r)
    show ?thesis
    proof (cases r)
      case (Inl e)
      with Some show ?thesis
        using c ds pend \<open>fifo_fetch s = Inr w\<close>
        by (simp add: fifo_step_def fifo_dispatch_turn_def Let_def)
    next
      case (Inr v)
      obtain ok t where v: "v = (ok, t)" by (cases v)
      have cmd: "?cmd = Some (Inr (ok, t))"
        using Some Inr v by simp
      from execute_command_ring [OF cmd] have ok: ok
        and sp: "same_pull (channels ?s1 (unat chid)) (channels t (unat chid))"
        by simp_all
      from sp ds have d: "dma_state (channels t (unat chid)) = ds"
        by (simp add: same_pull_def)
      show ?thesis
        using c ds pend \<open>fifo_fetch s = Inr w\<close> cmd ok d
        by (simp add: fifo_step_def fifo_dispatch_turn_def Let_def)
    qed
  qed
qed

lemma dispatch_turn_result:
  assumes "fifo_dispatch_turn s chid sc m ds' = Some (Inr (b, s'))"
  shows "\<not> b \<and> fifo_cache1_dma_get s' = fifo_cache1_dma_get s + 4 \<and>
         fifo_cache1_dma_put s' = fifo_cache1_dma_put s \<and>
         fifo_cache1_dma_instance s' = fifo_cache1_dma_instance s \<and>
         fifo_cache1_push1 s' = fifo_cache1_push1 s \<and>
         dma_state (channels s' (unat chid)) = ds'"
proof -
  from assms obtain w ok t where
    cmd: "geforce_execute_command (s\<lparr>fifo_cache1_dma_get := fifo_cache1_dma_get s + 4\<rparr>)
            chid sc m w = Some (Inr (ok, t))"
    and r: "b = False"
      "s' = t\<lparr>channels := (channels t)(unat chid := (channels t (unat chid))\<lparr>dma_state := ds'\<rparr>)\<rparr>"
    by (auto simp: fifo_dispatch_turn_def bind_o_Inr)
  from execute_command_ring [OF cmd] show ?thesis
    by (simp add: r)
qed


lemma header_run3:
  "fifo_parse_header s c 0x000C4400 =
     s\<lparr>channels := (channels s)
          (c := (channels s c)\<lparr>dma_state := \<lparr>mthd = 0x100, subc = 2, mcnt = 3, ni = False\<rparr>\<rparr>)\<rparr>"
  by (simp add: fifo_parse_header_def Let_def)

text \<open>
  Claim C6. Let no run be pending on the channel and let the word at the get cursor be
  \<open>0x000C4400\<close>, the header with run length 3, subchannel 2, method \<open>0x100\<close>,
  non-increment 0. The turn of the loop that fetches it dispatches nothing and leaves
  the run \<open>(0x100, 2, 3)\<close> pending. Each of the next three turns is a dispatch turn: it
  fetches one word, advances the get cursor by 4 and dispatches that word as the
  parameter of method \<open>0x100\<close>, \<open>0x101\<close>, \<open>0x102\<close>, in that order, on subchannel 2; a
  turn that returns never leaves the loop. After the third the pending run length is
  0, and the turn that follows decodes a header again.
\<close>

theorem method_header_run:
  assumes c: "unat chid < GEFORCE_CHANNEL_COUNT"
    and idle: "mcnt (dma_state (channels s0 (unat chid))) = 0"
    and hdr: "fifo_fetch s0 = Inr 0x000C4400"
  shows "\<exists>s1. fifo_step s0 chid = Some (Inr (False, s1)) \<and>
      s1 = s0\<lparr>fifo_cache1_dma_get := fifo_cache1_dma_get s0 + 4,
              channels := (channels s0)(unat chid := (channels s0 (unat chid))
                \<lparr>dma_state := \<lparr>mthd = 0x100, subc = 2, mcnt = 3, ni = False\<rparr>\<rparr>)\<rparr> \<and>
      fifo_step s1 chid =
        fifo_dispatch_turn s1 chid 2 0x100 \<lparr>mthd = 0x101, subc = 2, mcnt = 2, ni = False\<rparr> \<and>
      (\<forall>b2 s2. fifo_step s1 chid = Some (Inr (b2, s2)) \<longrightarrow>
         \<not> b2 \<and> fifo_cache1_dma_get s2 = fifo_cache1_dma_get s0 + 8 \<and>
         fifo_step s2 chid =
           fifo_dispatch_turn s2 chid 2 0x101 \<lparr>mthd = 0x102, subc = 2, mcnt = 1, ni = False\<rparr> \<and>
         (\<forall>b3 s3. fifo_step s2 chid = Some (Inr (b3, s3)) \<longrightarrow>
            \<not> b3 \<and> fifo_cache1_dma_get s3 = fifo_cache1_dma_get s0 + 12 \<and>
            fifo_step s3 chid =
              fifo_dispatch_turn s3 chid 2 0x102 \<lparr>mthd = 0x103, subc = 2, mcnt = 0, ni = False\<rparr> \<and>
            (\<forall>b4 s4. fifo_step s3 chid = Some (Inr (b4, s4)) \<longrightarrow>
               \<not> b4 \<and> fifo_cache1_dma_get s4 = fifo_cache1_dma_get s0 + 16 \<and>
               mcnt (dma_state (channels s4 (unat chid))) = 0 \<and>
               fifo_step s4 chid = fifo_header_turn s4 chid)))"
proof -
  define s1 where "s1 = s0\<lparr>fifo_cache1_dma_get := fifo_cache1_dma_get s0 + 4,
              channels := (channels s0)(unat chid := (channels s0 (unat chid))
                \<lparr>dma_state := \<lparr>mthd = 0x100, subc = 2, mcnt = 3, ni = False\<rparr>\<rparr>)\<rparr>"
  have st0: "fifo_step s0 chid = Some (Inr (False, s1))"
    unfolding fifo_step_idle [OF c idle] fifo_header_turn_def
    by (simp add: hdr header_run3 s1_def)
  have g1: "fifo_cache1_dma_get s1 = fifo_cache1_dma_get s0 + 4"
    and d1: "dma_state (channels s1 (unat chid)) = \<lparr>mthd = 0x100, subc = 2, mcnt = 3, ni = False\<rparr>"
    by (simp_all add: s1_def)
  have t1: "fifo_step s1 chid =
        fifo_dispatch_turn s1 chid 2 0x100 \<lparr>mthd = 0x101, subc = 2, mcnt = 2, ni = False\<rparr>"
    using fifo_step_pending [OF c d1] by simp
  have rest: "\<not> b2 \<and> fifo_cache1_dma_get s2 = fifo_cache1_dma_get s0 + 8 \<and>
         fifo_step s2 chid =
           fifo_dispatch_turn s2 chid 2 0x101 \<lparr>mthd = 0x102, subc = 2, mcnt = 1, ni = False\<rparr> \<and>
         (\<forall>b3 s3. fifo_step s2 chid = Some (Inr (b3, s3)) \<longrightarrow>
            \<not> b3 \<and> fifo_cache1_dma_get s3 = fifo_cache1_dma_get s0 + 12 \<and>
            fifo_step s3 chid =
              fifo_dispatch_turn s3 chid 2 0x102 \<lparr>mthd = 0x103, subc = 2, mcnt = 0, ni = False\<rparr> \<and>
            (\<forall>b4 s4. fifo_step s3 chid = Some (Inr (b4, s4)) \<longrightarrow>
               \<not> b4 \<and> fifo_cache1_dma_get s4 = fifo_cache1_dma_get s0 + 16 \<and>
               mcnt (dma_state (channels s4 (unat chid))) = 0 \<and>
               fifo_step s4 chid = fifo_header_turn s4 chid))"
    if st1: "fifo_step s1 chid = Some (Inr (b2, s2))" for b2 s2
  proof -
    from st1 [unfolded t1, THEN dispatch_turn_result]
    have b2: "\<not> b2" and g2: "fifo_cache1_dma_get s2 = fifo_cache1_dma_get s0 + 8"
      and d2: "dma_state (channels s2 (unat chid)) = \<lparr>mthd = 0x101, subc = 2, mcnt = 2, ni = False\<rparr>"
      by (simp_all add: g1)
    have t2: "fifo_step s2 chid =
           fifo_dispatch_turn s2 chid 2 0x101 \<lparr>mthd = 0x102, subc = 2, mcnt = 1, ni = False\<rparr>"
      using fifo_step_pending [OF c d2] by simp
    have rest3: "\<not> b3 \<and> fifo_cache1_dma_get s3 = fifo_cache1_dma_get s0 + 12 \<and>
            fifo_step s3 chid =
              fifo_dispatch_turn s3 chid 2 0x102 \<lparr>mthd = 0x103, subc = 2, mcnt = 0, ni = False\<rparr> \<and>
            (\<forall>b4 s4. fifo_step s3 chid = Some (Inr (b4, s4)) \<longrightarrow>
               \<not> b4 \<and> fifo_cache1_dma_get s4 = fifo_cache1_dma_get s0 + 16 \<and>
               mcnt (dma_state (channels s4 (unat chid))) = 0 \<and>
               fifo_step s4 chid = fifo_header_turn s4 chid)"
      if st2: "fifo_step s2 chid = Some (Inr (b3, s3))" for b3 s3
    proof -
      from st2 [unfolded t2, THEN dispatch_turn_result]
      have b3: "\<not> b3" and g3: "fifo_cache1_dma_get s3 = fifo_cache1_dma_get s0 + 12"
        and d3: "dma_state (channels s3 (unat chid)) = \<lparr>mthd = 0x102, subc = 2, mcnt = 1, ni = False\<rparr>"
        by (simp_all add: g2)
      have t3: "fifo_step s3 chid =
              fifo_dispatch_turn s3 chid 2 0x102 \<lparr>mthd = 0x103, subc = 2, mcnt = 0, ni = False\<rparr>"
        using fifo_step_pending [OF c d3] by simp
      have rest4: "\<not> b4 \<and> fifo_cache1_dma_get s4 = fifo_cache1_dma_get s0 + 16 \<and>
               mcnt (dma_state (channels s4 (unat chid))) = 0 \<and>
               fifo_step s4 chid = fifo_header_turn s4 chid"
        if st3: "fifo_step s3 chid = Some (Inr (b4, s4))" for b4 s4
      proof -
        from st3 [unfolded t3, THEN dispatch_turn_result]
        have b4: "\<not> b4" and g4: "fifo_cache1_dma_get s4 = fifo_cache1_dma_get s0 + 16"
          and d4: "dma_state (channels s4 (unat chid)) = \<lparr>mthd = 0x103, subc = 2, mcnt = 0, ni = False\<rparr>"
          by (simp_all add: g3)
        from d4 have m4: "mcnt (dma_state (channels s4 (unat chid))) = 0" by simp
        from b4 g4 m4 fifo_step_idle [OF c m4] show ?thesis by simp
      qed
      from b3 g3 t3 rest4 show ?thesis by blast
    qed
    from b2 g2 t2 rest3 show ?thesis by blast
  qed
  show ?thesis
    apply (rule exI [where x = s1])
    apply (rule conjI, rule st0)
    apply (rule conjI, simp only: s1_def)
    apply (rule conjI, rule t1)
    apply (rule allI, rule allI, rule impI)
    apply (erule rest)
    done
qed


lemmas ring_eval =
  run3_state_def run3_pending_state_def ring_poke_def ring_base_state_def ramin_poke_def
  reset_state_def reset_channel_def
  fifo_fetch_def geforce_dma_read32_def dma_addr_abs_def geforce_dma_lin_lookup_def
  geforce_ramin_read32_def geforce_vram_read32_def in_vram_def ld32_def le32_def st32_def

lemmas loop_eval =
  geforce_fifo_process_def fifo_idle_def fifo_loop.simps fifo_step_def fifo_parse_header_def
  command_eval

text \<open>
  The ring of \<open>run3_state\<close>: the header turn gives \<open>run3_pending_state\<close>; the next turn
  dispatches method \<open>0x100\<close> with parameter \<open>0xA1\<close>, which the software engine puts in
  entry 0 of its queue; when \<open>geforce_fifo_process\<close> returns, the queue holds the three
  methods with their parameters, in order, and no run is pending.
\<close>

theorem method_header_run_witness:
  "unat (0 :: u32) < GEFORCE_CHANNEL_COUNT \<and>
   mcnt (dma_state (channels run3_state (unat (0 :: u32)))) = 0 \<and>
   fifo_fetch run3_state = Inr 0x000C4400 \<and>
   fifo_step run3_state 0 = Some (Inr (False, run3_pending_state)) \<and>
   on_return (\<lambda>s. (fifo_cache1_dma_get s, dma_state (channels s 0),
                    fifo_cache1_method s 0, fifo_cache1_data s 0))
     (fifo_step run3_pending_state 0)
     = Some (8, \<lparr>mthd = 0x101, subc = 2, mcnt = 2, ni = False\<rparr>, 0x4400, 0xA1) \<and>
   on_exit (\<lambda>s. (fifo_cache1_dma_get s, mcnt (dma_state (channels s 0)),
                  map (fifo_cache1_method s) [0, 1, 2], map (fifo_cache1_data s) [0, 1, 2]))
     (geforce_fifo_process run3_state 0)
     = Some (16, 0, [0x4400, 0x4404, 0x4408], [0xA1, 0xA2, 0xA3])"
proof -
  have c: "unat (0 :: u32) < GEFORCE_CHANNEL_COUNT"
    by (simp add: GEFORCE_CHANNEL_COUNT_def)
  have idle: "mcnt (dma_state (channels run3_state (unat (0 :: u32)))) = 0"
    by (simp add: ring_eval)
  have hdr: "fifo_fetch run3_state = Inr 0x000C4400"
    by (simp add: ring_eval)
  from method_header_run [OF c idle hdr] obtain s1 where
    st0: "fifo_step run3_state 0 = Some (Inr (False, s1))"
    and s1: "s1 = run3_state\<lparr>fifo_cache1_dma_get := fifo_cache1_dma_get run3_state + 4,
              channels := (channels run3_state)(unat (0 :: u32) := (channels run3_state (unat (0 :: u32)))
                \<lparr>dma_state := \<lparr>mthd = 0x100, subc = 2, mcnt = 3, ni = False\<rparr>\<rparr>)\<rparr>"
    by blast
  have "s1 = run3_pending_state"
    unfolding s1 by (simp add: ring_eval)
  with st0 have first: "fifo_step run3_state 0 = Some (Inr (False, run3_pending_state))"
    by simp
  have second: "on_return (\<lambda>s. (fifo_cache1_dma_get s, dma_state (channels s 0),
                    fifo_cache1_method s 0, fifo_cache1_data s 0))
     (fifo_step run3_pending_state 0)
     = Some (8, \<lparr>mthd = 0x101, subc = 2, mcnt = 2, ni = False\<rparr>, 0x4400, 0xA1)"
    by (simp add: loop_eval ring_eval on_return_def)
  have whole: "on_exit (\<lambda>s. (fifo_cache1_dma_get s, mcnt (dma_state (channels s 0)),
                  map (fifo_cache1_method s) [0, 1, 2], map (fifo_cache1_data s) [0, 1, 2]))
     (geforce_fifo_process run3_state 0)
     = Some (16, 0, [0x4400, 0x4404, 0x4408], [0xA1, 0xA2, 0xA3])"
    by (simp add: loop_eval ring_eval on_exit_def)
  show ?thesis
    by (intro conjI c idle hdr first second whole)
qed

text \<open>
  Claim C1, as the code has it. \<open>geforce_execute_command\<close> returns \<open>true\<close> whenever it
  returns, so no turn of the command loop leaves the loop through \<open>break\<close>, and the get
  cursor is never rewound. A turn that dispatches a method \<open>0x40\<close> or above to a
  subchannel of the software engine puts the method and its parameter in the
  software-method queue, raises FIFO interrupt source bit 0, and goes on: the get
  cursor has advanced by 4 and the pending run is one shorter.
\<close>

theorem software_method_continues:
  "(\<forall>ok s'. geforce_execute_command s chid sc m p = Some (Inr (ok, s')) \<longrightarrow> ok) \<and>
   (\<forall>brk s'. fifo_step s chid = Some (Inr (brk, s')) \<longrightarrow> \<not> brk) \<and>
   (unat chid < GEFORCE_CHANNEL_COUNT \<and> dma_state (channels s (unat chid)) = ds \<and>
    mcnt ds \<noteq> 0 \<and> 0x40 \<le> mthd ds \<and> unat (subc ds) < GEFORCE_SUBCHANNEL_COUNT \<and>
    engine (schs (channels s (unat chid)) (unat (subc ds))) = 0 \<and>
    fifo_fetch s = Inr w \<and> unat (fifo_cache1_put s div 4) < GEFORCE_CACHE1_SIZE \<longrightarrow>
    (\<exists>s'. fifo_step s chid = Some (Inr (False, s')) \<and>
          fifo_cache1_dma_get s' = fifo_cache1_dma_get s + 4 \<and>
          dma_state (channels s' (unat chid)) =
            ds\<lparr>mthd := (if ni ds then mthd ds else mthd ds + 1), mcnt := mcnt ds - 1\<rparr> \<and>
          fifo_cache1_method s' (unat (fifo_cache1_put s div 4)) =
            push_bit 2 (mthd ds) OR push_bit 13 (subc ds) \<and>
          fifo_cache1_data s' (unat (fifo_cache1_put s div 4)) = w \<and>
          fifo_intr s' = fifo_intr s OR 1))"
proof (rule conjI)
  show a: "\<forall>ok s'. geforce_execute_command s chid sc m p = Some (Inr (ok, s')) \<longrightarrow> ok"
    using execute_command_ring by blast
next
  show "(\<forall>brk s'. fifo_step s chid = Some (Inr (brk, s')) \<longrightarrow> \<not> brk) \<and>
   (unat chid < GEFORCE_CHANNEL_COUNT \<and> dma_state (channels s (unat chid)) = ds \<and>
    mcnt ds \<noteq> 0 \<and> 0x40 \<le> mthd ds \<and> unat (subc ds) < GEFORCE_SUBCHANNEL_COUNT \<and>
    engine (schs (channels s (unat chid)) (unat (subc ds))) = 0 \<and>
    fifo_fetch s = Inr w \<and> unat (fifo_cache1_put s div 4) < GEFORCE_CACHE1_SIZE \<longrightarrow>
    (\<exists>s'. fifo_step s chid = Some (Inr (False, s')) \<and>
          fifo_cache1_dma_get s' = fifo_cache1_dma_get s + 4 \<and>
          dma_state (channels s' (unat chid)) =
            ds\<lparr>mthd := (if ni ds then mthd ds else mthd ds + 1), mcnt := mcnt ds - 1\<rparr> \<and>
          fifo_cache1_method s' (unat (fifo_cache1_put s div 4)) =
            push_bit 2 (mthd ds) OR push_bit 13 (subc ds) \<and>
          fifo_cache1_data s' (unat (fifo_cache1_put s div 4)) = w \<and>
          fifo_intr s' = fifo_intr s OR 1))"
  proof (rule conjI)
    show "\<forall>brk s'. fifo_step s chid = Some (Inr (brk, s')) \<longrightarrow> \<not> brk"
    proof (intro allI impI)
      fix brk s'
      assume st: "fifo_step s chid = Some (Inr (brk, s'))"
      then have c: "unat chid < GEFORCE_CHANNEL_COUNT"
        by (auto simp: fifo_step_def bind_o_Inr Let_def split: if_splits)
      show "\<not> brk"
      proof (cases "mcnt (dma_state (channels s (unat chid))) = 0")
        case True
        from st [unfolded fifo_step_idle [OF c True]] show ?thesis
          by (auto simp: fifo_header_turn_def bind_o_Inr)
      next
        case False
        from st [unfolded fifo_step_pending [OF c refl False], THEN dispatch_turn_result]
        show ?thesis by simp
      qed
    qed
  next
    show "unat chid < GEFORCE_CHANNEL_COUNT \<and> dma_state (channels s (unat chid)) = ds \<and>
    mcnt ds \<noteq> 0 \<and> 0x40 \<le> mthd ds \<and> unat (subc ds) < GEFORCE_SUBCHANNEL_COUNT \<and>
    engine (schs (channels s (unat chid)) (unat (subc ds))) = 0 \<and>
    fifo_fetch s = Inr w \<and> unat (fifo_cache1_put s div 4) < GEFORCE_CACHE1_SIZE \<longrightarrow>
    (\<exists>s'. fifo_step s chid = Some (Inr (False, s')) \<and>
          fifo_cache1_dma_get s' = fifo_cache1_dma_get s + 4 \<and>
          dma_state (channels s' (unat chid)) =
            ds\<lparr>mthd := (if ni ds then mthd ds else mthd ds + 1), mcnt := mcnt ds - 1\<rparr> \<and>
          fifo_cache1_method s' (unat (fifo_cache1_put s div 4)) =
            push_bit 2 (mthd ds) OR push_bit 13 (subc ds) \<and>
          fifo_cache1_data s' (unat (fifo_cache1_put s div 4)) = w \<and>
          fifo_intr s' = fifo_intr s OR 1)"
    proof
      assume h: "unat chid < GEFORCE_CHANNEL_COUNT \<and> dma_state (channels s (unat chid)) = ds \<and>
        mcnt ds \<noteq> 0 \<and> 0x40 \<le> mthd ds \<and> unat (subc ds) < GEFORCE_SUBCHANNEL_COUNT \<and>
        engine (schs (channels s (unat chid)) (unat (subc ds))) = 0 \<and>
        fifo_fetch s = Inr w \<and> unat (fifo_cache1_put s div 4) < GEFORCE_CACHE1_SIZE"
      then have c: "unat chid < GEFORCE_CHANNEL_COUNT"
        and ds: "dma_state (channels s (unat chid)) = ds" and pend: "mcnt ds \<noteq> 0"
        by simp_all
      have mm: "mthd ds \<noteq> 0" "mthd ds \<noteq> 0x14"
        using h by auto
      define t where "t = s\<lparr>fifo_cache1_dma_get := fifo_cache1_dma_get s + 4\<rparr>"
      have cmd: "\<exists>t'. geforce_execute_command t chid (subc ds) (mthd ds) w = Some (Inr (True, t')) \<and>
          fifo_cache1_method t' (unat (fifo_cache1_put s div 4)) =
            push_bit 2 (mthd ds) OR push_bit 13 (subc ds) \<and>
          fifo_cache1_data t' (unat (fifo_cache1_put s div 4)) = w \<and>
          fifo_intr t' = fifo_intr s OR 1"
        using h mm
        by (simp add: geforce_execute_command_def execute_method_def execute_object_def
            software_method_push_def geforce_update_irq_def Let_def t_def)
      then obtain t' where
        ex: "geforce_execute_command t chid (subc ds) (mthd ds) w = Some (Inr (True, t'))"
        and q: "fifo_cache1_method t' (unat (fifo_cache1_put s div 4)) =
            push_bit 2 (mthd ds) OR push_bit 13 (subc ds)"
          "fifo_cache1_data t' (unat (fifo_cache1_put s div 4)) = w"
          "fifo_intr t' = fifo_intr s OR 1"
        by blast
      define s' where "s' = t'\<lparr>channels := (channels t')(unat chid := (channels t' (unat chid))
          \<lparr>dma_state := ds\<lparr>mthd := (if ni ds then mthd ds else mthd ds + 1),
                            mcnt := mcnt ds - 1\<rparr>\<rparr>)\<rparr>"
      have st: "fifo_step s chid = Some (Inr (False, s'))"
        unfolding fifo_step_pending [OF c ds pend] fifo_dispatch_turn_def
        using h ex by (simp add: t_def s'_def)
      from st [unfolded fifo_step_pending [OF c ds pend], THEN dispatch_turn_result]
      have r: "fifo_cache1_dma_get s' = fifo_cache1_dma_get s + 4"
        "dma_state (channels s' (unat chid)) =
            ds\<lparr>mthd := (if ni ds then mthd ds else mthd ds + 1), mcnt := mcnt ds - 1\<rparr>"
        by simp_all
      have q': "fifo_cache1_method s' (unat (fifo_cache1_put s div 4)) =
            push_bit 2 (mthd ds) OR push_bit 13 (subc ds)"
          "fifo_cache1_data s' (unat (fifo_cache1_put s div 4)) = w"
          "fifo_intr s' = fifo_intr s OR 1"
        using q by (simp_all add: s'_def)
      show "\<exists>s'. fifo_step s chid = Some (Inr (False, s')) \<and>
          fifo_cache1_dma_get s' = fifo_cache1_dma_get s + 4 \<and>
          dma_state (channels s' (unat chid)) =
            ds\<lparr>mthd := (if ni ds then mthd ds else mthd ds + 1), mcnt := mcnt ds - 1\<rparr> \<and>
          fifo_cache1_method s' (unat (fifo_cache1_put s div 4)) =
            push_bit 2 (mthd ds) OR push_bit 13 (subc ds) \<and>
          fifo_cache1_data s' (unat (fifo_cache1_put s div 4)) = w \<and>
          fifo_intr s' = fifo_intr s OR 1"
        by (intro exI [where x = s'] conjI st r q')
    qed
  qed
qed


text \<open>
  The first parameter of the run in \<open>run3_pending_state\<close>: the turn queues method \<open>0x100\<close>
  with parameter \<open>0xA1\<close> and leaves the get cursor at 8.
\<close>

theorem software_method_continues_witness:
  "unat (0 :: u32) < GEFORCE_CHANNEL_COUNT \<and>
   dma_state (channels run3_pending_state (unat (0 :: u32))) =
     \<lparr>mthd = 0x100, subc = 2, mcnt = 3, ni = False\<rparr> \<and>
   unat (2 :: u32) < GEFORCE_SUBCHANNEL_COUNT \<and>
   engine (schs (channels run3_pending_state (unat (0 :: u32))) (unat (2 :: u32))) = 0 \<and>
   fifo_fetch run3_pending_state = Inr 0xA1 \<and>
   unat (fifo_cache1_put run3_pending_state div 4) < GEFORCE_CACHE1_SIZE \<and>
   (\<exists>s'. fifo_step run3_pending_state 0 = Some (Inr (False, s')) \<and>
         fifo_cache1_dma_get s' = 8 \<and>
         dma_state (channels s' 0) = \<lparr>mthd = 0x101, subc = 2, mcnt = 2, ni = False\<rparr> \<and>
         fifo_cache1_method s' 0 = 0x4400 \<and> fifo_cache1_data s' 0 = 0xA1 \<and> fifo_intr s' = 1)"
proof -
  let ?ds = "\<lparr>mthd = 0x100, subc = 2, mcnt = 3, ni = False\<rparr> :: GeForceDataState"
  have c: "unat (0 :: u32) < GEFORCE_CHANNEL_COUNT"
    by (simp add: GEFORCE_CHANNEL_COUNT_def)
  have d: "dma_state (channels run3_pending_state (unat (0 :: u32))) = ?ds"
    by (simp add: ring_eval)
  have sc: "unat (2 :: u32) < GEFORCE_SUBCHANNEL_COUNT"
    by (simp add: GEFORCE_SUBCHANNEL_COUNT_def)
  have e: "engine (schs (channels run3_pending_state (unat (0 :: u32))) (unat (2 :: u32))) = 0"
    by (simp add: ring_eval)
  have f: "fifo_fetch run3_pending_state = Inr 0xA1"
    by (simp add: ring_eval)
  have i: "unat (fifo_cache1_put run3_pending_state div 4) < GEFORCE_CACHE1_SIZE"
    by (simp add: ring_eval GEFORCE_CACHE1_SIZE_def)
  have h: "unat (0 :: u32) < GEFORCE_CHANNEL_COUNT \<and>
    dma_state (channels run3_pending_state (unat (0 :: u32))) = ?ds \<and>
    mcnt ?ds \<noteq> 0 \<and> 0x40 \<le> mthd ?ds \<and> unat (subc ?ds) < GEFORCE_SUBCHANNEL_COUNT \<and>
    engine (schs (channels run3_pending_state (unat (0 :: u32))) (unat (subc ?ds))) = 0 \<and>
    fifo_fetch run3_pending_state = Inr 0xA1 \<and>
    unat (fifo_cache1_put run3_pending_state div 4) < GEFORCE_CACHE1_SIZE"
    using c d sc e f i by simp
  from software_method_continues [of run3_pending_state 0 0 0 0 ?ds "0xA1",
      THEN conjunct2, THEN conjunct2, THEN mp, OF h]
  obtain s' where "fifo_step run3_pending_state 0 = Some (Inr (False, s'))"
    "fifo_cache1_dma_get s' = fifo_cache1_dma_get run3_pending_state + 4"
    "dma_state (channels s' (unat (0 :: u32))) =
       ?ds\<lparr>mthd := (if ni ?ds then mthd ?ds else mthd ?ds + 1), mcnt := mcnt ?ds - 1\<rparr>"
    "fifo_cache1_method s' (unat (fifo_cache1_put run3_pending_state div 4)) =
       push_bit 2 (mthd ?ds) OR push_bit 13 (subc ?ds)"
    "fifo_cache1_data s' (unat (fifo_cache1_put run3_pending_state div 4)) = 0xA1"
    "fifo_intr s' = fifo_intr run3_pending_state OR 1"
    by blast
  then have "fifo_step run3_pending_state 0 = Some (Inr (False, s')) \<and>
         fifo_cache1_dma_get s' = 8 \<and>
         dma_state (channels s' 0) = \<lparr>mthd = 0x101, subc = 2, mcnt = 2, ni = False\<rparr> \<and>
         fifo_cache1_method s' 0 = 0x4400 \<and> fifo_cache1_data s' 0 = 0xA1 \<and> fifo_intr s' = 1"
    by (simp add: ring_eval)
  then have "\<exists>s'. fifo_step run3_pending_state 0 = Some (Inr (False, s')) \<and>
         fifo_cache1_dma_get s' = 8 \<and>
         dma_state (channels s' 0) = \<lparr>mthd = 0x101, subc = 2, mcnt = 2, ni = False\<rparr> \<and>
         fifo_cache1_method s' 0 = 0x4400 \<and> fifo_cache1_data s' 0 = 0xA1 \<and> fifo_intr s' = 1"
    by (rule exI)
  with c d sc e f i show ?thesis
    by (intro conjI)
qed

text \<open>
  Claim C1 as the specification words it fails. In \<open>run3_state\<close> the three parameters at
  offsets 4, 8 and 12 go to the software engine. A loop that rewound and left at the
  first of them would return with the get cursor at 4; the code returns with the get
  cursor on the put cursor at 16, the three methods queued.
\<close>

theorem software_method_no_rewind_counterexample:
  "engine (schs (channels run3_state 0) 2) = 0 \<and>
   fifo_cache1_dma_put run3_state = 16 \<and>
   on_exit (\<lambda>s. (fifo_cache1_dma_get s, fifo_cache1_put s)) (geforce_fifo_process run3_state 0)
     = Some (16, 12)"
  by (simp add: loop_eval ring_eval on_exit_def)

end
